theory Spec2Isabelle
  imports Complex_Main "HOL-Library.Sublist"
begin

section \<open>Configuration dataclasses (config.py)\<close>

text \<open>
  A Python \<open>dict\<close> is modelled as an association list with unique keys in insertion
  order: \<open>dict_set\<close> is the assignment \<open>d[k] = v\<close> (an existing key keeps its place and
  takes the new value), \<open>map_of\<close> is the lookup.
\<close>

type_synonym ('k, 'v) dict = "('k \<times> 'v) list"

fun dict_set :: "'k \<Rightarrow> 'v \<Rightarrow> ('k, 'v) dict \<Rightarrow> ('k, 'v) dict" where
  "dict_set k v [] = [(k, v)]"
| "dict_set k v ((k', v') # d) = (if k = k' then (k, v) # d else (k', v') # dict_set k v d)"

text \<open>A dict comprehension: the items are assigned one after the other.\<close>

definition dict_of_items :: "('k \<times> 'v) list \<Rightarrow> ('k, 'v) dict" where
  "dict_of_items items = foldl (\<lambda>d (k, v). dict_set k v d) [] items"

record label =
  label_name :: string
  synonyms :: "string list"

record metric_config =
  metric_name :: string
  metric_pretty_name :: string
  metric_huggingface_id :: string
  results_key :: string

text \<open>\<open>[label.name] + label.synonyms\<close>\<close>

definition label_keys :: "label \<Rightarrow> string list" where
  "label_keys l = label_name l # synonyms l"

text \<open>\<open>DatasetConfig.id2label\<close>: \<open>[label.name for label in self.task.labels]\<close>\<close>

definition id2label :: "label list \<Rightarrow> string list" where
  "id2label labels = map label_name labels"

text \<open>
  \<open>DatasetConfig.label2id\<close>:
  \<open>{syn: idx for idx, label in enumerate(labels) for syn in [label.name] + label.synonyms}\<close>
\<close>

definition label2id_items :: "label list \<Rightarrow> (string \<times> nat) list" where
  "label2id_items labels =
     concat (map (\<lambda>(idx, l). map (\<lambda>syn. (syn, idx)) (label_keys l)) (enumerate 0 labels))"

definition label2id :: "label list \<Rightarrow> (string, nat) dict" where
  "label2id labels = dict_of_items (label2id_items labels)"

text \<open>\<open>DatasetConfig.num_labels\<close> and \<open>DatasetConfig.label_synonyms\<close>\<close>

definition num_labels :: "label list \<Rightarrow> nat" where
  "num_labels labels = length labels"

definition label_synonyms :: "label list \<Rightarrow> string list list" where
  "label_synonyms labels = map label_keys labels"

text \<open>
  The fields of \<open>EvaluationConfig\<close>, \<open>TaskConfig\<close> and \<open>ModelConfig\<close> that task.py reads.
\<close>

record evaluation_config =
  testing :: bool
  progress_bar :: bool
  track_carbon_emissions :: bool
  only_return_log :: bool

record task_config =
  task_name :: string
  task_pretty_name :: string
  metrics :: "metric_config list"
  feature_column_names :: "string list"

record model_config =
  model_id :: string
  revision :: string
  framework :: string

section \<open>Exceptions\<close>

text \<open>
  Python's built-in exception classes that task.py names or provokes. The string is
  \<open>str(e)\<close>. An exception whose class is a subclass of \<open>RuntimeError\<close>, \<open>ValueError\<close>
  or \<open>IndexError\<close> (as \<open>NotImplementedError\<close> or \<open>UnicodeError\<close>) is caught by
  \<open>except (RuntimeError, ValueError, IndexError)\<close> like its base class, and is
  \<open>Builtin\<close> of that base class here.
\<close>

datatype builtin =
  RuntimeError | ValueError | IndexError | KeyError | TypeError
  | ZeroDivisionError | UnboundLocalError

text \<open>
  Modelled from the spec: exceptions.py, which declares the harness's own exception
  classes, is not among the sources. The spec calls them configuration and environment
  errors that are fatal and never retried; they are constructors of their own here,
  none of them a subclass of \<open>RuntimeError\<close>, \<open>ValueError\<close> or \<open>IndexError\<close>.
  \<open>OtherException\<close> (class name and message) stands for an exception of a class that
  is none of the above and no subclass of \<open>RuntimeError\<close>, \<open>ValueError\<close> or
  \<open>IndexError\<close>: the handlers of the single iterations let it pass.
\<close>

datatype exn =
  Builtin builtin string
  | InvalidEvaluation string
  | InvalidFramework string
  | ModelNotTrainedForTask string string
  | MPSFallbackNotEnabled
  | PreprocessingFailed
  | UnsupportedModelType string
  | WrongFeatureColumnName string
  | OtherException string string

text \<open>
  What the runs leave behind, in order: the calls whose number and order the
  specification speaks about.
\<close>

datatype event =
  LoadModel
  | IterationStart nat
  | TrainedForTaskCheck nat
  | CarbonStart
  | CarbonStop
  | DelModel
  | DelModelDict
  | ClearMemory

text \<open>
  The global random state when \<open>load_model\<close> runs: as \<open>enforce_reproducibility\<close> left
  it, or as \<open>random.seed(703 + idx)\<close> and its siblings set it.
\<close>

datatype seed_state = Reproducible | Seeded nat

section \<open>Datasets\<close>

text \<open>
  A record of a dataset maps column names to values; a dataset is the ordered sequence
  of its records. Feature values are texts or token sequences; \<open>len\<close> of a number
  raises \<open>TypeError\<close>.
\<close>

datatype cell = Text string | Tokens "string list" | ClassLabel int

type_synonym row = "(string, cell) dict"

fun len_cell :: "cell \<Rightarrow> exn + nat" where
  "len_cell (Text s) = Inr (length s)"
| "len_cell (Tokens ts) = Inr (length ts)"
| "len_cell (ClassLabel n) = Inl (Builtin TypeError ''object of type int has no len()'')"

text \<open>\<open>lambda record: len(record[feat_column]) > 0\<close>\<close>

definition nonempty_feature :: "string \<Rightarrow> row \<Rightarrow> exn + bool" where
  "nonempty_feature feat_column record =
     (case map_of record feat_column of
        None \<Rightarrow> Inl (Builtin KeyError feat_column)
      | Some v \<Rightarrow> (case len_cell v of Inl e \<Rightarrow> Inl e | Inr n \<Rightarrow> Inr (n > 0)))"

text \<open>
  \<open>dataset.filter(function)\<close>: the function is applied to the records in order; an
  exception it raises leaves the filter. On a dataset without records it is never
  called.
\<close>

fun filter_dataset :: "('r \<Rightarrow> exn + bool) \<Rightarrow> 'r list \<Rightarrow> exn + 'r list" where
  "filter_dataset f [] = Inr []"
| "filter_dataset f (r # rs) =
     (case f r of
        Inl e \<Rightarrow> Inl e
      | Inr keep \<Rightarrow>
          (case filter_dataset f rs of
             Inl e \<Rightarrow> Inl e
           | Inr rs' \<Rightarrow> Inr (if keep then r # rs' else rs')))"

text \<open>
  The loop of \<open>Task.evaluate\<close> that removes empty examples:
  \<open>for feat_column in feature_column_names: try: dataset = dataset.filter(...)
  except KeyError: raise WrongFeatureColumnName(feat_column)\<close>
\<close>

fun remove_empty_examples :: "string list \<Rightarrow> row list \<Rightarrow> exn + row list" where
  "remove_empty_examples [] dataset = Inr dataset"
| "remove_empty_examples (feat_column # cols) dataset =
     (case filter_dataset (nonempty_feature feat_column) dataset of
        Inl (Builtin KeyError m) \<Rightarrow> Inl (WrongFeatureColumnName feat_column)
      | Inl e \<Rightarrow> Inl e
      | Inr dataset' \<Rightarrow> remove_empty_examples cols dataset')"

text \<open>
  \<open>dataset.select(indices)\<close> and \<open>Dataset.from_dict(dataset[indices])\<close>: the records
  at the indices, in their order; an index out of range raises \<open>IndexError\<close>.
\<close>

definition take_rows :: "'r list \<Rightarrow> nat list \<Rightarrow> exn + 'r list" where
  "take_rows dataset indices =
     (if list_all (\<lambda>i. i < length dataset) indices
      then Inr (map (\<lambda>i. dataset ! i) indices)
      else Inl (Builtin IndexError ''index out of range''))"

text \<open>\<open>if self.evaluation_config.testing: dataset = dataset.select(range(4))\<close>\<close>

definition truncate_if_testing :: "evaluation_config \<Rightarrow> 'r list \<Rightarrow> exn + 'r list" where
  "truncate_if_testing cfg dataset =
     (if testing cfg then take_rows dataset [0..<4] else Inr dataset)"

text \<open>
  The bootstrapped datasets:
  \<open>[Dataset.from_dict(dataset[rng.integers(0, len(dataset), len(dataset))])
    for _ in range(num_iter)]\<close>.
  The generator is numpy's; \<open>integers g low high size\<close> returns the drawn array and the
  generator's next state. \<open>bootstrap_indices\<close> is the sequence of the arrays drawn.
\<close>

type_synonym 'g integers = "'g \<Rightarrow> nat \<Rightarrow> nat \<Rightarrow> nat \<Rightarrow> nat list \<times> 'g"

fun bootstrap_indices :: "'g integers \<Rightarrow> 'g \<Rightarrow> nat \<Rightarrow> nat \<Rightarrow> nat list list \<times> 'g" where
  "bootstrap_indices integers rng n 0 = ([], rng)"
| "bootstrap_indices integers rng n (Suc k) =
     (case integers rng 0 n n of
        (indices, rng') \<Rightarrow>
          (case bootstrap_indices integers rng' n k of
             (rest, rng'') \<Rightarrow> (indices # rest, rng'')))"

fun bootstrapped_datasets :: "'g integers \<Rightarrow> 'g \<Rightarrow> 'r list \<Rightarrow> nat \<Rightarrow> exn + 'r list list" where
  "bootstrapped_datasets integers rng dataset 0 = Inr []"
| "bootstrapped_datasets integers rng dataset (Suc k) =
     (case integers rng 0 (length dataset) (length dataset) of
        (indices, rng') \<Rightarrow>
          (case take_rows dataset indices of
             Inl e \<Rightarrow> Inl e
           | Inr b \<Rightarrow>
               (case bootstrapped_datasets integers rng' dataset k of
                  Inl e \<Rightarrow> Inl e
                | Inr bs \<Rightarrow> Inr (b # bs))))"

text \<open>
  What numpy promises of \<open>rng.integers(0, n, n)\<close>: \<open>n\<close> values, each in \<open>[0, n)\<close>.
\<close>

definition integers_in_range :: "'g integers \<Rightarrow> bool" where
  "integers_in_range integers =
     (\<forall>rng n. length (fst (integers rng 0 n n)) = n
        \<and> list_all (\<lambda>i. i < n) (fst (integers rng 0 n n)))"

section \<open>The task and its collaborators\<close>

text \<open>
  The collaborators of \<open>Task\<close>: the abstract methods a concrete task supplies, the
  external libraries and the modules of the package that task.py imports. Each is a
  function of what the call passes; one that can raise returns \<open>exn + _\<close>, with \<open>Inl\<close>
  the exception raised.
  \<^item> \<open>'m\<close>: a loaded model dictionary (model and tokenizer),
    \<open>'c\<close>: a data collator, \<open>'x\<close>: a preprocessed example, \<open>'p\<close>: the prediction for one
    example, \<open>'y\<close>: a prepared prediction or label, \<open>'g\<close>: the state of the random
    generator, \<open>'o\<close>: what \<open>log_scores\<close> returns.
  \<^item> \<open>model_predictions\<close> is one pass of the batch loop: collation, \<open>_prepare_batch\<close>,
    \<open>_get_model_predictions\<close> and the conversion to a list.
  \<^item> \<open>metric_compute\<close> is \<open>metric.compute(...)\<close> followed by the lookup of
    \<open>results_key\<close>; \<open>None\<close> when \<open>compute\<close> returns \<open>None\<close>.
  \<^item> \<open>final_emissions_data idx\<close> is the tracker's reading after iteration \<open>idx\<close>:
    emissions and energy consumed.
  \<^item> \<open>EMISSIONS\<close> and \<open>POWER\<close> are the constants of metric_configs.py.
\<close>

record ('m, 'c, 'x, 'p, 'y, 'g, 'o) env =
  get_model_config :: "string \<Rightarrow> exn + model_config"
  enforce_reproducibility :: "string \<Rightarrow> 'g"
  load_model :: "seed_state \<Rightarrow> model_config \<Rightarrow> exn + 'm"
  load_data :: "task_config \<Rightarrow> exn + row list"
  integers :: "'g integers"
  preprocess_data :: "string \<Rightarrow> 'm \<Rightarrow> row list \<Rightarrow> exn + 'x list"
  load_data_collator :: "'m \<Rightarrow> exn + 'c"
  model_predictions :: "'m \<Rightarrow> 'c \<Rightarrow> 'x list \<Rightarrow> exn + 'p list"
  get_spacy_predictions :: "'m \<Rightarrow> 'x list \<Rightarrow> nat \<Rightarrow> exn + 'p list"
  prepare_predictions_and_labels ::
    "'m option \<Rightarrow> 'p list \<Rightarrow> row list \<Rightarrow> 'x list \<Rightarrow> exn + ('y list \<times> 'y list) list"
  check_if_model_is_trained_for_task :: "'p list \<Rightarrow> bool"
  metric_compute :: "metric_config \<Rightarrow> 'y list \<Rightarrow> 'y list \<Rightarrow> exn + real option"
  final_emissions_data :: "nat \<Rightarrow> real \<times> real"
  EMISSIONS :: metric_config
  POWER :: metric_config
  log_scores :: "string \<Rightarrow> metric_config list \<Rightarrow> (string, real) dict list \<Rightarrow> string \<Rightarrow> bool \<Rightarrow> 'o"

text \<open>The local variables of a single iteration that its handler deletes.\<close>

record 'm frame =
  model_dict :: "'m option"
  model :: "'m option"

text \<open>
  What a single iteration returns (\<open>Union[dict, Exception]\<close>): the scores, or the
  exception it caught, which is of a built-in class.
\<close>

datatype iteration_value = ScoreDict "(string, real) dict" | ErrorValue builtin string

section \<open>A single iteration\<close>

text \<open>
  \<open>DataLoader(prepared_dataset, batch_size=batch_size, shuffle=False, ...)\<close>: the
  examples in order, \<open>batch_size\<close> at a time, the final batch shorter when they do not
  divide.
\<close>

function chunks :: "nat \<Rightarrow> 'a list \<Rightarrow> 'a list list" where
  "chunks n xs = (if n = 0 \<or> xs = [] then [] else take n xs # chunks n (drop n xs))"
  by pat_completeness auto
termination
  by (relation "measure (\<lambda>(n, xs). length xs)") auto

declare chunks.simps [simp del]

text \<open>
  The batch loop: \<open>all_predictions\<close> collects the predictions of every batch;
  \<open>model_predictions\<close> is the variable the loop assigns, unbound (\<open>None\<close>) before the
  first batch and the final batch's predictions after the loop.
\<close>

fun predict_batches ::
  "('x list \<Rightarrow> exn + 'p list) \<Rightarrow> 'x list list \<Rightarrow> 'p list \<Rightarrow> 'p list option
   \<Rightarrow> exn + ('p list \<times> 'p list option)" where
  "predict_batches predict [] all_predictions last_predictions = Inr (all_predictions, last_predictions)"
| "predict_batches predict (batch # batches) all_predictions last_predictions =
     (case predict batch of
        Inl e \<Rightarrow> Inl e
      | Inr ps \<Rightarrow> predict_batches predict batches (all_predictions @ ps) (Some ps))"

text \<open>
  \<open>if len(pairs) == 1 and len(self.task_config.metrics) > 1: pairs *= len(metrics)\<close>
\<close>

definition replicate_pairs :: "'a list \<Rightarrow> nat \<Rightarrow> 'a list" where
  "replicate_pairs pairs k =
     (if length pairs = 1 \<and> k > 1 then concat (replicate k pairs) else pairs)"

text \<open>
  \<open>Task._compute_metrics\<close>: the loop over \<open>zip(self.task_config.metrics,
  predictions_and_labels)\<close>, filling the dictionary \<open>results\<close>.
\<close>

fun compute_metrics_loop ::
  "(metric_config \<Rightarrow> 'y list \<Rightarrow> 'y list \<Rightarrow> exn + real option)
   \<Rightarrow> (metric_config \<times> ('y list \<times> 'y list)) list \<Rightarrow> (string, real) dict
   \<Rightarrow> exn + (string, real) dict" where
  "compute_metrics_loop compute [] results = Inr results"
| "compute_metrics_loop compute ((metric_cfg, (predictions, labels)) # rest) results =
     (case compute metric_cfg predictions labels of
        Inl e \<Rightarrow> Inl e
      | Inr None \<Rightarrow> compute_metrics_loop compute rest results
      | Inr (Some score) \<Rightarrow>
          compute_metrics_loop compute rest (dict_set (metric_name metric_cfg) score results))"

definition compute_metrics ::
  "('m, 'c, 'x, 'p, 'y, 'g, 'o) env \<Rightarrow> task_config \<Rightarrow> ('y list \<times> 'y list) list
   \<Rightarrow> exn + (string, real) dict" where
  "compute_metrics E tc predictions_and_labels =
     compute_metrics_loop (metric_compute E) (zip (metrics tc) predictions_and_labels) []"

text \<open>
  The check of the first iteration: \<open>if idx == 0: if not
  self._check_if_model_is_trained_for_task(model_predictions=model_predictions): raise
  ModelNotTrainedForTask(...)\<close>. The variable \<open>model_predictions\<close> is unbound when the
  batch loop of the PyTorch path had no batch. The result is the exception raised, if
  any, and the events.
\<close>

definition first_iteration_check ::
  "('m, 'c, 'x, 'p, 'y, 'g, 'o) env \<Rightarrow> task_config \<Rightarrow> model_config \<Rightarrow> nat
   \<Rightarrow> 'p list option \<Rightarrow> exn option \<times> event list" where
  "first_iteration_check E tc mc idx predictions =
     (if idx = 0 then
        (case predictions of
           None \<Rightarrow> (Some (Builtin UnboundLocalError ''model_predictions''), [])
         | Some ps \<Rightarrow>
             (if \<not> check_if_model_is_trained_for_task E ps
              then (Some (ModelNotTrainedForTask (task_name tc) (framework mc)),
                    [TrainedForTaskCheck idx])
              else (None, [TrainedForTaskCheck idx])))
      else (None, []))"

text \<open>
  The end of the \<open>try\<close> block: the tracker is stopped and the emissions are stored in
  the scores, scaled by \<open>1_000_000 / len(prepared_dataset)\<close>.
\<close>

definition store_emissions ::
  "('m, 'c, 'x, 'p, 'y, 'g, 'o) env \<Rightarrow> evaluation_config \<Rightarrow> nat \<Rightarrow> nat
   \<Rightarrow> (string, real) dict \<Rightarrow> (exn + (string, real) dict) \<times> event list" where
  "store_emissions E cfg idx len_prepared scores =
     (if track_carbon_emissions cfg then
        (if len_prepared = 0
         then (Inl (Builtin ZeroDivisionError ''division by zero''), [CarbonStop])
         else (Inr (dict_set ''energy_consumed''
                      (1000000 / real len_prepared * snd (final_emissions_data E idx))
                      (dict_set ''carbon_emissions''
                         (1000000 / real len_prepared * fst (final_emissions_data E idx))
                         scores)),
               [CarbonStop]))
      else (Inr scores, []))"

definition carbon_start :: "evaluation_config \<Rightarrow> event list" where
  "carbon_start cfg = (if track_carbon_emissions cfg then [CarbonStart] else [])"

text \<open>
  What follows the predictions in the \<open>try\<close> block of the PyTorch path, from
  \<open>_prepare_predictions_and_labels\<close> to \<open>return scores\<close>. The pair is replicated
  before the check of the first iteration. The result is the exception raised or the
  scores, and the events.
\<close>

definition pytorch_jax_scores ::
  "('m, 'c, 'x, 'p, 'y, 'g, 'o) env \<Rightarrow> evaluation_config \<Rightarrow> task_config \<Rightarrow> nat
   \<Rightarrow> model_config \<Rightarrow> row list \<Rightarrow> 'x list \<Rightarrow> 'm \<Rightarrow> 'p list \<Rightarrow> 'p list option
   \<Rightarrow> (exn + (string, real) dict) \<times> event list" where
  "pytorch_jax_scores E cfg tc idx mc dataset prepared_dataset md all_predictions last_predictions =
     (case prepare_predictions_and_labels E (Some md) all_predictions dataset prepared_dataset of
        Inl e \<Rightarrow> (Inl e, [])
      | Inr pairs \<Rightarrow>
          (case first_iteration_check E tc mc idx last_predictions of
             (Some e, tr) \<Rightarrow> (Inl e, tr)
           | (None, tr) \<Rightarrow>
               (case compute_metrics E tc (replicate_pairs pairs (length (metrics tc))) of
                  Inl e \<Rightarrow> (Inl e, tr)
                | Inr scores \<Rightarrow>
                    (case store_emissions E cfg idx (length prepared_dataset) scores of
                       (r, tr') \<Rightarrow> (r, tr @ tr')))))"

text \<open>
  The \<open>try\<close> block of \<open>Task._evaluate_pytorch_jax_single_iteration\<close>. The result is the
  exception raised or the scores returned, the local variables at that point, and the
  events.
\<close>

definition pytorch_jax_try ::
  "('m, 'c, 'x, 'p, 'y, 'g, 'o) env \<Rightarrow> evaluation_config \<Rightarrow> task_config \<Rightarrow> nat
   \<Rightarrow> model_config \<Rightarrow> row list \<Rightarrow> 'x list \<Rightarrow> 'c
   \<Rightarrow> (exn + (string, real) dict) \<times> 'm frame \<times> event list" where
  "pytorch_jax_try E cfg tc idx mc dataset prepared_dataset data_collator =
     (case load_model E (Seeded (703 + idx)) mc of
        Inl e \<Rightarrow> (Inl e, \<lparr>model_dict = None, model = None\<rparr>, [LoadModel])
      | Inr md \<Rightarrow>
          (case predict_batches (model_predictions E md data_collator)
                  (chunks (if testing cfg then 2 else 32) prepared_dataset) [] None of
             Inl e \<Rightarrow>
               (Inl e, \<lparr>model_dict = Some md, model = Some md\<rparr>, LoadModel # carbon_start cfg)
           | Inr (all_predictions, last_predictions) \<Rightarrow>
               (case pytorch_jax_scores E cfg tc idx mc dataset prepared_dataset md
                       all_predictions last_predictions of
                  (r, tr) \<Rightarrow>
                    (r, \<lparr>model_dict = Some md, model = Some md\<rparr>,
                     LoadModel # carbon_start cfg @ tr))))"

text \<open>
  What follows the predictions in the \<open>try\<close> block of the spaCy path. The check of the
  first iteration comes first here.
\<close>

definition spacy_scores ::
  "('m, 'c, 'x, 'p, 'y, 'g, 'o) env \<Rightarrow> evaluation_config \<Rightarrow> task_config \<Rightarrow> nat
   \<Rightarrow> model_config \<Rightarrow> row list \<Rightarrow> 'x list \<Rightarrow> 'p list
   \<Rightarrow> (exn + (string, real) dict) \<times> event list" where
  "spacy_scores E cfg tc idx mc dataset prepared_dataset predictions =
     (case first_iteration_check E tc mc idx (Some predictions) of
        (Some e, tr) \<Rightarrow> (Inl e, tr)
      | (None, tr) \<Rightarrow>
          (case prepare_predictions_and_labels E None predictions dataset prepared_dataset of
             Inl e \<Rightarrow> (Inl e, tr)
           | Inr pairs \<Rightarrow>
               (case compute_metrics E tc (replicate_pairs pairs (length (metrics tc))) of
                  Inl e \<Rightarrow> (Inl e, tr)
                | Inr scores \<Rightarrow>
                    (case store_emissions E cfg idx (length prepared_dataset) scores of
                       (r, tr') \<Rightarrow> (r, tr @ tr')))))"

text \<open>The \<open>try\<close> block of \<open>Task._evaluate_spacy_single_iteration\<close>.\<close>

definition spacy_try ::
  "('m, 'c, 'x, 'p, 'y, 'g, 'o) env \<Rightarrow> evaluation_config \<Rightarrow> task_config \<Rightarrow> nat
   \<Rightarrow> model_config \<Rightarrow> row list \<Rightarrow> 'x list
   \<Rightarrow> (exn + (string, real) dict) \<times> 'm frame \<times> event list" where
  "spacy_try E cfg tc idx mc dataset prepared_dataset =
     (case load_model E (Seeded (703 + idx)) mc of
        Inl e \<Rightarrow> (Inl e, \<lparr>model_dict = None, model = None\<rparr>, [LoadModel])
      | Inr md \<Rightarrow>
          (case get_spacy_predictions E md prepared_dataset (if testing cfg then 2 else 32) of
             Inl e \<Rightarrow>
               (Inl e, \<lparr>model_dict = Some md, model = Some md\<rparr>, LoadModel # carbon_start cfg)
           | Inr predictions \<Rightarrow>
               (case spacy_scores E cfg tc idx mc dataset prepared_dataset predictions of
                  (r, tr) \<Rightarrow>
                    (r, \<lparr>model_dict = Some md, model = Some md\<rparr>,
                     LoadModel # carbon_start cfg @ tr))))"

text \<open>
  \<open>del model\<close> and \<open>del model_dict\<close> inside \<open>try: ... except UnboundLocalError: pass\<close>:
  a bound variable is deleted, an unbound one is left as it is.
\<close>

definition del_locals :: "'m frame \<Rightarrow> 'm frame \<times> event list" where
  "del_locals fr =
     (\<lparr>model_dict = None, model = None\<rparr>,
      (if model fr = None then [] else [DelModel])
      @ (if model_dict fr = None then [] else [DelModelDict]))"

text \<open>
  The handler \<open>except (RuntimeError, ValueError, IndexError) as e\<close> of both
  single-iteration methods, applied to an exception the \<open>try\<close> block raised: an
  exception of another class passes through; one whose message names
  \<open>PYTORCH_ENABLE_MPS_FALLBACK\<close> is replaced by \<open>MPSFallbackNotEnabled\<close>; otherwise
  the locals are deleted, the memory is cleared and the exception is returned.
\<close>

fun except_handler ::
  "exn \<Rightarrow> 'm frame \<Rightarrow> (exn + iteration_value) \<times> 'm frame \<times> event list" where
  "except_handler (Builtin c msg) fr =
     (if c = RuntimeError \<or> c = ValueError \<or> c = IndexError then
        (if sublist ''PYTORCH_ENABLE_MPS_FALLBACK'' msg
         then (Inl MPSFallbackNotEnabled, fr, [])
         else (case del_locals fr of
                 (fr', tr) \<Rightarrow> (Inr (ErrorValue c msg), fr', tr @ [ClearMemory])))
      else (Inl (Builtin c msg), fr, []))"
| "except_handler e fr = (Inl e, fr, [])"

definition try_except ::
  "(exn + (string, real) dict) \<times> 'm frame \<times> event list
   \<Rightarrow> (exn + iteration_value) \<times> 'm frame \<times> event list" where
  "try_except body =
     (case body of
        (Inr scores, fr, tr) \<Rightarrow> (Inr (ScoreDict scores), fr, tr)
      | (Inl e, fr, tr) \<Rightarrow>
          (case except_handler e fr of (r, fr', tr') \<Rightarrow> (r, fr', tr @ tr')))"

text \<open>
  \<open>Task._evaluate_pytorch_jax_single_iteration\<close> and
  \<open>Task._evaluate_spacy_single_iteration\<close>: \<open>Inl\<close> is an exception that leaves the
  method, \<open>Inr\<close> the value it returns.
\<close>

definition evaluate_pytorch_jax_single_iteration ::
  "('m, 'c, 'x, 'p, 'y, 'g, 'o) env \<Rightarrow> evaluation_config \<Rightarrow> task_config \<Rightarrow> nat
   \<Rightarrow> model_config \<Rightarrow> row list \<Rightarrow> 'x list \<Rightarrow> 'c
   \<Rightarrow> (exn + iteration_value) \<times> 'm frame \<times> event list" where
  "evaluate_pytorch_jax_single_iteration E cfg tc idx mc dataset prepared_dataset data_collator =
     try_except (pytorch_jax_try E cfg tc idx mc dataset prepared_dataset data_collator)"

definition evaluate_spacy_single_iteration ::
  "('m, 'c, 'x, 'p, 'y, 'g, 'o) env \<Rightarrow> evaluation_config \<Rightarrow> task_config \<Rightarrow> nat
   \<Rightarrow> model_config \<Rightarrow> row list \<Rightarrow> 'x list
   \<Rightarrow> (exn + iteration_value) \<times> 'm frame \<times> event list" where
  "evaluate_spacy_single_iteration E cfg tc idx mc dataset prepared_dataset =
     try_except (spacy_try E cfg tc idx mc dataset prepared_dataset)"

section \<open>The evaluation loop\<close>

text \<open>\<open>str(idx)\<close> for a natural number: its decimal digits.\<close>

definition digit_char :: "nat \<Rightarrow> char" where
  "digit_char d = ''0123456789'' ! d"

function str_nat :: "nat \<Rightarrow> string" where
  "str_nat n = (if n < 10 then [digit_char n] else str_nat (n div 10) @ [digit_char (n mod 10)])"
  by pat_completeness auto
termination
  by (relation "measure id") auto

declare str_nat.simps [simp del]

definition invalid_evaluation_message :: "nat \<Rightarrow> string \<Rightarrow> string" where
  "invalid_evaluation_message idx msg =
     ''An unknown error occurred during the evaluation of the '' @ str_nat idx
     @ '' iteration. The error message returned was: '' @ msg"

text \<open>
  The body of the \<open>for\<close> loop for one index: \<open>while True:\<close> around the call of the
  single-iteration method. Each path through the body of the \<open>while\<close> leaves it: the
  call raises, the result is a \<open>dict\<close> and the loop is left by \<open>break\<close>, or the result
  is not a \<open>dict\<close> and \<open>InvalidEvaluation\<close> is raised. So the \<open>while\<close> is one pass of
  its body. \<open>single idx\<close> is the call for the index, with its events.
\<close>

definition while_true ::
  "(nat \<Rightarrow> (exn + iteration_value) \<times> event list) \<Rightarrow> nat
   \<Rightarrow> (exn + (string, real) dict) \<times> event list" where
  "while_true single idx =
     (case single idx of
        (Inl e, tr) \<Rightarrow> (Inl e, IterationStart idx # tr)
      | (Inr (ScoreDict test_itr_scores), tr) \<Rightarrow> (Inr test_itr_scores, IterationStart idx # tr)
      | (Inr (ErrorValue c msg), tr) \<Rightarrow>
          (Inl (InvalidEvaluation (invalid_evaluation_message idx msg)),
           IterationStart idx # tr))"

text \<open>
  \<open>scores = list(); for idx in itr: while True: ...; scores.append(test_itr_scores)\<close>
\<close>

fun for_idx_in ::
  "(nat \<Rightarrow> (exn + iteration_value) \<times> event list) \<Rightarrow> nat list \<Rightarrow> (string, real) dict list
   \<Rightarrow> (exn + (string, real) dict list) \<times> event list" where
  "for_idx_in single [] scores = (Inr scores, [])"
| "for_idx_in single (idx # itr) scores =
     (case while_true single idx of
        (Inl e, tr) \<Rightarrow> (Inl e, tr)
      | (Inr test_itr_scores, tr) \<Rightarrow>
          (case for_idx_in single itr (scores @ [test_itr_scores]) of
             (r, tr') \<Rightarrow> (r, tr @ tr')))"

text \<open>
  The preprocessing of the bootstrapped datasets, one after the other, inside
  \<open>try: ... except ValueError: raise PreprocessingFailed()\<close>.
\<close>

fun preprocess_each :: "('a \<Rightarrow> exn + 'b) \<Rightarrow> 'a list \<Rightarrow> exn + 'b list" where
  "preprocess_each f [] = Inr []"
| "preprocess_each f (b # bs) =
     (case f b of
        Inl e \<Rightarrow> Inl e
      | Inr p \<Rightarrow> (case preprocess_each f bs of Inl e \<Rightarrow> Inl e | Inr ps \<Rightarrow> Inr (p # ps)))"

definition preprocess_datasets :: "('a \<Rightarrow> exn + 'b) \<Rightarrow> 'a list \<Rightarrow> exn + 'b list" where
  "preprocess_datasets f bootstrapped =
     (case preprocess_each f bootstrapped of
        Inl (Builtin ValueError m) \<Rightarrow> Inl PreprocessingFailed
      | Inl e \<Rightarrow> Inl e
      | Inr prepared \<Rightarrow> Inr prepared)"

text \<open>
  \<open>metric_configs = list(self.task_config.metrics)\<close>, with \<open>EMISSIONS\<close> and \<open>POWER\<close>
  appended when emissions are tracked.
\<close>

definition logged_metric_configs ::
  "('m, 'c, 'x, 'p, 'y, 'g, 'o) env \<Rightarrow> evaluation_config \<Rightarrow> task_config \<Rightarrow> metric_config list" where
  "logged_metric_configs E cfg tc =
     metrics tc @ (if track_carbon_emissions cfg then [EMISSIONS E, POWER E] else [])"

definition forget_frame :: "'a \<times> 'f \<times> 'b \<Rightarrow> 'a \<times> 'b" where
  "forget_frame r = (fst r, snd (snd r))"

text \<open>
  The start of \<open>Task._evaluate_pytorch_jax\<close> and of \<open>Task._evaluate_spacy\<close>, the same
  in both but for the name of the framework: the truncation when testing, the
  bootstrapped datasets and their preprocessing.
\<close>

definition bootstrap_and_preprocess ::
  "('m, 'c, 'x, 'p, 'y, 'g, 'o) env \<Rightarrow> evaluation_config \<Rightarrow> string \<Rightarrow> 'm \<Rightarrow> row list
   \<Rightarrow> 'g \<Rightarrow> nat \<Rightarrow> exn + (row list list \<times> 'x list list)" where
  "bootstrap_and_preprocess E cfg fw md dataset rng num_iter =
     (case truncate_if_testing cfg dataset of
        Inl e \<Rightarrow> Inl e
      | Inr ds \<Rightarrow>
     (case bootstrapped_datasets (integers E) rng ds num_iter of
        Inl e \<Rightarrow> Inl e
      | Inr bootstrapped \<Rightarrow>
     (case preprocess_datasets (preprocess_data E fw md) bootstrapped of
        Inl e \<Rightarrow> Inl e
      | Inr prepared \<Rightarrow> Inr (bootstrapped, prepared))))"

text \<open>
  \<open>Task._evaluate_pytorch_jax\<close> (the logging of the number of parameters and the
  progress bar are left out: they decide nothing).
\<close>

definition evaluate_pytorch_jax ::
  "('m, 'c, 'x, 'p, 'y, 'g, 'o) env \<Rightarrow> evaluation_config \<Rightarrow> task_config \<Rightarrow> 'm \<Rightarrow> row list
   \<Rightarrow> 'g \<Rightarrow> model_config \<Rightarrow> nat \<Rightarrow> (exn + 'o) \<times> event list" where
  "evaluate_pytorch_jax E cfg tc md dataset rng mc num_iter =
     (case bootstrap_and_preprocess E cfg ''pytorch'' md dataset rng num_iter of
        Inl e \<Rightarrow> (Inl e, [])
      | Inr (bootstrapped, prepared) \<Rightarrow>
     (case load_data_collator E md of
        Inl e \<Rightarrow> (Inl e, [])
      | Inr data_collator \<Rightarrow>
     (case for_idx_in
             (\<lambda>idx. forget_frame (evaluate_pytorch_jax_single_iteration E cfg tc idx mc
                       (bootstrapped ! idx) (prepared ! idx) data_collator))
             [0..<num_iter] [] of
        (Inl e, tr) \<Rightarrow> (Inl e, tr)
      | (Inr scores, tr) \<Rightarrow>
          (Inr (log_scores E (task_pretty_name tc) (logged_metric_configs E cfg tc) scores
                  (model_id mc) (only_return_log cfg)), tr))))"

text \<open>\<open>Task._evaluate_spacy\<close>\<close>

definition evaluate_spacy ::
  "('m, 'c, 'x, 'p, 'y, 'g, 'o) env \<Rightarrow> evaluation_config \<Rightarrow> task_config \<Rightarrow> 'm \<Rightarrow> row list
   \<Rightarrow> 'g \<Rightarrow> model_config \<Rightarrow> nat \<Rightarrow> (exn + 'o) \<times> event list" where
  "evaluate_spacy E cfg tc md dataset rng mc num_iter =
     (case bootstrap_and_preprocess E cfg ''spacy'' md dataset rng num_iter of
        Inl e \<Rightarrow> (Inl e, [])
      | Inr (bootstrapped, prepared) \<Rightarrow>
     (case for_idx_in
             (\<lambda>idx. forget_frame (evaluate_spacy_single_iteration E cfg tc idx mc
                       (bootstrapped ! idx) (prepared ! idx)))
             [0..<num_iter] [] of
        (Inl e, tr) \<Rightarrow> (Inl e, tr)
      | (Inr scores, tr) \<Rightarrow>
          (Inr (log_scores E (task_pretty_name tc) (logged_metric_configs E cfg tc) scores
                  (model_id mc) (only_return_log cfg)), tr)))"

text \<open>\<open>num_iter = 10 if not self.evaluation_config.testing else 2\<close>\<close>

definition num_iter_of :: "evaluation_config \<Rightarrow> nat" where
  "num_iter_of cfg = (if \<not> testing cfg then 10 else 2)"

text \<open>
  The dispatch on the framework at the end of \<open>Task.evaluate\<close>, with the model
  loaded and the dataset filtered.
\<close>

definition evaluate_framework ::
  "('m, 'c, 'x, 'p, 'y, 'g, 'o) env \<Rightarrow> evaluation_config \<Rightarrow> task_config \<Rightarrow> 'm \<Rightarrow> row list
   \<Rightarrow> 'g \<Rightarrow> model_config \<Rightarrow> (exn + 'o) \<times> event list" where
  "evaluate_framework E cfg tc md dataset rng mc =
     (if framework mc = ''pytorch'' \<or> framework mc = ''jax''
      then evaluate_pytorch_jax E cfg tc md dataset rng mc (num_iter_of cfg)
      else if framework mc = ''spacy''
      then evaluate_spacy E cfg tc md dataset rng mc (num_iter_of cfg)
      else (Inl (InvalidFramework (framework mc)), []))"

text \<open>
  \<open>Task.evaluate\<close> (the set-up of the carbon tracker is left out: it decides
  nothing).
\<close>

definition evaluate ::
  "('m, 'c, 'x, 'p, 'y, 'g, 'o) env \<Rightarrow> evaluation_config \<Rightarrow> task_config \<Rightarrow> string
   \<Rightarrow> (exn + 'o) \<times> event list" where
  "evaluate E cfg tc mid =
     (case get_model_config E mid of
        Inl e \<Rightarrow> (Inl e, [])
      | Inr mc \<Rightarrow>
     (case load_model E Reproducible mc of
        Inl e \<Rightarrow> (Inl e, [LoadModel])
      | Inr md \<Rightarrow>
     (case load_data E tc of
        Inl e \<Rightarrow> (Inl e, [LoadModel])
      | Inr dataset \<Rightarrow>
     (case remove_empty_examples (feature_column_names tc) dataset of
        Inl e \<Rightarrow> (Inl e, [LoadModel])
      | Inr dataset' \<Rightarrow>
          (case evaluate_framework E cfg tc md dataset'
                  (enforce_reproducibility E (framework mc)) mc of
             (r, tr) \<Rightarrow> (r, LoadModel # tr))))))"

text \<open>
  The events of the iterations of the given indices, each run once and in this order.
\<close>

definition started ::
  "(nat \<Rightarrow> (exn + iteration_value) \<times> event list) \<Rightarrow> nat list \<Rightarrow> event list" where
  "started single idxs = concat (map (\<lambda>j. IterationStart j # snd (single j)) idxs)"

text \<open>The indices of the iterations started, in the order of their start.\<close>

fun iterations_started :: "event list \<Rightarrow> nat list" where
  "iterations_started [] = []"
| "iterations_started (IterationStart idx # tr) = idx # iterations_started tr"
| "iterations_started (ev # tr) = iterations_started tr"

section \<open>The score aggregator\<close>

text \<open>
  Modelled from the spec: scoring.py, which holds \<open>log_scores\<close> and the aggregation
  of the scores, is not among the sources. Following the specification's words: for
  each metric the arithmetic mean across the iterations and the standard error, which
  is the sample standard deviation divided by \<open>sqrt n\<close> and 0 when \<open>n \<le> 1\<close>; the raw
  records are kept beside the aggregate. Scores are real numbers here. The total has
  the key of the metric for the mean and that key followed by \<open>_se\<close> for the standard
  error, as in the specification's example.
\<close>

definition mean :: "real list \<Rightarrow> real" where
  "mean xs = sum_list xs / real (length xs)"

definition sample_std :: "real list \<Rightarrow> real" where
  "sample_std xs = sqrt (sum_list (map (\<lambda>x. (x - mean xs)\<^sup>2) xs) / (real (length xs) - 1))"

definition standard_error :: "real list \<Rightarrow> real" where
  "standard_error xs = (if length xs \<le> 1 then 0 else sample_std xs / sqrt (real (length xs)))"

text \<open>The scores of one metric across the iterations, in order.\<close>

definition metric_scores :: "string \<Rightarrow> (string, real) dict list \<Rightarrow> real list" where
  "metric_scores key scores = List.map_filter (\<lambda>d. map_of d key) scores"

definition aggregate_scores ::
  "(string, real) dict list \<Rightarrow> metric_config list \<Rightarrow> (string, real) dict" where
  "aggregate_scores scores metric_configs =
     foldl (\<lambda>total metric_cfg.
              dict_set (metric_name metric_cfg @ ''_se'')
                (standard_error (metric_scores (metric_name metric_cfg) scores))
                (dict_set (metric_name metric_cfg)
                   (mean (metric_scores (metric_name metric_cfg) scores)) total))
       [] metric_configs"

text \<open>The assignments to the total, in the order in which they are made.\<close>

definition total_items ::
  "(string, real) dict list \<Rightarrow> metric_config list \<Rightarrow> (string \<times> real) list" where
  "total_items scores metric_configs =
     concat (map (\<lambda>metric_cfg.
        [(metric_name metric_cfg, mean (metric_scores (metric_name metric_cfg) scores)),
         (metric_name metric_cfg @ ''_se'',
          standard_error (metric_scores (metric_name metric_cfg) scores))]) metric_configs)"

record aggregated_result =
  raw :: "(string, real) dict list"
  total :: "(string, real) dict"

definition aggregate :: "(string, real) dict list \<Rightarrow> metric_config list \<Rightarrow> aggregated_result" where
  "aggregate scores metric_configs =
     \<lparr>raw = scores, total = aggregate_scores scores metric_configs\<rparr>"

section \<open>Example configurations\<close>

text \<open>Two labels that share the synonym \<open>good\<close>, and two that share none.\<close>


definition colliding_labels :: "label list" where
  "colliding_labels =
     [\<lparr>label_name = ''POS'', synonyms = [''positive'', ''good'']\<rparr>,
      \<lparr>label_name = ''NEG'', synonyms = [''negative'', ''good'']\<rparr>]"

definition sentiment_labels :: "label list" where
  "sentiment_labels =
     [\<lparr>label_name = ''POS'', synonyms = [''positive'']\<rparr>,
      \<lparr>label_name = ''NEG'', synonyms = [''negative'', ''bad'']\<rparr>]"

text \<open>
  A task with two metrics, a dataset of six records, one with an empty text, and
  collaborators that can be run: the model loaded under the seed \<open>s\<close> is \<open>s\<close> itself,
  \<open>fault\<close> says for which models the prediction raises and what, \<open>trained\<close> is the
  answer of the check of the first iteration. \<open>log_scores\<close> returns the raw scores.
\<close>

definition macro_f1 :: metric_config where
  "macro_f1 = \<lparr>metric_name = ''macro_f1'', metric_pretty_name = ''Macro-average F1-score'',
     metric_huggingface_id = ''f1'', results_key = ''f1''\<rparr>"

definition mcc :: metric_config where
  "mcc = \<lparr>metric_name = ''mcc'', metric_pretty_name = ''Matthew's Correlation Coefficient'',
     metric_huggingface_id = ''matthews_correlation'', results_key = ''matthews_correlation''\<rparr>"

definition sent :: task_config where
  "sent = \<lparr>task_name = ''sent'', task_pretty_name = ''sentiment classification'',
     metrics = [macro_f1, mcc], feature_column_names = [''text'']\<rparr>"

definition testing_config :: evaluation_config where
  "testing_config = \<lparr>testing = True, progress_bar = False, track_carbon_emissions = False,
     only_return_log = False\<rparr>"

definition example_model_config :: "string \<Rightarrow> model_config" where
  "example_model_config fw = \<lparr>model_id = ''pin/senda'', revision = ''main'', framework = fw\<rparr>"

definition example_dataset :: "row list" where
  "example_dataset =
     [[(''text'', Text ''fin film''), (''label'', ClassLabel 2)],
      [(''text'', Text ''''), (''label'', ClassLabel 1)],
      [(''text'', Text ''kedelig''), (''label'', ClassLabel 0)],
      [(''text'', Text ''ok''), (''label'', ClassLabel 1)],
      [(''text'', Text ''god''), (''label'', ClassLabel 2)],
      [(''text'', Text ''nej''), (''label'', ClassLabel 0)]]"

definition example_integers :: "nat integers" where
  "example_integers rng low high n =
     (map (\<lambda>k. low + (rng + 3 * k) mod (high - low)) [0..<n], rng + n + 1)"

definition example_env ::
  "string \<Rightarrow> (nat \<Rightarrow> exn option) \<Rightarrow> bool
   \<Rightarrow> (nat, unit, row, nat, nat, nat, (string, real) dict list) env" where
  "example_env fw fault trained =
     \<lparr>get_model_config = (\<lambda>mid. Inr (example_model_config fw)),
      enforce_reproducibility = (\<lambda>fw. 4242),
      load_model = (\<lambda>seed mc. case seed of Reproducible \<Rightarrow> Inr 0 | Seeded s \<Rightarrow> Inr s),
      load_data = (\<lambda>tc. Inr example_dataset),
      integers = example_integers,
      preprocess_data = (\<lambda>fw md ds. Inr ds),
      load_data_collator = (\<lambda>md. Inr ()),
      model_predictions =
        (\<lambda>md c batch. case fault md of Some e \<Rightarrow> Inl e | None \<Rightarrow> Inr (map (\<lambda>x. 1) batch)),
      get_spacy_predictions =
        (\<lambda>md prepared batch_size.
           case fault md of Some e \<Rightarrow> Inl e | None \<Rightarrow> Inr (map (\<lambda>x. 1) prepared)),
      prepare_predictions_and_labels =
        (\<lambda>md predictions ds prepared. Inr [(predictions, map (\<lambda>x. 2) prepared)]),
      check_if_model_is_trained_for_task = (\<lambda>predictions. trained),
      metric_compute =
        (\<lambda>metric_cfg predictions labels.
           Inr (Some (if metric_name metric_cfg = ''mcc'' then - 1 / 3 else 1 / 3))),
      final_emissions_data = (\<lambda>idx. (0, 0)),
      EMISSIONS = macro_f1,
      POWER = mcc,
      log_scores = (\<lambda>name metric_configs scores mid only_log. scores)\<rparr>"

definition no_fault :: "nat \<Rightarrow> exn option" where
  "no_fault md = None"

definition out_of_memory_at :: "nat \<Rightarrow> nat \<Rightarrow> exn option" where
  "out_of_memory_at idx md =
     (if md = 703 + idx then Some (Builtin RuntimeError ''CUDA out of memory'') else None)"

definition mps_fault :: "nat \<Rightarrow> exn option" where
  "mps_fault md = Some (Builtin RuntimeError
     ''set PYTORCH_ENABLE_MPS_FALLBACK=1 to use the CPU as a fallback'')"

text \<open>
  A task with a second feature column that no record has, a dataset whose only record
  has an empty text, and the configuration of a full run.
\<close>

definition two_column_task :: task_config where
  "two_column_task = sent\<lparr>feature_column_names := [''text'', ''title'']\<rparr>"

definition blank_dataset :: "row list" where
  "blank_dataset = [[(''text'', Text ''''), (''label'', ClassLabel 1)]]"

definition full_config :: evaluation_config where
  "full_config = testing_config\<lparr>testing := False\<rparr>"

definition blank_env :: "(nat, unit, row, nat, nat, nat, (string, real) dict list) env" where
  "blank_env = (example_env ''spacy'' no_fault True)\<lparr>load_data := (\<lambda>tc. Inr blank_dataset)\<rparr>"

text \<open>
  An environment whose post-processing returns a given list of pairs, and whose metrics
  tell the lists of a pair apart: \<open>macro_f1\<close> is the sum of the predictions it is given,
  \<open>mcc\<close> the sum of the labels.
\<close>

definition pairs_env ::
  "string \<Rightarrow> (nat list \<times> nat list) list
   \<Rightarrow> (nat, unit, row, nat, nat, nat, (string, real) dict list) env" where
  "pairs_env fw pairs = (example_env fw no_fault True)
     \<lparr>prepare_predictions_and_labels := (\<lambda>md predictions ds prepared. Inr pairs),
      metric_compute :=
        (\<lambda>metric_cfg predictions labels.
           Inr (Some (if metric_name metric_cfg = ''mcc'' then real (sum_list labels)
                      else real (sum_list predictions))))\<rparr>"

section \<open>Properties of the label mapping\<close>

lemma map_of_dict_set: "map_of (dict_set k v d) = (map_of d)(k \<mapsto> v)"
  by (induction d) (auto simp: fun_upd_twist)

lemma map_of_foldl_dict_set:
  "map_of (foldl (\<lambda>d (k, v). dict_set k v d) d0 items) = map_of d0 ++ map_of (rev items)"
proof (induction items arbitrary: d0)
  case Nil
  show ?case by simp
next
  case (Cons kv items)
  obtain k v where kv: "kv = (k, v)" by (cases kv)
  have "map_of (foldl (\<lambda>d (k, v). dict_set k v d) d0 (kv # items))
        = map_of (dict_set k v d0) ++ map_of (rev items)"
    using Cons.IH [of "dict_set k v d0"] by (simp add: kv)
  also have "\<dots> = map_of d0 ++ map_of (rev (kv # items))"
    by (simp add: map_of_dict_set kv map_add_def fun_eq_iff split: option.splits)
  finally show ?case .
qed

lemma map_of_dict_of_items: "map_of (dict_of_items items) = map_of (rev items)"
  by (simp add: dict_of_items_def map_of_foldl_dict_set)

lemma set_label2id_items:
  "(syn, i) \<in> set (label2id_items labels)
   \<longleftrightarrow> i < length labels \<and> syn \<in> set (label_keys (labels ! i))"
proof
  assume "(syn, i) \<in> set (label2id_items labels)"
  then show "i < length labels \<and> syn \<in> set (label_keys (labels ! i))"
    by (auto simp: label2id_items_def in_set_enumerate_eq)
next
  assume r: "i < length labels \<and> syn \<in> set (label_keys (labels ! i))"
  then have "(i, labels ! i) \<in> set (enumerate 0 labels)"
    by (simp add: in_set_enumerate_eq)
  with r show "(syn, i) \<in> set (label2id_items labels)"
    unfolding label2id_items_def by force
qed

lemma sorted_concat_enumerate:
  "sorted (concat (map (\<lambda>p. replicate (f (snd p)) (fst p)) (enumerate n xs)))"
proof (induction xs arbitrary: n)
  case Nil
  show ?case by simp
next
  case (Cons x xs)
  have low: "n \<le> y"
    if "y \<in> set (concat (map (\<lambda>p. replicate (f (snd p)) (fst p)) (enumerate (Suc n) xs)))" for y
  proof -
    from that obtain p where p: "p \<in> set (enumerate (Suc n) xs)" and y: "y \<in> set (replicate (f (snd p)) (fst p))"
      by auto
    from p have "Suc n \<le> fst p" by (simp add: in_set_enumerate_eq)
    moreover from y have "y = fst p" by simp
    ultimately show ?thesis by simp
  qed
  have "sorted (replicate (f x) n @ concat (map (\<lambda>p. replicate (f (snd p)) (fst p)) (enumerate (Suc n) xs)))"
    unfolding sorted_append using Cons.IH [of "Suc n"] low by simp
  then show ?case by simp
qed

lemma map_snd_label2id_items:
  "map snd (label2id_items labels)
   = concat (map (\<lambda>p. replicate (length (label_keys (snd p))) (fst p)) (enumerate 0 labels))"
  unfolding label2id_items_def map_concat
  by (simp add: comp_def case_prod_beta map_replicate_const)

lemma sorted_label2id_items: "sorted (map snd (label2id_items labels))"
  unfolding map_snd_label2id_items by (rule sorted_concat_enumerate)

lemma map_of_rev_sorted_snd:
  "sorted (map snd xs) \<Longrightarrow> map_of (rev xs) k = Some v
   \<Longrightarrow> (k, v) \<in> set xs \<and> (\<forall>v'. (k, v') \<in> set xs \<longrightarrow> v' \<le> v)"
proof (induction xs)
  case Nil
  then show ?case by simp
next
  case (Cons x xs)
  obtain k0 v0 where x: "x = (k0, v0)" by (cases x)
  from Cons.prems(1) have sorted: "sorted (map snd xs)"
    by simp
  from Cons.prems(1) have low: "v0 \<le> v'" if "(k', v') \<in> set xs" for k' v'
    using that by (force simp: x)
  show ?case
  proof (cases "map_of (rev xs) k")
    case None
    then have nokey: "(k, v') \<notin> set xs" for v'
      by (force simp: map_of_eq_None_iff)
    from Cons.prems(2) None have "k0 = k \<and> v0 = v"
      by (auto simp: x map_add_def split: if_splits)
    with nokey show ?thesis by (simp add: x)
  next
    case (Some w)
    with Cons.prems(2) have "w = v" by (simp add: x map_add_def)
    with Some Cons.IH [OF sorted] have in_xs: "(k, v) \<in> set xs"
      and top: "(k, v') \<in> set xs \<Longrightarrow> v' \<le> v" for v'
      by auto
    from low [OF in_xs] have "v0 \<le> v" .
    with in_xs top show ?thesis by (auto simp: x)
  qed
qed

lemma label2id_Some:
  assumes "map_of (label2id labels) syn = Some i"
  shows "i < length labels \<and> syn \<in> set (label_keys (labels ! i))
         \<and> (\<forall>j<length labels. syn \<in> set (label_keys (labels ! j)) \<longrightarrow> j \<le> i)"
proof -
  from assms have "map_of (rev (label2id_items labels)) syn = Some i"
    by (simp add: label2id_def map_of_dict_of_items)
  from map_of_rev_sorted_snd [OF sorted_label2id_items this]
  show ?thesis by (simp add: set_label2id_items)
qed

lemma label2id_covers:
  assumes "i < length labels" "s \<in> set (label_keys (labels ! i))"
  shows "\<exists>k. map_of (label2id labels) s = Some k"
proof -
  from assms have "(s, i) \<in> set (label2id_items labels)"
    by (simp add: set_label2id_items)
  then have "fst (s, i) \<in> fst ` set (rev (label2id_items labels))"
    by (simp add: image_iff) (rule bexI [of _ "(s, i)"], simp_all)
  then have "map_of (rev (label2id_items labels)) s \<noteq> None"
    unfolding map_of_eq_None_iff by simp
  then show ?thesis
    by (simp add: label2id_def map_of_dict_of_items)
qed

text \<open>
  C9, as amended. Every name and every synonym of every label has an id, and the id is
  the index of the last label that carries the key. Where no key belongs to two
  different labels, each name and synonym has the index of its own label.
\<close>

theorem label2id_last_owner:
  "(\<forall>i<length labels. \<forall>s\<in>set (label_keys (labels ! i)).
      \<exists>k. map_of (label2id labels) s = Some k \<and> k < length labels
          \<and> s \<in> set (label_keys (labels ! k))
          \<and> (\<forall>j<length labels. s \<in> set (label_keys (labels ! j)) \<longrightarrow> j \<le> k))
   \<and> ((\<forall>i<length labels. \<forall>j<length labels.
          i \<noteq> j \<longrightarrow> set (label_keys (labels ! i)) \<inter> set (label_keys (labels ! j)) = {})
        \<longrightarrow> (\<forall>i<length labels. \<forall>s\<in>set (label_keys (labels ! i)).
               map_of (label2id labels) s = Some i))"
proof (intro conjI allI impI ballI)
  fix i s
  assume i: "i < length labels" and s: "s \<in> set (label_keys (labels ! i))"
  from label2id_covers [OF i s] obtain k where k: "map_of (label2id labels) s = Some k" ..
  from label2id_Some [OF k] k
  show "\<exists>k. map_of (label2id labels) s = Some k \<and> k < length labels
          \<and> s \<in> set (label_keys (labels ! k))
          \<and> (\<forall>j<length labels. s \<in> set (label_keys (labels ! j)) \<longrightarrow> j \<le> k)"
    by (intro exI [of _ k]) simp
next
  fix i s
  assume disj: "\<forall>i<length labels. \<forall>j<length labels.
          i \<noteq> j \<longrightarrow> set (label_keys (labels ! i)) \<inter> set (label_keys (labels ! j)) = {}"
    and i: "i < length labels" and s: "s \<in> set (label_keys (labels ! i))"
  from label2id_covers [OF i s] obtain k where k: "map_of (label2id labels) s = Some k" ..
  from label2id_Some [OF k] have kl: "k < length labels" and sk: "s \<in> set (label_keys (labels ! k))"
    by simp_all
  have "k = i"
  proof (rule ccontr)
    assume "k \<noteq> i"
    with disj i kl have "set (label_keys (labels ! i)) \<inter> set (label_keys (labels ! k)) = {}"
      by simp
    with s sk show False by blast
  qed
  with k show "map_of (label2id labels) s = Some i" by simp
qed

theorem label2id_last_owner_witness:
  "set (label_keys (sentiment_labels ! 0)) \<inter> set (label_keys (sentiment_labels ! 1)) = {}
   \<and> map_of (label2id sentiment_labels) ''bad'' = Some 1
   \<and> map_of (label2id sentiment_labels) ''POS'' = Some 0"
proof -
  have len: "length sentiment_labels = Suc (Suc 0)"
    by (simp add: sentiment_labels_def)
  have disj: "\<forall>i<length sentiment_labels. \<forall>j<length sentiment_labels.
      i \<noteq> j \<longrightarrow> set (label_keys (sentiment_labels ! i)) \<inter> set (label_keys (sentiment_labels ! j)) = {}"
    unfolding len All_less_Suc
    by (simp add: sentiment_labels_def label_keys_def)
  from label2id_last_owner [of sentiment_labels] disj
  have owner: "\<forall>i<length sentiment_labels. \<forall>s\<in>set (label_keys (sentiment_labels ! i)).
      map_of (label2id sentiment_labels) s = Some i"
    by (rule_tac mp [OF conjunct2])
  from owner have "\<forall>s\<in>set (label_keys (sentiment_labels ! 1)). map_of (label2id sentiment_labels) s = Some 1"
    by (simp add: len)
  then have bad: "map_of (label2id sentiment_labels) ''bad'' = Some 1"
    by (simp add: sentiment_labels_def label_keys_def)
  from owner have "\<forall>s\<in>set (label_keys (sentiment_labels ! 0)). map_of (label2id sentiment_labels) s = Some 0"
    by (simp add: len)
  then have pos: "map_of (label2id sentiment_labels) ''POS'' = Some 0"
    by (simp add: sentiment_labels_def label_keys_def)
  have "set (label_keys (sentiment_labels ! 0)) \<inter> set (label_keys (sentiment_labels ! 1)) = {}"
    by (simp add: sentiment_labels_def label_keys_def)
  with bad pos show ?thesis by simp
qed

text \<open>
  C9 as stated fails where two labels share a synonym: \<open>good\<close> belongs to the label
  of index 0 and has the id 1.
\<close>

theorem label2id_collision_counterexample:
  "0 < length colliding_labels
   \<and> ''good'' \<in> set (label_keys (colliding_labels ! 0))
   \<and> map_of (label2id colliding_labels) ''good'' = Some 1"
  by (simp add: colliding_labels_def label2id_def label2id_items_def dict_of_items_def
      label_keys_def)

section \<open>Properties of the evaluation loop\<close>


lemma concat_replicate_single: "concat (replicate k [p]) = replicate k p"
  by (induction k) simp_all

lemma zip_replicate_length: "zip xs (replicate (length xs) p) = map (\<lambda>m. (m, p)) xs"
  by (induction xs) simp_all

lemma iterations_started_append:
  "iterations_started (tr1 @ tr2) = iterations_started tr1 @ iterations_started tr2"
  by (induction tr1 rule: iterations_started.induct) simp_all

lemma snd_while_true: "snd (while_true single idx) = IterationStart idx # snd (single idx)"
  by (auto simp: while_true_def split: prod.splits sum.splits iteration_value.splits)

lemma fst_while_true_scores:
  "fst (single idx) = Inr (ScoreDict d) \<Longrightarrow> fst (while_true single idx) = Inr d"
  by (auto simp: while_true_def split: prod.splits sum.splits iteration_value.splits)

lemma fst_while_true_error_value:
  "fst (single idx) = Inr (ErrorValue c msg)
   \<Longrightarrow> fst (while_true single idx) = Inl (InvalidEvaluation (invalid_evaluation_message idx msg))"
  by (auto simp: while_true_def split: prod.splits sum.splits iteration_value.splits)

lemma fst_while_true_raised:
  "fst (single idx) = Inl e \<Longrightarrow> fst (while_true single idx) = Inl e"
  by (auto simp: while_true_def split: prod.splits sum.splits iteration_value.splits)

lemma fst_while_true_Inr:
  "fst (while_true single idx) = Inr d \<Longrightarrow> fst (single idx) = Inr (ScoreDict d)"
  by (auto simp: while_true_def split: prod.splits sum.splits iteration_value.splits)

lemma for_idx_in_stops:
  assumes "\<forall>j\<in>set pre. \<exists>d. fst (single j) = Inr (ScoreDict d)"
    and "fst (while_true single i) = Inl e"
  shows "for_idx_in single (pre @ i # post) scores = (Inl e, started single (pre @ [i]))"
  using assms(1)
proof (induction pre arbitrary: scores)
  case Nil
  from assms(2) snd_while_true [of single i] show ?case
    by (cases "while_true single i") (simp add: started_def)
next
  case (Cons j pre)
  from Cons.prems obtain d where d: "fst (single j) = Inr (ScoreDict d)" by auto
  from fst_while_true_scores [of single j d, OF d] snd_while_true [of single j]
  have w: "while_true single j = (Inr d, IterationStart j # snd (single j))"
    by (cases "while_true single j") simp
  from Cons.prems have "\<forall>j\<in>set pre. \<exists>d. fst (single j) = Inr (ScoreDict d)" by simp
  from Cons.IH [OF this, of "scores @ [d]"] w show ?case
    by (simp add: started_def)
qed

lemma for_idx_in_success:
  assumes "for_idx_in single idxs scores = (Inr out, tr)"
  shows "\<exists>ds. out = scores @ ds \<and> length ds = length idxs
           \<and> (\<forall>k<length idxs. fst (single (idxs ! k)) = Inr (ScoreDict (ds ! k)))
           \<and> tr = started single idxs"
  using assms
proof (induction idxs arbitrary: scores tr)
  case Nil
  then show ?case by (simp add: started_def)
next
  case (Cons j idxs)
  obtain r trj where w: "while_true single j = (r, trj)" by (cases "while_true single j")
  with Cons.prems obtain d where r: "r = Inr d" by (cases r) auto
  obtain r' tr' where rest: "for_idx_in single idxs (scores @ [d]) = (r', tr')"
    by (cases "for_idx_in single idxs (scores @ [d])")
  with Cons.prems w r have r': "r' = Inr out" and tr: "tr = trj @ tr'" by auto
  from Cons.IH [OF rest [unfolded r']] obtain ds where
    ds: "out = (scores @ [d]) @ ds" "length ds = length idxs"
      "\<forall>k<length idxs. fst (single (idxs ! k)) = Inr (ScoreDict (ds ! k))"
      "tr' = started single idxs" by blast
  from w r have dj: "fst (single j) = Inr (ScoreDict d)"
    using fst_while_true_Inr [of single j d] by simp
  from w snd_while_true [of single j] have trj: "trj = IterationStart j # snd (single j)" by simp
  show ?case
  proof (intro exI [of _ "d # ds"] conjI allI impI)
    show "out = scores @ d # ds" using ds(1) by simp
    show "length (d # ds) = length (j # idxs)" using ds(2) by simp
    show "tr = started single (j # idxs)" using tr trj ds(4) by (simp add: started_def)
    fix k assume "k < length (j # idxs)"
    then show "fst (single ((j # idxs) ! k)) = Inr (ScoreDict ((d # ds) ! k))"
      using dj ds(3) by (cases k) simp_all
  qed
qed


lemma no_start_first_iteration_check:
  "first_iteration_check E tc mc idx ps = (r, tr) \<Longrightarrow> iterations_started tr = []"
  by (auto simp: first_iteration_check_def split: option.splits if_splits)

lemma no_start_store_emissions:
  "store_emissions E cfg idx n scores = (r, tr) \<Longrightarrow> iterations_started tr = []"
  by (auto simp: store_emissions_def split: if_splits)

lemma no_start_carbon_start: "iterations_started (carbon_start cfg) = []"
  by (simp add: carbon_start_def)

lemma no_start_pytorch_jax_scores:
  "pytorch_jax_scores E cfg tc idx mc ds pds md all_ps last_ps = (r, tr)
   \<Longrightarrow> iterations_started tr = []"
  by (auto simp: pytorch_jax_scores_def iterations_started_append
      split: sum.splits prod.splits option.splits
      dest: no_start_first_iteration_check no_start_store_emissions)

lemma no_start_spacy_scores:
  "spacy_scores E cfg tc idx mc ds pds ps = (r, tr) \<Longrightarrow> iterations_started tr = []"
  by (auto simp: spacy_scores_def iterations_started_append
      split: sum.splits prod.splits option.splits
      dest: no_start_first_iteration_check no_start_store_emissions)

lemma no_start_pytorch_jax_try:
  "pytorch_jax_try E cfg tc idx mc ds pds dc = (r, fr, tr) \<Longrightarrow> iterations_started tr = []"
  by (auto simp: pytorch_jax_try_def iterations_started_append no_start_carbon_start
      split: sum.splits prod.splits dest: no_start_pytorch_jax_scores)

lemma no_start_spacy_try:
  "spacy_try E cfg tc idx mc ds pds = (r, fr, tr) \<Longrightarrow> iterations_started tr = []"
  by (auto simp: spacy_try_def iterations_started_append no_start_carbon_start
      split: sum.splits prod.splits dest: no_start_spacy_scores)

lemma no_start_except_handler:
  "except_handler e fr = (r, fr', tr) \<Longrightarrow> iterations_started tr = []"
  by (cases e) (auto simp: del_locals_def iterations_started_append split: if_splits)

lemma no_start_try_except:
  "try_except (b, fr, tr) = (r, fr', tr') \<Longrightarrow> iterations_started tr = []
   \<Longrightarrow> iterations_started tr' = []"
  by (auto simp: try_except_def iterations_started_append split: sum.splits prod.splits
      dest: no_start_except_handler)

lemma no_start_pytorch_jax_single_iteration:
  "iterations_started (snd (forget_frame
     (evaluate_pytorch_jax_single_iteration E cfg tc idx mc ds pds dc))) = []"
proof -
  obtain b fr tr where body: "pytorch_jax_try E cfg tc idx mc ds pds dc = (b, fr, tr)"
    by (cases "pytorch_jax_try E cfg tc idx mc ds pds dc") auto
  obtain r fr' tr' where res: "try_except (b, fr, tr) = (r, fr', tr')"
    by (cases "try_except (b, fr, tr)") auto
  from no_start_try_except [OF res no_start_pytorch_jax_try [OF body]] body res
  show ?thesis
    by (simp add: forget_frame_def evaluate_pytorch_jax_single_iteration_def)
qed

lemma no_start_spacy_single_iteration:
  "iterations_started (snd (forget_frame
     (evaluate_spacy_single_iteration E cfg tc idx mc ds pds))) = []"
proof -
  obtain b fr tr where body: "spacy_try E cfg tc idx mc ds pds = (b, fr, tr)"
    by (cases "spacy_try E cfg tc idx mc ds pds") auto
  obtain r fr' tr' where res: "try_except (b, fr, tr) = (r, fr', tr')"
    by (cases "try_except (b, fr, tr)") auto
  from no_start_try_except [OF res no_start_spacy_try [OF body]] body res
  show ?thesis
    by (simp add: forget_frame_def evaluate_spacy_single_iteration_def)
qed

lemma iterations_started_started:
  "\<forall>j\<in>set idxs. iterations_started (snd (single j)) = []
   \<Longrightarrow> iterations_started (started single idxs) = idxs"
  by (induction idxs) (simp_all add: started_def iterations_started_append)

lemma upt_split_at: "i < n \<Longrightarrow> [0..<n] = [0..<i] @ i # [Suc i..<n]"
proof -
  assume "i < n"
  then obtain k where n: "n = i + Suc k"
    by (auto simp: less_iff_Suc_add)
  have "[0..<i + Suc k] = [0..<i] @ [i..<i + Suc k]"
    by (rule upt_add_eq_append) simp
  also have "[i..<i + Suc k] = i # [Suc i..<i + Suc k]"
    by (rule upt_conv_Cons) simp
  finally show ?thesis by (simp add: n)
qed

lemma fst_forget_frame: "fst (forget_frame r) = fst r"
  by (simp add: forget_frame_def)

lemma for_idx_in_upto_stops:
  assumes "i < n"
    and "\<forall>j<i. \<exists>d. fst (single j) = Inr (ScoreDict d)"
    and "fst (while_true single i) = Inl e"
  shows "for_idx_in single [0..<n] [] = (Inl e, started single [0..<Suc i])"
proof -
  from assms(2) have "\<forall>j\<in>set [0..<i]. \<exists>d. fst (single j) = Inr (ScoreDict d)" by simp
  from for_idx_in_stops [OF this assms(3), of "[Suc i..<n]" "[]"] upt_split_at [OF assms(1)]
  show ?thesis by simp
qed

lemma evaluate_pytorch_jax_stops:
  assumes "bootstrap_and_preprocess E cfg ''pytorch'' md dataset rng n = Inr (bds, pds)"
    and "load_data_collator E md = Inr dc"
    and "i < n"
    and "\<forall>j<i. \<exists>d. fst (evaluate_pytorch_jax_single_iteration E cfg tc j mc
                          (bds ! j) (pds ! j) dc) = Inr (ScoreDict d)"
    and "fst (while_true (\<lambda>idx. forget_frame (evaluate_pytorch_jax_single_iteration E cfg tc
                 idx mc (bds ! idx) (pds ! idx) dc)) i) = Inl e"
  shows "fst (evaluate_pytorch_jax E cfg tc md dataset rng mc n) = Inl e
     \<and> iterations_started (snd (evaluate_pytorch_jax E cfg tc md dataset rng mc n)) = [0..<Suc i]"
proof -
  let ?single = "\<lambda>idx. forget_frame (evaluate_pytorch_jax_single_iteration E cfg tc
                 idx mc (bds ! idx) (pds ! idx) dc)"
  from assms(4) have "\<forall>j<i. \<exists>d. fst (?single j) = Inr (ScoreDict d)"
    by (simp add: fst_forget_frame)
  from for_idx_in_upto_stops [of i n ?single e, OF assms(3) this assms(5)]
  have loop: "for_idx_in ?single [0..<n] [] = (Inl e, started ?single [0..<Suc i])" .
  have "iterations_started (started ?single [0..<Suc i]) = [0..<Suc i]"
    by (rule iterations_started_started) (simp add: no_start_pytorch_jax_single_iteration)
  with loop assms(1,2) show ?thesis
    by (simp add: evaluate_pytorch_jax_def)
qed

lemma evaluate_spacy_stops:
  assumes "bootstrap_and_preprocess E cfg ''spacy'' md dataset rng n = Inr (bds, pds)"
    and "i < n"
    and "\<forall>j<i. \<exists>d. fst (evaluate_spacy_single_iteration E cfg tc j mc
                          (bds ! j) (pds ! j)) = Inr (ScoreDict d)"
    and "fst (while_true (\<lambda>idx. forget_frame (evaluate_spacy_single_iteration E cfg tc
                 idx mc (bds ! idx) (pds ! idx))) i) = Inl e"
  shows "fst (evaluate_spacy E cfg tc md dataset rng mc n) = Inl e
     \<and> iterations_started (snd (evaluate_spacy E cfg tc md dataset rng mc n)) = [0..<Suc i]"
proof -
  let ?single = "\<lambda>idx. forget_frame (evaluate_spacy_single_iteration E cfg tc
                 idx mc (bds ! idx) (pds ! idx))"
  from assms(3) have "\<forall>j<i. \<exists>d. fst (?single j) = Inr (ScoreDict d)"
    by (simp add: fst_forget_frame)
  from for_idx_in_upto_stops [of i n ?single e, OF assms(2) this assms(4)]
  have loop: "for_idx_in ?single [0..<n] [] = (Inl e, started ?single [0..<Suc i])" .
  have "iterations_started (started ?single [0..<Suc i]) = [0..<Suc i]"
    by (rule iterations_started_started) (simp add: no_start_spacy_single_iteration)
  with loop assms(1) show ?thesis
    by (simp add: evaluate_spacy_def)
qed

subsection \<open>Running the example\<close>


lemmas example_defs =
  example_env_def example_integers_def example_model_config_def
  testing_config_def sent_def macro_f1_def mcc_def

lemma bootstrapped_datasets_unfold:
  "bootstrapped_datasets I rng dataset n =
     (if n = 0 then Inr []
      else (case I rng 0 (length dataset) (length dataset) of
        (indices, rng') \<Rightarrow>
          (case take_rows dataset indices of
             Inl e \<Rightarrow> Inl e
           | Inr b \<Rightarrow>
               (case bootstrapped_datasets I rng' dataset (n - 1) of
                  Inl e \<Rightarrow> Inl e
                | Inr bs \<Rightarrow> Inr (b # bs)))))"
  by (cases n) (auto split: prod.splits sum.splits)

lemma example_bootstrap:
  "bootstrap_and_preprocess (example_env fw fault trained) testing_config fw' md
     (r0 # r1 # r2 # r3 # rest) 4242 2
   = Inr ([[r2, r1, r0, r3], [r3, r2, r1, r0]], [[r2, r1, r0, r3], [r3, r2, r1, r0]])"
  by (simp add: bootstrap_and_preprocess_def truncate_if_testing_def take_rows_def
      preprocess_datasets_def bootstrapped_datasets_unfold upt_conv_Cons example_defs)

lemma example_iteration_scores:
  "fault (703 + idx) = None \<Longrightarrow>
   fst (evaluate_pytorch_jax_single_iteration (example_env fw fault True)
     testing_config sent idx mc ds [x1, x2, x3, x4] dc)
   = Inr (ScoreDict [(''macro_f1'', 1 / 3), (''mcc'', - 1 / 3)])"
  by (simp add: evaluate_pytorch_jax_single_iteration_def try_except_def pytorch_jax_try_def
      pytorch_jax_scores_def first_iteration_check_def compute_metrics_def replicate_pairs_def
      store_emissions_def carbon_start_def chunks.simps example_defs)

lemma example_iteration_error_value:
  "fault (703 + idx) = Some (Builtin RuntimeError ''CUDA out of memory'') \<Longrightarrow>
   evaluate_pytorch_jax_single_iteration (example_env fw fault trained)
     testing_config sent idx mc ds [x1, x2, x3, x4] dc
   = (Inr (ErrorValue RuntimeError ''CUDA out of memory''),
      \<lparr>model_dict = None, model = None\<rparr>, [LoadModel, DelModel, DelModelDict, ClearMemory])"
  by (simp add: evaluate_pytorch_jax_single_iteration_def try_except_def pytorch_jax_try_def
      carbon_start_def chunks.simps del_locals_def sublist_code example_defs)

subsection \<open>Failed iterations\<close>

text \<open>
  C2. On either path, when the iterations before \<open>i\<close> return scores and iteration \<open>i\<close>
  returns an exception value, the evaluation raises \<open>InvalidEvaluation\<close> with the
  message of iteration \<open>i\<close>, and the iterations started are \<open>0, ..., i\<close>, each once:
  iteration \<open>i\<close> is not run again and no later iteration runs.
\<close>

theorem error_value_aborts_evaluation:
  "(bootstrap_and_preprocess E cfg ''pytorch'' md dataset rng n = Inr (bds, pds)
      \<and> load_data_collator E md = Inr dc \<and> i < n
      \<and> (\<forall>j<i. \<exists>d. fst (evaluate_pytorch_jax_single_iteration E cfg tc j mc
                          (bds ! j) (pds ! j) dc) = Inr (ScoreDict d))
      \<and> fst (evaluate_pytorch_jax_single_iteration E cfg tc i mc (bds ! i) (pds ! i) dc)
          = Inr (ErrorValue c msg)
    \<longrightarrow> fst (evaluate_pytorch_jax E cfg tc md dataset rng mc n)
          = Inl (InvalidEvaluation (invalid_evaluation_message i msg))
        \<and> iterations_started (snd (evaluate_pytorch_jax E cfg tc md dataset rng mc n))
          = [0..<Suc i])
   \<and> (bootstrap_and_preprocess E cfg ''spacy'' md dataset rng n = Inr (bds', pds')
      \<and> i < n
      \<and> (\<forall>j<i. \<exists>d. fst (evaluate_spacy_single_iteration E cfg tc j mc
                          (bds' ! j) (pds' ! j)) = Inr (ScoreDict d))
      \<and> fst (evaluate_spacy_single_iteration E cfg tc i mc (bds' ! i) (pds' ! i))
          = Inr (ErrorValue c msg)
    \<longrightarrow> fst (evaluate_spacy E cfg tc md dataset rng mc n)
          = Inl (InvalidEvaluation (invalid_evaluation_message i msg))
        \<and> iterations_started (snd (evaluate_spacy E cfg tc md dataset rng mc n))
          = [0..<Suc i])"
proof (intro conjI impI)
  assume a: "bootstrap_and_preprocess E cfg ''pytorch'' md dataset rng n = Inr (bds, pds)
      \<and> load_data_collator E md = Inr dc \<and> i < n
      \<and> (\<forall>j<i. \<exists>d. fst (evaluate_pytorch_jax_single_iteration E cfg tc j mc
                          (bds ! j) (pds ! j) dc) = Inr (ScoreDict d))
      \<and> fst (evaluate_pytorch_jax_single_iteration E cfg tc i mc (bds ! i) (pds ! i) dc)
          = Inr (ErrorValue c msg)"
  let ?single = "\<lambda>idx. forget_frame (evaluate_pytorch_jax_single_iteration E cfg tc
                 idx mc (bds ! idx) (pds ! idx) dc)"
  from a have "fst (?single i) = Inr (ErrorValue c msg)" by (simp add: fst_forget_frame)
  from fst_while_true_error_value [of ?single i c msg, OF this]
  have stop: "fst (while_true ?single i) = Inl (InvalidEvaluation (invalid_evaluation_message i msg))" .
  from a have s1: "bootstrap_and_preprocess E cfg ''pytorch'' md dataset rng n = Inr (bds, pds)"
    and s2: "load_data_collator E md = Inr dc" and s3: "i < n"
    and s4: "\<forall>j<i. \<exists>d. fst (evaluate_pytorch_jax_single_iteration E cfg tc j mc
                          (bds ! j) (pds ! j) dc) = Inr (ScoreDict d)" by simp_all
  from evaluate_pytorch_jax_stops [OF s1 s2 s3 s4 stop]
  show "fst (evaluate_pytorch_jax E cfg tc md dataset rng mc n)
          = Inl (InvalidEvaluation (invalid_evaluation_message i msg))"
    and "iterations_started (snd (evaluate_pytorch_jax E cfg tc md dataset rng mc n))
          = [0..<Suc i]" by simp_all
next
  assume a: "bootstrap_and_preprocess E cfg ''spacy'' md dataset rng n = Inr (bds', pds')
      \<and> i < n
      \<and> (\<forall>j<i. \<exists>d. fst (evaluate_spacy_single_iteration E cfg tc j mc
                          (bds' ! j) (pds' ! j)) = Inr (ScoreDict d))
      \<and> fst (evaluate_spacy_single_iteration E cfg tc i mc (bds' ! i) (pds' ! i))
          = Inr (ErrorValue c msg)"
  let ?single = "\<lambda>idx. forget_frame (evaluate_spacy_single_iteration E cfg tc
                 idx mc (bds' ! idx) (pds' ! idx))"
  from a have "fst (?single i) = Inr (ErrorValue c msg)" by (simp add: fst_forget_frame)
  from fst_while_true_error_value [of ?single i c msg, OF this]
  have stop: "fst (while_true ?single i) = Inl (InvalidEvaluation (invalid_evaluation_message i msg))" .
  from a have s1: "bootstrap_and_preprocess E cfg ''spacy'' md dataset rng n = Inr (bds', pds')"
    and s3: "i < n"
    and s4: "\<forall>j<i. \<exists>d. fst (evaluate_spacy_single_iteration E cfg tc j mc
                          (bds' ! j) (pds' ! j)) = Inr (ScoreDict d)" by simp_all
  from evaluate_spacy_stops [OF s1 s3 s4 stop]
  show "fst (evaluate_spacy E cfg tc md dataset rng mc n)
          = Inl (InvalidEvaluation (invalid_evaluation_message i msg))"
    and "iterations_started (snd (evaluate_spacy E cfg tc md dataset rng mc n))
          = [0..<Suc i]" by simp_all
qed

theorem error_value_aborts_evaluation_witness:
  "fst (evaluate_pytorch_jax (example_env ''pytorch'' (out_of_memory_at 1) True) testing_config
          sent 0 example_dataset 4242 (example_model_config ''pytorch'') 2)
     = Inl (InvalidEvaluation (invalid_evaluation_message 1 ''CUDA out of memory''))
   \<and> iterations_started (snd (evaluate_pytorch_jax
          (example_env ''pytorch'' (out_of_memory_at 1) True) testing_config
          sent 0 example_dataset 4242 (example_model_config ''pytorch'') 2)) = [0, 1]"
proof -
  let ?E = "example_env ''pytorch'' (out_of_memory_at 1) True"
  let ?mc = "example_model_config ''pytorch''"
  obtain r0 r1 r2 r3 rest where ds: "example_dataset = r0 # r1 # r2 # r3 # rest"
    by (simp add: example_dataset_def)
  let ?bds = "[[r2, r1, r0, r3], [r3, r2, r1, r0]]"
  have s1: "bootstrap_and_preprocess ?E testing_config ''pytorch'' 0 example_dataset 4242 2
            = Inr (?bds, ?bds)"
    unfolding ds by (rule example_bootstrap)
  have s2: "load_data_collator ?E 0 = Inr ()"
    by (simp add: example_env_def)
  have s4: "\<forall>j<1. \<exists>d. fst (evaluate_pytorch_jax_single_iteration ?E testing_config sent j ?mc
                          (?bds ! j) (?bds ! j) ()) = Inr (ScoreDict d)"
    by (simp add: example_iteration_scores out_of_memory_at_def)
  have s5: "fst (evaluate_pytorch_jax_single_iteration ?E testing_config sent 1 ?mc
                          (?bds ! 1) (?bds ! 1) ()) = Inr (ErrorValue RuntimeError ''CUDA out of memory'')"
    by (simp add: example_iteration_error_value out_of_memory_at_def)
  from error_value_aborts_evaluation [of ?E testing_config 0 example_dataset 4242 2 ?bds ?bds "()"
      1 sent ?mc RuntimeError "''CUDA out of memory''"] s1 s2 s4 s5
  have "fst (evaluate_pytorch_jax ?E testing_config sent 0 example_dataset 4242 ?mc 2)
          = Inl (InvalidEvaluation (invalid_evaluation_message 1 ''CUDA out of memory''))
        \<and> iterations_started (snd (evaluate_pytorch_jax ?E testing_config sent 0 example_dataset
              4242 ?mc 2)) = [0..<Suc 1]"
    by simp
  then show ?thesis by (simp add: upt_conv_Cons)
qed

subsection \<open>Successful evaluations\<close>

text \<open>
  C1. When the evaluation of a model with \<open>n\<close> iterations requested returns, on
  either path, the list of scores handed to \<open>log_scores\<close> has exactly \<open>n\<close> entries, entry
  \<open>i\<close> is what iteration \<open>i\<close> returned, and the iterations started are \<open>0, ..., n - 1\<close>
  in this order, each once.
\<close>

theorem raw_scores_one_per_iteration:
  "(evaluate_pytorch_jax E cfg tc md dataset rng mc n = (Inr out, tr) \<longrightarrow>
      (\<exists>bds pds dc scores.
         bootstrap_and_preprocess E cfg ''pytorch'' md dataset rng n = Inr (bds, pds)
         \<and> load_data_collator E md = Inr dc
         \<and> out = log_scores E (task_pretty_name tc) (logged_metric_configs E cfg tc) scores
                   (model_id mc) (only_return_log cfg)
         \<and> length scores = n
         \<and> (\<forall>i<n. fst (evaluate_pytorch_jax_single_iteration E cfg tc i mc
                          (bds ! i) (pds ! i) dc) = Inr (ScoreDict (scores ! i)))
         \<and> iterations_started tr = [0..<n]))
   \<and> (evaluate_spacy E cfg tc md dataset rng mc n = (Inr out', tr') \<longrightarrow>
      (\<exists>bds pds scores.
         bootstrap_and_preprocess E cfg ''spacy'' md dataset rng n = Inr (bds, pds)
         \<and> out' = log_scores E (task_pretty_name tc) (logged_metric_configs E cfg tc) scores
                   (model_id mc) (only_return_log cfg)
         \<and> length scores = n
         \<and> (\<forall>i<n. fst (evaluate_spacy_single_iteration E cfg tc i mc
                          (bds ! i) (pds ! i)) = Inr (ScoreDict (scores ! i)))
         \<and> iterations_started tr' = [0..<n]))"
proof (intro conjI impI)
  assume a: "evaluate_pytorch_jax E cfg tc md dataset rng mc n = (Inr out, tr)"
  then obtain bds pds dc scores where
    s1: "bootstrap_and_preprocess E cfg ''pytorch'' md dataset rng n = Inr (bds, pds)"
    and s2: "load_data_collator E md = Inr dc"
    and loop: "for_idx_in (\<lambda>idx. forget_frame (evaluate_pytorch_jax_single_iteration E cfg tc
                 idx mc (bds ! idx) (pds ! idx) dc)) [0..<n] [] = (Inr scores, tr)"
    and out: "out = log_scores E (task_pretty_name tc) (logged_metric_configs E cfg tc) scores
                   (model_id mc) (only_return_log cfg)"
    by (auto simp: evaluate_pytorch_jax_def split: sum.splits prod.splits)
  let ?single = "\<lambda>idx. forget_frame (evaluate_pytorch_jax_single_iteration E cfg tc
                 idx mc (bds ! idx) (pds ! idx) dc)"
  from for_idx_in_success [OF loop] have len: "length scores = n"
    and each: "\<forall>k<n. fst (?single ([0..<n] ! k)) = Inr (ScoreDict (scores ! k))"
    and tr: "tr = started ?single [0..<n]" by auto
  have "iterations_started (started ?single [0..<n]) = [0..<n]"
    by (rule iterations_started_started) (simp add: no_start_pytorch_jax_single_iteration)
  with tr have st: "iterations_started tr = [0..<n]" by simp
  from each have each': "\<forall>i<n. fst (evaluate_pytorch_jax_single_iteration E cfg tc i mc
                          (bds ! i) (pds ! i) dc) = Inr (ScoreDict (scores ! i))"
    by (simp add: fst_forget_frame)
  from s1 s2 out len each' st
  show "\<exists>bds pds dc scores.
         bootstrap_and_preprocess E cfg ''pytorch'' md dataset rng n = Inr (bds, pds)
         \<and> load_data_collator E md = Inr dc
         \<and> out = log_scores E (task_pretty_name tc) (logged_metric_configs E cfg tc) scores
                   (model_id mc) (only_return_log cfg)
         \<and> length scores = n
         \<and> (\<forall>i<n. fst (evaluate_pytorch_jax_single_iteration E cfg tc i mc
                          (bds ! i) (pds ! i) dc) = Inr (ScoreDict (scores ! i)))
         \<and> iterations_started tr = [0..<n]"
    by blast
next
  assume a: "evaluate_spacy E cfg tc md dataset rng mc n = (Inr out', tr')"
  then obtain bds pds scores where
    s1: "bootstrap_and_preprocess E cfg ''spacy'' md dataset rng n = Inr (bds, pds)"
    and loop: "for_idx_in (\<lambda>idx. forget_frame (evaluate_spacy_single_iteration E cfg tc
                 idx mc (bds ! idx) (pds ! idx))) [0..<n] [] = (Inr scores, tr')"
    and out: "out' = log_scores E (task_pretty_name tc) (logged_metric_configs E cfg tc) scores
                   (model_id mc) (only_return_log cfg)"
    by (auto simp: evaluate_spacy_def split: sum.splits prod.splits)
  let ?single = "\<lambda>idx. forget_frame (evaluate_spacy_single_iteration E cfg tc
                 idx mc (bds ! idx) (pds ! idx))"
  from for_idx_in_success [OF loop] have len: "length scores = n"
    and each: "\<forall>k<n. fst (?single ([0..<n] ! k)) = Inr (ScoreDict (scores ! k))"
    and tr: "tr' = started ?single [0..<n]" by auto
  have "iterations_started (started ?single [0..<n]) = [0..<n]"
    by (rule iterations_started_started) (simp add: no_start_spacy_single_iteration)
  with tr have st: "iterations_started tr' = [0..<n]" by simp
  from each have each': "\<forall>i<n. fst (evaluate_spacy_single_iteration E cfg tc i mc
                          (bds ! i) (pds ! i)) = Inr (ScoreDict (scores ! i))"
    by (simp add: fst_forget_frame)
  from s1 out len each' st
  show "\<exists>bds pds scores.
         bootstrap_and_preprocess E cfg ''spacy'' md dataset rng n = Inr (bds, pds)
         \<and> out' = log_scores E (task_pretty_name tc) (logged_metric_configs E cfg tc) scores
                   (model_id mc) (only_return_log cfg)
         \<and> length scores = n
         \<and> (\<forall>i<n. fst (evaluate_spacy_single_iteration E cfg tc i mc
                          (bds ! i) (pds ! i)) = Inr (ScoreDict (scores ! i)))
         \<and> iterations_started tr' = [0..<n]"
    by blast
qed

lemma example_iteration_returns:
  "fault (703 + idx) = None \<Longrightarrow>
   evaluate_pytorch_jax_single_iteration (example_env fw fault True)
     testing_config sent idx mc ds [x1, x2, x3, x4] dc
   = (Inr (ScoreDict [(''macro_f1'', 1 / 3), (''mcc'', - 1 / 3)]),
      \<lparr>model_dict = Some (703 + idx), model = Some (703 + idx)\<rparr>,
      LoadModel # (if idx = 0 then [TrainedForTaskCheck 0] else []))"
  by (simp add: evaluate_pytorch_jax_single_iteration_def try_except_def pytorch_jax_try_def
      pytorch_jax_scores_def first_iteration_check_def compute_metrics_def replicate_pairs_def
      store_emissions_def carbon_start_def chunks.simps example_defs)

lemma example_evaluate_pytorch_jax:
  "evaluate_pytorch_jax (example_env ''pytorch'' no_fault True) testing_config sent 0
     (r0 # r1 # r2 # r3 # rest) 4242 (example_model_config ''pytorch'') 2
   = (Inr [[(''macro_f1'', 1 / 3), (''mcc'', - 1 / 3)], [(''macro_f1'', 1 / 3), (''mcc'', - 1 / 3)]],
      [IterationStart 0, LoadModel, TrainedForTaskCheck 0, IterationStart 1, LoadModel])"
proof -
  have c: "load_data_collator (example_env ''pytorch'' no_fault True) 0 = Inr ()"
    and l: "log_scores (example_env ''pytorch'' no_fault True) = (\<lambda>name mcs scores mid only_log. scores)"
    by (simp_all add: example_env_def)
  show ?thesis
    by (simp add: evaluate_pytorch_jax_def example_bootstrap c l upt_conv_Cons while_true_def
        forget_frame_def example_iteration_returns no_fault_def)
qed

theorem raw_scores_one_per_iteration_witness:
  "fst (evaluate_pytorch_jax (example_env ''pytorch'' no_fault True) testing_config sent 0
          example_dataset 4242 (example_model_config ''pytorch'') 2)
     = Inr [[(''macro_f1'', 1 / 3), (''mcc'', - 1 / 3)], [(''macro_f1'', 1 / 3), (''mcc'', - 1 / 3)]]
   \<and> length [[(''macro_f1'', 1 / 3 :: real), (''mcc'', - 1 / 3)],
              [(''macro_f1'', 1 / 3), (''mcc'', - 1 / 3)]] = 2
   \<and> iterations_started (snd (evaluate_pytorch_jax (example_env ''pytorch'' no_fault True)
          testing_config sent 0 example_dataset 4242 (example_model_config ''pytorch'') 2))
     = [0, 1]"
proof -
  let ?E = "example_env ''pytorch'' no_fault True"
  let ?mc = "example_model_config ''pytorch''"
  let ?out = "[[(''macro_f1'', 1 / 3 :: real), (''mcc'', - 1 / 3)],
               [(''macro_f1'', 1 / 3), (''mcc'', - 1 / 3)]]"
  let ?tr = "[IterationStart 0, LoadModel, TrainedForTaskCheck 0, IterationStart 1, LoadModel]"
  have run: "evaluate_pytorch_jax ?E testing_config sent 0 example_dataset 4242 ?mc 2
             = (Inr ?out, ?tr)"
    unfolding example_dataset_def by (rule example_evaluate_pytorch_jax)
  from raw_scores_one_per_iteration [of ?E testing_config sent 0 example_dataset 4242 ?mc 2
      ?out ?tr] run
  obtain scores where "?out = log_scores ?E (task_pretty_name sent)
        (logged_metric_configs ?E testing_config sent) scores (model_id ?mc)
        (only_return_log testing_config)"
    and "length scores = 2" and st: "iterations_started ?tr = [0..<2]"
    by blast
  then have "length ?out = 2" by (simp add: example_env_def)
  with run st show ?thesis by (simp add: upt_conv_Cons)
qed

subsection \<open>The check of the first iteration\<close>

lemma check_only_first_iteration_check:
  "first_iteration_check E tc mc idx ps = (r, tr) \<Longrightarrow> TrainedForTaskCheck k \<in> set tr
   \<Longrightarrow> idx = 0 \<and> k = 0"
  by (auto simp: first_iteration_check_def split: option.splits if_splits)

lemma no_check_store_emissions:
  "store_emissions E cfg idx n scores = (r, tr) \<Longrightarrow> TrainedForTaskCheck k \<notin> set tr"
  by (auto simp: store_emissions_def split: if_splits)

lemma no_check_carbon_start: "TrainedForTaskCheck k \<notin> set (carbon_start cfg)"
  by (simp add: carbon_start_def)

lemma check_only_pytorch_jax_scores:
  "pytorch_jax_scores E cfg tc idx mc ds pds md all_ps last_ps = (r, tr)
   \<Longrightarrow> TrainedForTaskCheck k \<in> set tr \<Longrightarrow> idx = 0 \<and> k = 0"
  by (auto simp: pytorch_jax_scores_def split: sum.splits prod.splits option.splits
      dest: check_only_first_iteration_check no_check_store_emissions)

lemma check_only_spacy_scores:
  "spacy_scores E cfg tc idx mc ds pds ps = (r, tr)
   \<Longrightarrow> TrainedForTaskCheck k \<in> set tr \<Longrightarrow> idx = 0 \<and> k = 0"
  by (auto simp: spacy_scores_def split: sum.splits prod.splits option.splits
      dest: check_only_first_iteration_check no_check_store_emissions)

lemma check_only_pytorch_jax_try:
  "pytorch_jax_try E cfg tc idx mc ds pds dc = (r, fr, tr)
   \<Longrightarrow> TrainedForTaskCheck k \<in> set tr \<Longrightarrow> idx = 0 \<and> k = 0"
  by (auto simp: pytorch_jax_try_def no_check_carbon_start split: sum.splits prod.splits
      dest: check_only_pytorch_jax_scores)

lemma check_only_spacy_try:
  "spacy_try E cfg tc idx mc ds pds = (r, fr, tr)
   \<Longrightarrow> TrainedForTaskCheck k \<in> set tr \<Longrightarrow> idx = 0 \<and> k = 0"
  by (auto simp: spacy_try_def no_check_carbon_start split: sum.splits prod.splits
      dest: check_only_spacy_scores)

lemma no_check_except_handler:
  "except_handler e fr = (r, fr', tr) \<Longrightarrow> TrainedForTaskCheck k \<notin> set tr"
  by (cases e) (auto simp: del_locals_def split: if_splits)

lemma check_try_except:
  "try_except (b, fr, tr) = (r, fr', tr') \<Longrightarrow> TrainedForTaskCheck k \<in> set tr'
   \<Longrightarrow> TrainedForTaskCheck k \<in> set tr"
  by (auto simp: try_except_def split: sum.splits prod.splits dest: no_check_except_handler)

lemma check_only_pytorch_jax_single_iteration:
  assumes "TrainedForTaskCheck k
           \<in> set (snd (snd (evaluate_pytorch_jax_single_iteration E cfg tc idx mc ds pds dc)))"
  shows "idx = 0 \<and> k = 0"
proof -
  obtain b fr tr where body: "pytorch_jax_try E cfg tc idx mc ds pds dc = (b, fr, tr)"
    by (cases "pytorch_jax_try E cfg tc idx mc ds pds dc") auto
  obtain r fr' tr' where res: "try_except (b, fr, tr) = (r, fr', tr')"
    by (cases "try_except (b, fr, tr)") auto
  from assms body res have "TrainedForTaskCheck k \<in> set tr'"
    by (simp add: evaluate_pytorch_jax_single_iteration_def)
  from check_only_pytorch_jax_try [OF body check_try_except [OF res this]]
  show ?thesis .
qed

lemma check_only_spacy_single_iteration:
  assumes "TrainedForTaskCheck k
           \<in> set (snd (snd (evaluate_spacy_single_iteration E cfg tc idx mc ds pds)))"
  shows "idx = 0 \<and> k = 0"
proof -
  obtain b fr tr where body: "spacy_try E cfg tc idx mc ds pds = (b, fr, tr)"
    by (cases "spacy_try E cfg tc idx mc ds pds") auto
  obtain r fr' tr' where res: "try_except (b, fr, tr) = (r, fr', tr')"
    by (cases "try_except (b, fr, tr)") auto
  from assms body res have "TrainedForTaskCheck k \<in> set tr'"
    by (simp add: evaluate_spacy_single_iteration_def)
  from check_only_spacy_try [OF body check_try_except [OF res this]]
  show ?thesis .
qed

lemma pytorch_jax_untrained:
  assumes "load_model E (Seeded 703) mc = Inr m"
    and "predict_batches (model_predictions E m dc)
           (chunks (if testing cfg then 2 else 32) pds) [] None = Inr (all_ps, Some last_ps)"
    and "prepare_predictions_and_labels E (Some m) all_ps ds pds = Inr pairs"
    and "\<not> check_if_model_is_trained_for_task E last_ps"
  shows "evaluate_pytorch_jax_single_iteration E cfg tc 0 mc ds pds dc
         = (Inl (ModelNotTrainedForTask (task_name tc) (framework mc)),
            \<lparr>model_dict = Some m, model = Some m\<rparr>,
            LoadModel # carbon_start cfg @ [TrainedForTaskCheck 0])"
  using assms
  by (simp add: evaluate_pytorch_jax_single_iteration_def try_except_def pytorch_jax_try_def
      pytorch_jax_scores_def first_iteration_check_def)

lemma spacy_untrained:
  assumes "load_model E (Seeded 703) mc = Inr m"
    and "get_spacy_predictions E m pds (if testing cfg then 2 else 32) = Inr ps"
    and "\<not> check_if_model_is_trained_for_task E ps"
  shows "evaluate_spacy_single_iteration E cfg tc 0 mc ds pds
         = (Inl (ModelNotTrainedForTask (task_name tc) (framework mc)),
            \<lparr>model_dict = Some m, model = Some m\<rparr>,
            LoadModel # carbon_start cfg @ [TrainedForTaskCheck 0])"
  using assms
  by (simp add: evaluate_spacy_single_iteration_def try_except_def spacy_try_def
      spacy_scores_def first_iteration_check_def)

lemma started_single: "started single [0] = IterationStart 0 # snd (single 0)"
  by (simp add: started_def)

text \<open>
  C3. The check whether the model is trained for the task is applied in iteration 0
  only, on either path. When it answers no, \<open>ModelNotTrainedForTask\<close> leaves the
  single-iteration method as an exception (the handler does not catch it and nothing
  is released), and the evaluation ends with it: the events are the start of iteration
  0, the loading of its model and the check, and iteration 1 is never started.
\<close>

theorem untrained_model_aborts_at_first_iteration:
  "(TrainedForTaskCheck k
      \<in> set (snd (snd (evaluate_pytorch_jax_single_iteration E cfg tc idx mc ds pds dc)))
    \<longrightarrow> idx = 0 \<and> k = 0)
   \<and> (TrainedForTaskCheck k
      \<in> set (snd (snd (evaluate_spacy_single_iteration E cfg tc idx mc ds pds')))
    \<longrightarrow> idx = 0 \<and> k = 0)
   \<and> (bootstrap_and_preprocess E cfg ''pytorch'' md dataset rng n = Inr (bootstrapped, prepared)
      \<and> load_data_collator E md = Inr dc \<and> 0 < n
      \<and> load_model E (Seeded 703) mc = Inr m
      \<and> predict_batches (model_predictions E m dc)
           (chunks (if testing cfg then 2 else 32) (prepared ! 0)) [] None
         = Inr (all_ps, Some last_ps)
      \<and> prepare_predictions_and_labels E (Some m) all_ps (bootstrapped ! 0) (prepared ! 0)
         = Inr pairs
      \<and> \<not> check_if_model_is_trained_for_task E last_ps
    \<longrightarrow> evaluate_pytorch_jax E cfg tc md dataset rng mc n
        = (Inl (ModelNotTrainedForTask (task_name tc) (framework mc)),
           IterationStart 0 # LoadModel # carbon_start cfg @ [TrainedForTaskCheck 0]))
   \<and> (bootstrap_and_preprocess E cfg ''spacy'' md dataset rng n = Inr (bootstrapped', prepared')
      \<and> 0 < n
      \<and> load_model E (Seeded 703) mc = Inr m
      \<and> get_spacy_predictions E m (prepared' ! 0) (if testing cfg then 2 else 32) = Inr ps
      \<and> \<not> check_if_model_is_trained_for_task E ps
    \<longrightarrow> evaluate_spacy E cfg tc md dataset rng mc n
        = (Inl (ModelNotTrainedForTask (task_name tc) (framework mc)),
           IterationStart 0 # LoadModel # carbon_start cfg @ [TrainedForTaskCheck 0]))"
proof (intro conjI impI)
  assume "TrainedForTaskCheck k
      \<in> set (snd (snd (evaluate_pytorch_jax_single_iteration E cfg tc idx mc ds pds dc)))"
  from check_only_pytorch_jax_single_iteration [OF this] show "idx = 0" "k = 0" by simp_all
next
  assume "TrainedForTaskCheck k
      \<in> set (snd (snd (evaluate_spacy_single_iteration E cfg tc idx mc ds pds')))"
  from check_only_spacy_single_iteration [OF this] show "idx = 0" "k = 0" by simp_all
next
  assume a: "bootstrap_and_preprocess E cfg ''pytorch'' md dataset rng n = Inr (bootstrapped, prepared)
      \<and> load_data_collator E md = Inr dc \<and> 0 < n
      \<and> load_model E (Seeded 703) mc = Inr m
      \<and> predict_batches (model_predictions E m dc)
           (chunks (if testing cfg then 2 else 32) (prepared ! 0)) [] None
         = Inr (all_ps, Some last_ps)
      \<and> prepare_predictions_and_labels E (Some m) all_ps (bootstrapped ! 0) (prepared ! 0)
         = Inr pairs
      \<and> \<not> check_if_model_is_trained_for_task E last_ps"
  let ?single = "\<lambda>idx. forget_frame (evaluate_pytorch_jax_single_iteration E cfg tc
                 idx mc (bootstrapped ! idx) (prepared ! idx) dc)"
  let ?e = "ModelNotTrainedForTask (task_name tc) (framework mc)"
  from a have h1: "load_model E (Seeded 703) mc = Inr m"
    and h2: "predict_batches (model_predictions E m dc)
           (chunks (if testing cfg then 2 else 32) (prepared ! 0)) [] None
         = Inr (all_ps, Some last_ps)"
    and h3: "prepare_predictions_and_labels E (Some m) all_ps (bootstrapped ! 0) (prepared ! 0)
         = Inr pairs"
    and h4: "\<not> check_if_model_is_trained_for_task E last_ps" by simp_all
  have it: "evaluate_pytorch_jax_single_iteration E cfg tc 0 mc (bootstrapped ! 0)
      (prepared ! 0) dc
      = (Inl ?e, \<lparr>model_dict = Some m, model = Some m\<rparr>,
         LoadModel # carbon_start cfg @ [TrainedForTaskCheck 0])"
    by (rule pytorch_jax_untrained [OF h1 h2 h3 h4])
  then have "fst (?single 0) = Inl ?e" by (simp add: forget_frame_def)
  from fst_while_true_raised [of ?single 0 ?e, OF this]
  have stop: "fst (while_true ?single 0) = Inl ?e" .
  from a have n: "0 < n" by simp
  from for_idx_in_upto_stops [of 0 n ?single ?e, OF n _ stop]
  have "for_idx_in ?single [0..<n] [] = (Inl ?e, started ?single [0..<Suc 0])" by simp
  with it have "for_idx_in ?single [0..<n] []
      = (Inl ?e, IterationStart 0 # LoadModel # carbon_start cfg @ [TrainedForTaskCheck 0])"
    by (simp add: started_single forget_frame_def)
  with a show "evaluate_pytorch_jax E cfg tc md dataset rng mc n
        = (Inl ?e, IterationStart 0 # LoadModel # carbon_start cfg @ [TrainedForTaskCheck 0])"
    by (simp add: evaluate_pytorch_jax_def)
next
  assume a: "bootstrap_and_preprocess E cfg ''spacy'' md dataset rng n = Inr (bootstrapped', prepared')
      \<and> 0 < n
      \<and> load_model E (Seeded 703) mc = Inr m
      \<and> get_spacy_predictions E m (prepared' ! 0) (if testing cfg then 2 else 32) = Inr ps
      \<and> \<not> check_if_model_is_trained_for_task E ps"
  let ?single = "\<lambda>idx. forget_frame (evaluate_spacy_single_iteration E cfg tc
                 idx mc (bootstrapped' ! idx) (prepared' ! idx))"
  let ?e = "ModelNotTrainedForTask (task_name tc) (framework mc)"
  from a have h1: "load_model E (Seeded 703) mc = Inr m"
    and h2: "get_spacy_predictions E m (prepared' ! 0) (if testing cfg then 2 else 32) = Inr ps"
    and h3: "\<not> check_if_model_is_trained_for_task E ps" by simp_all
  have it: "evaluate_spacy_single_iteration E cfg tc 0 mc (bootstrapped' ! 0)
      (prepared' ! 0)
      = (Inl ?e, \<lparr>model_dict = Some m, model = Some m\<rparr>,
         LoadModel # carbon_start cfg @ [TrainedForTaskCheck 0])"
    by (rule spacy_untrained [OF h1 h2 h3])
  then have "fst (?single 0) = Inl ?e" by (simp add: forget_frame_def)
  from fst_while_true_raised [of ?single 0 ?e, OF this]
  have stop: "fst (while_true ?single 0) = Inl ?e" .
  from a have n: "0 < n" by simp
  from for_idx_in_upto_stops [of 0 n ?single ?e, OF n _ stop]
  have "for_idx_in ?single [0..<n] [] = (Inl ?e, started ?single [0..<Suc 0])" by simp
  with it have "for_idx_in ?single [0..<n] []
      = (Inl ?e, IterationStart 0 # LoadModel # carbon_start cfg @ [TrainedForTaskCheck 0])"
    by (simp add: started_single forget_frame_def)
  with a show "evaluate_spacy E cfg tc md dataset rng mc n
        = (Inl ?e, IterationStart 0 # LoadModel # carbon_start cfg @ [TrainedForTaskCheck 0])"
    by (simp add: evaluate_spacy_def)
qed

lemma example_spacy_predictions:
  "get_spacy_predictions (example_env fw no_fault trained) m prepared bs
   = Inr (map (\<lambda>x. 1) prepared)"
  by (simp add: example_env_def no_fault_def)

theorem untrained_model_aborts_at_first_iteration_witness:
  "evaluate_spacy (example_env ''spacy'' no_fault False) testing_config sent 0 example_dataset
     4242 (example_model_config ''spacy'') 2
   = (Inl (ModelNotTrainedForTask ''sent'' ''spacy''),
      [IterationStart 0, LoadModel, TrainedForTaskCheck 0])"
proof -
  let ?E = "example_env ''spacy'' no_fault False"
  let ?mc = "example_model_config ''spacy''"
  obtain r0 r1 r2 r3 rest where ds: "example_dataset = r0 # r1 # r2 # r3 # rest"
    by (simp add: example_dataset_def)
  let ?bds = "[[r2, r1, r0, r3], [r3, r2, r1, r0]]"
  have s1: "bootstrap_and_preprocess ?E testing_config ''spacy'' 0 example_dataset 4242 2
            = Inr (?bds, ?bds)"
    unfolding ds by (rule example_bootstrap)
  have s2: "load_model ?E (Seeded 703) ?mc = Inr 703"
    by (simp add: example_env_def)
  have s3: "get_spacy_predictions ?E 703 (?bds ! 0) (if testing testing_config then 2 else 32)
            = Inr [1, 1, 1, 1]"
    by (simp add: example_spacy_predictions)
  have s4: "\<not> check_if_model_is_trained_for_task ?E [1, 1, 1, 1]"
    by (simp add: example_env_def)
  from untrained_model_aborts_at_first_iteration [of _ ?E testing_config sent _ ?mc _ _ _ _
      0 example_dataset 4242 2 _ _ 703 _ _ _ ?bds ?bds "[1, 1, 1, 1]"] s1 s2 s3 s4
  have "evaluate_spacy ?E testing_config sent 0 example_dataset 4242 ?mc 2
        = (Inl (ModelNotTrainedForTask (task_name sent) (framework ?mc)),
           IterationStart 0 # LoadModel # carbon_start testing_config @ [TrainedForTaskCheck 0])"
    by simp
  then show ?thesis
    by (simp add: sent_def example_model_config_def carbon_start_def testing_config_def)
qed

subsection \<open>The handler of a single iteration\<close>



lemma except_handler_returns:
  "except_handler e fr = (Inr v, fr', tr) \<Longrightarrow>
   model fr' = None \<and> model_dict fr' = None \<and> tr \<noteq> [] \<and> last tr = ClearMemory"
  by (cases e) (auto simp: del_locals_def split: if_splits)

lemma try_except_returns_error_value:
  "try_except (b, fr, tr) = (Inr (ErrorValue c msg), fr', tr') \<Longrightarrow>
   model fr' = None \<and> model_dict fr' = None \<and> tr' \<noteq> [] \<and> last tr' = ClearMemory"
  by (cases b)
    (auto simp: try_except_def split: prod.splits dest!: except_handler_returns)

text \<open>
  C8, as amended. Whenever a single iteration hands the exception it caught back to
  its caller as a value, on either path, the model and the model dictionary are
  deleted and the memory is cleared before the return: the locals are unbound and
  \<open>ClearMemory\<close> is the last event. The handler decides in this order: a caught
  exception whose message names \<open>PYTORCH_ENABLE_MPS_FALLBACK\<close> is replaced by
  \<open>MPSFallbackNotEnabled\<close>, raised with the locals and the events as the \<open>try\<close> block
  left them; any other caught exception is returned after the release.
\<close>

theorem caught_error_released_before_return:
  "(evaluate_pytorch_jax_single_iteration E cfg tc idx mc ds pds dc
      = (Inr (ErrorValue c msg), fr', tr')
    \<longrightarrow> model fr' = None \<and> model_dict fr' = None \<and> tr' \<noteq> [] \<and> last tr' = ClearMemory)
   \<and> (evaluate_spacy_single_iteration E cfg tc idx mc ds pds'
      = (Inr (ErrorValue c msg), fr', tr')
    \<longrightarrow> model fr' = None \<and> model_dict fr' = None \<and> tr' \<noteq> [] \<and> last tr' = ClearMemory)
   \<and> (pytorch_jax_try E cfg tc idx mc ds pds dc = (Inl (Builtin c' msg'), fr, tr)
      \<and> (c' = RuntimeError \<or> c' = ValueError \<or> c' = IndexError)
    \<longrightarrow> evaluate_pytorch_jax_single_iteration E cfg tc idx mc ds pds dc
        = (if sublist ''PYTORCH_ENABLE_MPS_FALLBACK'' msg'
           then (Inl MPSFallbackNotEnabled, fr, tr)
           else (Inr (ErrorValue c' msg'), \<lparr>model_dict = None, model = None\<rparr>,
                 tr @ snd (del_locals fr) @ [ClearMemory])))
   \<and> (spacy_try E cfg tc idx mc ds pds' = (Inl (Builtin c' msg'), fr, tr)
      \<and> (c' = RuntimeError \<or> c' = ValueError \<or> c' = IndexError)
    \<longrightarrow> evaluate_spacy_single_iteration E cfg tc idx mc ds pds'
        = (if sublist ''PYTORCH_ENABLE_MPS_FALLBACK'' msg'
           then (Inl MPSFallbackNotEnabled, fr, tr)
           else (Inr (ErrorValue c' msg'), \<lparr>model_dict = None, model = None\<rparr>,
                 tr @ snd (del_locals fr) @ [ClearMemory])))"
proof (intro conjI impI)
  assume a: "evaluate_pytorch_jax_single_iteration E cfg tc idx mc ds pds dc
      = (Inr (ErrorValue c msg), fr', tr')"
  obtain b fr0 tr0 where body: "pytorch_jax_try E cfg tc idx mc ds pds dc = (b, fr0, tr0)"
    by (cases "pytorch_jax_try E cfg tc idx mc ds pds dc") auto
  with a have "try_except (b, fr0, tr0) = (Inr (ErrorValue c msg), fr', tr')"
    by (simp add: evaluate_pytorch_jax_single_iteration_def)
  from try_except_returns_error_value [OF this]
  show "model fr' = None" "model_dict fr' = None" "tr' \<noteq> []" "last tr' = ClearMemory"
    by simp_all
next
  assume a: "evaluate_spacy_single_iteration E cfg tc idx mc ds pds'
      = (Inr (ErrorValue c msg), fr', tr')"
  obtain b fr0 tr0 where body: "spacy_try E cfg tc idx mc ds pds' = (b, fr0, tr0)"
    by (cases "spacy_try E cfg tc idx mc ds pds'") auto
  with a have "try_except (b, fr0, tr0) = (Inr (ErrorValue c msg), fr', tr')"
    by (simp add: evaluate_spacy_single_iteration_def)
  from try_except_returns_error_value [OF this]
  show "model fr' = None" "model_dict fr' = None" "tr' \<noteq> []" "last tr' = ClearMemory"
    by simp_all
next
  assume a: "pytorch_jax_try E cfg tc idx mc ds pds dc = (Inl (Builtin c' msg'), fr, tr)
      \<and> (c' = RuntimeError \<or> c' = ValueError \<or> c' = IndexError)"
  then have c: "c' = RuntimeError \<or> c' = ValueError \<or> c' = IndexError" by simp
  from a show "evaluate_pytorch_jax_single_iteration E cfg tc idx mc ds pds dc
        = (if sublist ''PYTORCH_ENABLE_MPS_FALLBACK'' msg'
           then (Inl MPSFallbackNotEnabled, fr, tr)
           else (Inr (ErrorValue c' msg'), \<lparr>model_dict = None, model = None\<rparr>,
                 tr @ snd (del_locals fr) @ [ClearMemory]))"
    by (simp add: evaluate_pytorch_jax_single_iteration_def try_except_def del_locals_def)
next
  assume a: "spacy_try E cfg tc idx mc ds pds' = (Inl (Builtin c' msg'), fr, tr)
      \<and> (c' = RuntimeError \<or> c' = ValueError \<or> c' = IndexError)"
  then have c: "c' = RuntimeError \<or> c' = ValueError \<or> c' = IndexError" by simp
  from a show "evaluate_spacy_single_iteration E cfg tc idx mc ds pds'
        = (if sublist ''PYTORCH_ENABLE_MPS_FALLBACK'' msg'
           then (Inl MPSFallbackNotEnabled, fr, tr)
           else (Inr (ErrorValue c' msg'), \<lparr>model_dict = None, model = None\<rparr>,
                 tr @ snd (del_locals fr) @ [ClearMemory]))"
    by (simp add: evaluate_spacy_single_iteration_def try_except_def del_locals_def)
qed

lemma example_try_fault:
  "fault (703 + idx) = Some e \<Longrightarrow>
   pytorch_jax_try (example_env fw fault trained) testing_config sent idx mc ds [x1, x2, x3, x4] dc
   = (Inl e, \<lparr>model_dict = Some (703 + idx), model = Some (703 + idx)\<rparr>, [LoadModel])"
  by (simp add: pytorch_jax_try_def carbon_start_def chunks.simps example_defs)

theorem caught_error_released_before_return_witness:
  "evaluate_pytorch_jax_single_iteration (example_env ''pytorch'' (out_of_memory_at 1) True)
     testing_config sent 1 (example_model_config ''pytorch'') [] [[], [], [], []] ()
   = (Inr (ErrorValue RuntimeError ''CUDA out of memory''),
      \<lparr>model_dict = None, model = None\<rparr>, [LoadModel, DelModel, DelModelDict, ClearMemory])
   \<and> last [LoadModel, DelModel, DelModelDict, ClearMemory] = ClearMemory"
proof -
  let ?E = "example_env ''pytorch'' (out_of_memory_at 1) True"
  let ?mc = "example_model_config ''pytorch''"
  let ?fr = "\<lparr>model_dict = Some (703 + 1), model = Some (703 + (1::nat))\<rparr>"
  have body: "pytorch_jax_try ?E testing_config sent 1 ?mc [] [[], [], [], []] ()
      = (Inl (Builtin RuntimeError ''CUDA out of memory''), ?fr, [LoadModel])"
    by (rule example_try_fault) (simp add: out_of_memory_at_def)
  have nomps: "\<not> sublist ''PYTORCH_ENABLE_MPS_FALLBACK'' ''CUDA out of memory''"
    by (simp add: sublist_code)
  from caught_error_released_before_return [of ?E testing_config sent 1 ?mc "[]"
      "[[], [], [], []]" "()" _ _ _ _ _ RuntimeError "''CUDA out of memory''" ?fr "[LoadModel]"]
    body nomps
  have run: "evaluate_pytorch_jax_single_iteration ?E testing_config sent 1 ?mc [] [[], [], [], []] ()
      = (Inr (ErrorValue RuntimeError ''CUDA out of memory''),
         \<lparr>model_dict = None, model = None\<rparr>, [LoadModel] @ snd (del_locals ?fr) @ [ClearMemory])"
    by simp
  from run show ?thesis by (simp add: del_locals_def)
qed

text \<open>
  C8 as stated fails on the path it names: with a message that names
  \<open>PYTORCH_ENABLE_MPS_FALLBACK\<close> the iteration raises \<open>MPSFallbackNotEnabled\<close> while
  the model is still bound and the memory has not been cleared.
\<close>

theorem mps_fallback_raised_without_release_counterexample:
  "evaluate_pytorch_jax_single_iteration (example_env ''pytorch'' mps_fault True)
     testing_config sent 1 (example_model_config ''pytorch'') [] [[], [], [], []] ()
   = (Inl MPSFallbackNotEnabled, \<lparr>model_dict = Some 704, model = Some 704\<rparr>, [LoadModel])
   \<and> ClearMemory \<notin> set [LoadModel]"
proof -
  have body: "pytorch_jax_try (example_env ''pytorch'' mps_fault True) testing_config sent 1
      (example_model_config ''pytorch'') [] [[], [], [], []] ()
      = (Inl (Builtin RuntimeError
            ''set PYTORCH_ENABLE_MPS_FALLBACK=1 to use the CPU as a fallback''),
         \<lparr>model_dict = Some (703 + 1), model = Some (703 + 1)\<rparr>, [LoadModel])"
    by (rule example_try_fault) (simp add: mps_fault_def)
  have mps: "sublist ''PYTORCH_ENABLE_MPS_FALLBACK''
      ''set PYTORCH_ENABLE_MPS_FALLBACK=1 to use the CPU as a fallback''"
    by (simp add: sublist_code)
  from body mps show ?thesis
    by (simp add: evaluate_pytorch_jax_single_iteration_def try_except_def)
qed

subsection \<open>The pair of predictions and labels\<close>

lemma dict_set_fresh: "k \<notin> fst ` set d \<Longrightarrow> dict_set k v d = d @ [(k, v)]"
  by (induction d) auto

lemma compute_metrics_loop_zip:
  assumes "distinct (map metric_name ms)"
    and "\<forall>m\<in>set ms. metric_name m \<notin> fst ` set results"
    and "\<forall>j<min (length ms) (length ps).
           compute (ms ! j) (fst (ps ! j)) (snd (ps ! j)) = Inr (Some (sc (ms ! j)))"
  shows "compute_metrics_loop compute (zip ms ps) results
         = Inr (results @ map (\<lambda>m. (metric_name m, sc m)) (take (length ps) ms))"
  using assms
proof (induction ms arbitrary: ps results)
  case Nil
  show ?case by simp
next
  case (Cons m ms)
  show ?case
  proof (cases ps)
    case Nil
    then show ?thesis by simp
  next
    case (Cons q qs)
    obtain p l where q: "q = (p, l)" by (cases q)
    from Cons.prems(3) [rule_format, of 0] Cons q
    have c: "compute m p l = Inr (Some (sc m))" by simp
    from Cons.prems(2) have fresh: "metric_name m \<notin> fst ` set results" by simp
    have d: "distinct (map metric_name ms)" using Cons.prems(1) by simp
    have f: "\<forall>m'\<in>set ms. metric_name m' \<notin> fst ` set (results @ [(metric_name m, sc m)])"
    proof
      fix m' assume m': "m' \<in> set ms"
      from Cons.prems(1) have "metric_name m \<notin> metric_name ` set ms" by simp
      with m' have "metric_name m' \<noteq> metric_name m" by (metis imageI)
      moreover from Cons.prems(2) m' have "metric_name m' \<notin> fst ` set results" by simp
      ultimately show "metric_name m' \<notin> fst ` set (results @ [(metric_name m, sc m)])"
        by simp
    qed
    have r: "\<forall>j<min (length ms) (length qs).
           compute (ms ! j) (fst (qs ! j)) (snd (qs ! j)) = Inr (Some (sc (ms ! j)))"
    proof (intro allI impI)
      fix j assume "j < min (length ms) (length qs)"
      with Cons.prems(3) [rule_format, of "Suc j"] Cons
      show "compute (ms ! j) (fst (qs ! j)) (snd (qs ! j)) = Inr (Some (sc (ms ! j)))" by simp
    qed
    from Cons.IH [OF d f r] c Cons q fresh show ?thesis
      by (simp add: dict_set_fresh)
  qed
qed

lemma compute_metrics_scores:
  assumes "distinct (map metric_name (metrics tc))"
    and "\<forall>j<min (length (metrics tc)) (length ps).
           metric_compute E (metrics tc ! j) (fst (ps ! j)) (snd (ps ! j))
           = Inr (Some (sc (metrics tc ! j)))"
  shows "compute_metrics E tc ps
         = Inr (map (\<lambda>m. (metric_name m, sc m)) (take (length ps) (metrics tc)))"
  using compute_metrics_loop_zip [OF assms(1) _ assms(2), of "[]"]
  by (simp add: compute_metrics_def)

lemma store_emissions_raises:
  "store_emissions E cfg idx n scores = (Inl e, tr)
   \<Longrightarrow> e = Builtin ZeroDivisionError ''division by zero''"
  by (auto simp: store_emissions_def split: if_splits)

lemma try_except_store_emissions:
  "fst (try_except (case store_emissions E cfg idx n scores of (r, tr') \<Rightarrow> (r, fr, g tr')))
   = map_sum id ScoreDict (fst (store_emissions E cfg idx n scores))"
proof (cases "store_emissions E cfg idx n scores")
  case (Pair r tr')
  show ?thesis
  proof (cases r)
    case (Inl e)
    with Pair store_emissions_raises [of E cfg idx n scores e tr']
    show ?thesis by (simp add: try_except_def)
  next
    case (Inr s)
    with Pair show ?thesis by (simp add: try_except_def)
  qed
qed

lemma pytorch_jax_iteration_scores:
  assumes "load_model E (Seeded (703 + idx)) mc = Inr md"
    and "predict_batches (model_predictions E md dc)
           (chunks (if testing cfg then 2 else 32) pds) [] None = Inr (all_ps, last_ps)"
    and "prepare_predictions_and_labels E (Some md) all_ps ds pds = Inr pairs"
    and "fst (first_iteration_check E tc mc idx last_ps) = None"
    and "compute_metrics E tc (replicate_pairs pairs (length (metrics tc))) = Inr scores"
  shows "fst (evaluate_pytorch_jax_single_iteration E cfg tc idx mc ds pds dc)
         = map_sum id ScoreDict (fst (store_emissions E cfg idx (length pds) scores))"
proof -
  obtain trc where c: "first_iteration_check E tc mc idx last_ps = (None, trc)"
    using assms(4) by (cases "first_iteration_check E tc mc idx last_ps") simp
  have "pytorch_jax_try E cfg tc idx mc ds pds dc
        = (case store_emissions E cfg idx (length pds) scores of
             (r, tr') \<Rightarrow> (r, \<lparr>model_dict = Some md, model = Some md\<rparr>,
                           (LoadModel # carbon_start cfg @ trc) @ tr'))"
    using assms(1,2,3,5) c
    by (simp add: pytorch_jax_try_def pytorch_jax_scores_def split: prod.splits)
  then show ?thesis
    by (simp add: evaluate_pytorch_jax_single_iteration_def try_except_store_emissions)
qed

lemma spacy_iteration_scores:
  assumes "load_model E (Seeded (703 + idx)) mc = Inr md"
    and "get_spacy_predictions E md pds (if testing cfg then 2 else 32) = Inr ps"
    and "fst (first_iteration_check E tc mc idx (Some ps)) = None"
    and "prepare_predictions_and_labels E None ps ds pds = Inr pairs"
    and "compute_metrics E tc (replicate_pairs pairs (length (metrics tc))) = Inr scores"
  shows "fst (evaluate_spacy_single_iteration E cfg tc idx mc ds pds)
         = map_sum id ScoreDict (fst (store_emissions E cfg idx (length pds) scores))"
proof -
  obtain trc where c: "first_iteration_check E tc mc idx (Some ps) = (None, trc)"
    using assms(3) by (cases "first_iteration_check E tc mc idx (Some ps)") simp
  have "spacy_try E cfg tc idx mc ds pds
        = (case store_emissions E cfg idx (length pds) scores of
             (r, tr') \<Rightarrow> (r, \<lparr>model_dict = Some md, model = Some md\<rparr>,
                           (LoadModel # carbon_start cfg @ trc) @ tr'))"
    using assms(1,2,4,5) c
    by (simp add: spacy_try_def spacy_scores_def split: prod.splits)
  then show ?thesis
    by (simp add: evaluate_spacy_single_iteration_def try_except_store_emissions)
qed

lemma compute_metrics_single_pair:
  assumes "1 < length (metrics tc)" and "distinct (map metric_name (metrics tc))"
    and "\<forall>m\<in>set (metrics tc). metric_compute E m (fst p) (snd p) = Inr (Some (sc m))"
  shows "compute_metrics E tc (replicate_pairs [p] (length (metrics tc)))
         = Inr (map (\<lambda>m. (metric_name m, sc m)) (metrics tc))"
proof -
  from assms(1) have rp: "replicate_pairs [p] (length (metrics tc))
      = replicate (length (metrics tc)) p"
    by (simp add: replicate_pairs_def concat_replicate_single)
  have "\<forall>j<min (length (metrics tc)) (length (replicate (length (metrics tc)) p)).
      metric_compute E (metrics tc ! j) (fst (replicate (length (metrics tc)) p ! j))
        (snd (replicate (length (metrics tc)) p ! j)) = Inr (Some (sc (metrics tc ! j)))"
    using assms(3) by simp
  from compute_metrics_scores [OF assms(2) this] rp show ?thesis by simp
qed

lemma compute_metrics_unchanged:
  assumes "length pairs \<noteq> 1 \<or> length (metrics tc) \<le> 1"
    and "distinct (map metric_name (metrics tc))"
    and "\<forall>j<min (length (metrics tc)) (length pairs).
           metric_compute E (metrics tc ! j) (fst (pairs ! j)) (snd (pairs ! j))
           = Inr (Some (sc (metrics tc ! j)))"
  shows "compute_metrics E tc (replicate_pairs pairs (length (metrics tc)))
         = Inr (map (\<lambda>m. (metric_name m, sc m)) (take (length pairs) (metrics tc)))"
proof -
  from assms(1) have "replicate_pairs pairs (length (metrics tc)) = pairs"
    by (auto simp: replicate_pairs_def)
  with compute_metrics_scores [OF assms(2,3)] show ?thesis by simp
qed

lemma pairs_env_run:
  "load_model (pairs_env fw pairs) (Seeded (703 + idx)) mc = Inr (703 + idx)"
  "predict_batches (model_predictions (pairs_env fw pairs) md ())
     (chunks (if testing testing_config then 2 else 32) [x1, x2, x3, x4]) [] None
   = Inr ([1, 1, 1, 1], Some [1, 1])"
  "get_spacy_predictions (pairs_env fw pairs) md [x1, x2, x3, x4]
     (if testing testing_config then 2 else 32) = Inr [1, 1, 1, 1]"
  "fst (first_iteration_check (pairs_env fw pairs) sent mc idx (Some ps)) = None"
  "distinct (map metric_name (metrics sent))"
  "prepare_predictions_and_labels (pairs_env fw pairs) m all_ps ds pds = Inr pairs"
  "metric_compute (pairs_env fw pairs) metric_cfg predictions labels
   = Inr (Some (if metric_name metric_cfg = ''mcc'' then real (sum_list labels)
                else real (sum_list predictions)))"
  by (simp_all add: pairs_env_def example_env_def no_fault_def testing_config_def chunks.simps
      first_iteration_check_def sent_def macro_f1_def mcc_def)

lemma example_rows: "\<exists>x1 x2 x3 x4. take 4 example_dataset = [x1, x2, x3, x4]"
  by (simp add: example_dataset_def)

text \<open>
  C7. Within a single iteration, on either path: when the post-processing returns exactly
  one pair and more than one metric is configured, the pair becomes \<open>k\<close> copies of
  itself, one for each of the \<open>k\<close> metrics, before the metrics are computed, and the
  scores of the iteration hold, for every metric, the value that metric computes on the
  pair. A list of any other length is passed on as it is, and metric \<open>j\<close> is computed on
  pair \<open>j\<close> of it. (The metric names are distinct and every metric returns a score.)
\<close>

theorem single_pair_replicated_per_metric:
  "(1 < k \<longrightarrow> replicate_pairs [p] k = replicate k p \<and> length (replicate_pairs [p] k) = k
       \<and> (\<forall>i<k. replicate_pairs [p] k ! i = p))
   \<and> (length pairs \<noteq> 1 \<longrightarrow> replicate_pairs pairs k = pairs)
   \<and> (load_model E (Seeded (703 + idx)) mc = Inr md
        \<and> predict_batches (model_predictions E md dc)
             (chunks (if testing cfg then 2 else 32) pds) [] None = Inr (all_ps, last_ps)
        \<and> fst (first_iteration_check E tc mc idx last_ps) = None
        \<and> distinct (map metric_name (metrics tc))
      \<longrightarrow>
        (prepare_predictions_and_labels E (Some md) all_ps ds pds = Inr [p]
           \<and> 1 < length (metrics tc)
           \<and> (\<forall>m\<in>set (metrics tc). metric_compute E m (fst p) (snd p) = Inr (Some (sc m)))
         \<longrightarrow> fst (evaluate_pytorch_jax_single_iteration E cfg tc idx mc ds pds dc)
             = map_sum id ScoreDict (fst (store_emissions E cfg idx (length pds)
                 (map (\<lambda>m. (metric_name m, sc m)) (metrics tc)))))
        \<and> (prepare_predictions_and_labels E (Some md) all_ps ds pds = Inr pairs
           \<and> (length pairs \<noteq> 1 \<or> length (metrics tc) \<le> 1)
           \<and> (\<forall>j<min (length (metrics tc)) (length pairs).
                 metric_compute E (metrics tc ! j) (fst (pairs ! j)) (snd (pairs ! j))
                 = Inr (Some (sc (metrics tc ! j))))
         \<longrightarrow> fst (evaluate_pytorch_jax_single_iteration E cfg tc idx mc ds pds dc)
             = map_sum id ScoreDict (fst (store_emissions E cfg idx (length pds)
                 (map (\<lambda>m. (metric_name m, sc m)) (take (length pairs) (metrics tc)))))))
   \<and> (load_model E (Seeded (703 + idx)) mc = Inr md
        \<and> get_spacy_predictions E md pds (if testing cfg then 2 else 32) = Inr ps
        \<and> fst (first_iteration_check E tc mc idx (Some ps)) = None
        \<and> distinct (map metric_name (metrics tc))
      \<longrightarrow>
        (prepare_predictions_and_labels E None ps ds pds = Inr [p]
           \<and> 1 < length (metrics tc)
           \<and> (\<forall>m\<in>set (metrics tc). metric_compute E m (fst p) (snd p) = Inr (Some (sc m)))
         \<longrightarrow> fst (evaluate_spacy_single_iteration E cfg tc idx mc ds pds)
             = map_sum id ScoreDict (fst (store_emissions E cfg idx (length pds)
                 (map (\<lambda>m. (metric_name m, sc m)) (metrics tc)))))
        \<and> (prepare_predictions_and_labels E None ps ds pds = Inr pairs
           \<and> (length pairs \<noteq> 1 \<or> length (metrics tc) \<le> 1)
           \<and> (\<forall>j<min (length (metrics tc)) (length pairs).
                 metric_compute E (metrics tc ! j) (fst (pairs ! j)) (snd (pairs ! j))
                 = Inr (Some (sc (metrics tc ! j))))
         \<longrightarrow> fst (evaluate_spacy_single_iteration E cfg tc idx mc ds pds)
             = map_sum id ScoreDict (fst (store_emissions E cfg idx (length pds)
                 (map (\<lambda>m. (metric_name m, sc m)) (take (length pairs) (metrics tc)))))))"
proof (intro conjI impI)
  assume "1 < k"
  then show "replicate_pairs [p] k = replicate k p"
    by (simp add: replicate_pairs_def concat_replicate_single)
next
  assume "1 < k"
  then show "length (replicate_pairs [p] k) = k"
    by (simp add: replicate_pairs_def concat_replicate_single)
next
  assume "1 < k"
  then show "\<forall>i<k. replicate_pairs [p] k ! i = p"
    by (simp add: replicate_pairs_def concat_replicate_single)
next
  assume "length pairs \<noteq> 1"
  then show "replicate_pairs pairs k = pairs" by (simp add: replicate_pairs_def)
next
  assume run: "load_model E (Seeded (703 + idx)) mc = Inr md
        \<and> predict_batches (model_predictions E md dc)
             (chunks (if testing cfg then 2 else 32) pds) [] None = Inr (all_ps, last_ps)
        \<and> fst (first_iteration_check E tc mc idx last_ps) = None
        \<and> distinct (map metric_name (metrics tc))"
    and one: "prepare_predictions_and_labels E (Some md) all_ps ds pds = Inr [p]
           \<and> 1 < length (metrics tc)
           \<and> (\<forall>m\<in>set (metrics tc). metric_compute E m (fst p) (snd p) = Inr (Some (sc m)))"
  from run one have "compute_metrics E tc (replicate_pairs [p] (length (metrics tc)))
      = Inr (map (\<lambda>m. (metric_name m, sc m)) (metrics tc))"
    by (intro compute_metrics_single_pair) simp_all
  with run one show "fst (evaluate_pytorch_jax_single_iteration E cfg tc idx mc ds pds dc)
             = map_sum id ScoreDict (fst (store_emissions E cfg idx (length pds)
                 (map (\<lambda>m. (metric_name m, sc m)) (metrics tc))))"
    by (intro pytorch_jax_iteration_scores [where md = md and all_ps = all_ps
          and last_ps = last_ps and pairs = "[p]"]) simp_all
next
  assume run: "load_model E (Seeded (703 + idx)) mc = Inr md
        \<and> predict_batches (model_predictions E md dc)
             (chunks (if testing cfg then 2 else 32) pds) [] None = Inr (all_ps, last_ps)
        \<and> fst (first_iteration_check E tc mc idx last_ps) = None
        \<and> distinct (map metric_name (metrics tc))"
    and other: "prepare_predictions_and_labels E (Some md) all_ps ds pds = Inr pairs
           \<and> (length pairs \<noteq> 1 \<or> length (metrics tc) \<le> 1)
           \<and> (\<forall>j<min (length (metrics tc)) (length pairs).
                 metric_compute E (metrics tc ! j) (fst (pairs ! j)) (snd (pairs ! j))
                 = Inr (Some (sc (metrics tc ! j))))"
  from run other have "compute_metrics E tc (replicate_pairs pairs (length (metrics tc)))
      = Inr (map (\<lambda>m. (metric_name m, sc m)) (take (length pairs) (metrics tc)))"
    by (intro compute_metrics_unchanged) simp_all
  with run other show "fst (evaluate_pytorch_jax_single_iteration E cfg tc idx mc ds pds dc)
             = map_sum id ScoreDict (fst (store_emissions E cfg idx (length pds)
                 (map (\<lambda>m. (metric_name m, sc m)) (take (length pairs) (metrics tc)))))"
    by (intro pytorch_jax_iteration_scores [where md = md and all_ps = all_ps
          and last_ps = last_ps and pairs = pairs]) simp_all
next
  assume run: "load_model E (Seeded (703 + idx)) mc = Inr md
        \<and> get_spacy_predictions E md pds (if testing cfg then 2 else 32) = Inr ps
        \<and> fst (first_iteration_check E tc mc idx (Some ps)) = None
        \<and> distinct (map metric_name (metrics tc))"
    and one: "prepare_predictions_and_labels E None ps ds pds = Inr [p]
           \<and> 1 < length (metrics tc)
           \<and> (\<forall>m\<in>set (metrics tc). metric_compute E m (fst p) (snd p) = Inr (Some (sc m)))"
  from run one have "compute_metrics E tc (replicate_pairs [p] (length (metrics tc)))
      = Inr (map (\<lambda>m. (metric_name m, sc m)) (metrics tc))"
    by (intro compute_metrics_single_pair) simp_all
  with run one show "fst (evaluate_spacy_single_iteration E cfg tc idx mc ds pds)
             = map_sum id ScoreDict (fst (store_emissions E cfg idx (length pds)
                 (map (\<lambda>m. (metric_name m, sc m)) (metrics tc))))"
    by (intro spacy_iteration_scores [where md = md and ps = ps and pairs = "[p]"]) simp_all
next
  assume run: "load_model E (Seeded (703 + idx)) mc = Inr md
        \<and> get_spacy_predictions E md pds (if testing cfg then 2 else 32) = Inr ps
        \<and> fst (first_iteration_check E tc mc idx (Some ps)) = None
        \<and> distinct (map metric_name (metrics tc))"
    and other: "prepare_predictions_and_labels E None ps ds pds = Inr pairs
           \<and> (length pairs \<noteq> 1 \<or> length (metrics tc) \<le> 1)
           \<and> (\<forall>j<min (length (metrics tc)) (length pairs).
                 metric_compute E (metrics tc ! j) (fst (pairs ! j)) (snd (pairs ! j))
                 = Inr (Some (sc (metrics tc ! j))))"
  from run other have "compute_metrics E tc (replicate_pairs pairs (length (metrics tc)))
      = Inr (map (\<lambda>m. (metric_name m, sc m)) (take (length pairs) (metrics tc)))"
    by (intro compute_metrics_unchanged) simp_all
  with run other show "fst (evaluate_spacy_single_iteration E cfg tc idx mc ds pds)
             = map_sum id ScoreDict (fst (store_emissions E cfg idx (length pds)
                 (map (\<lambda>m. (metric_name m, sc m)) (take (length pairs) (metrics tc)))))"
    by (intro spacy_iteration_scores [where md = md and ps = ps and pairs = pairs]) simp_all
qed

theorem single_pair_replicated_per_metric_witness:
  "fst (evaluate_pytorch_jax_single_iteration (pairs_env ''pytorch'' [([1, 1], [2, 2])])
          testing_config sent 0 (example_model_config ''pytorch'')
          (take 4 example_dataset) (take 4 example_dataset) ())
     = Inr (ScoreDict [(''macro_f1'', 2), (''mcc'', 4)])
   \<and> fst (evaluate_pytorch_jax_single_iteration
            (pairs_env ''pytorch'' [([1], [2]), ([3], [4])])
          testing_config sent 0 (example_model_config ''pytorch'')
          (take 4 example_dataset) (take 4 example_dataset) ())
     = Inr (ScoreDict [(''macro_f1'', 1), (''mcc'', 4)])
   \<and> fst (evaluate_spacy_single_iteration (pairs_env ''spacy'' [([1, 1], [2, 2])])
          testing_config sent 0 (example_model_config ''spacy'')
          (take 4 example_dataset) (take 4 example_dataset))
     = Inr (ScoreDict [(''macro_f1'', 2), (''mcc'', 4)])
   \<and> fst (evaluate_spacy_single_iteration (pairs_env ''spacy'' [([1], [2]), ([3], [4])])
          testing_config sent 0 (example_model_config ''spacy'')
          (take 4 example_dataset) (take 4 example_dataset))
     = Inr (ScoreDict [(''macro_f1'', 1), (''mcc'', 4)])
   \<and> replicate_pairs [([1, 1 :: nat], [2, 2 :: nat])] 2 = [([1, 1], [2, 2]), ([1, 1], [2, 2])]
   \<and> replicate_pairs [([1 :: nat], [2 :: nat]), ([3], [4])] 2 = [([1], [2]), ([3], [4])]"
proof -
  obtain x1 x2 x3 x4 where rows: "take 4 example_dataset = [x1, x2, x3, x4]"
    using example_rows by blast
  let ?one = "[([1, 1 :: nat], [2, 2 :: nat])]"
  let ?two = "[([1 :: nat], [2 :: nat]), ([3], [4])]"
  let ?sc1 = "\<lambda>m. if metric_name m = ''mcc'' then 4 else (2 :: real)"
  let ?sc2 = "\<lambda>m. if metric_name m = ''mcc'' then 4 else (1 :: real)"
  have k: "(1 :: nat) < 2" by simp
  have len2: "length ?two \<noteq> 1" by simp
  have m: "1 < length (metrics sent)" by (simp add: sent_def)
  have sc1: "\<forall>m\<in>set (metrics sent).
      metric_compute (pairs_env fw ?one) m (fst ([1, 1], [2, 2])) (snd ([1, 1], [2, 2]))
      = Inr (Some (?sc1 m))" for fw
    by (simp add: pairs_env_run(7))
  have sc2: "\<forall>j<min (length (metrics sent)) (length ?two).
      metric_compute (pairs_env fw ?two) (metrics sent ! j) (fst (?two ! j)) (snd (?two ! j))
      = Inr (Some (?sc2 (metrics sent ! j)))" for fw
    by (simp add: pairs_env_run(7) sent_def macro_f1_def mcc_def less_Suc_eq
        eval_nat_numeral)
  have st1: "map_sum id ScoreDict (fst (store_emissions E testing_config 0 n
      (map (\<lambda>m. (metric_name m, ?sc1 m)) (metrics sent))))
      = Inr (ScoreDict [(''macro_f1'', 2), (''mcc'', 4)])" for E :: "(nat, unit, row, nat, nat, nat, (string, real) dict list) env" and n
    by (simp add: store_emissions_def testing_config_def sent_def macro_f1_def mcc_def)
  have st2: "map_sum id ScoreDict (fst (store_emissions E testing_config 0 n
      (map (\<lambda>m. (metric_name m, ?sc2 m)) (take (length ?two) (metrics sent)))))
      = Inr (ScoreDict [(''macro_f1'', 1), (''mcc'', 4)])" for E :: "(nat, unit, row, nat, nat, nat, (string, real) dict list) env" and n
    by (simp add: store_emissions_def testing_config_def sent_def macro_f1_def mcc_def)
  note a = single_pair_replicated_per_metric [where k = 2 and p = "([1, 1], [2, 2])"
      and pairs = ?two and E = "pairs_env ''pytorch'' ?one" and idx = 0
      and mc = "example_model_config ''pytorch''" and md = 703 and dc = "()"
      and cfg = testing_config and pds = "[x1, x2, x3, x4]" and all_ps = "[1, 1, 1, 1]"
      and last_ps = "Some [1, 1]" and tc = sent and ds = "[x1, x2, x3, x4]" and sc = ?sc1
      and ps = "[1, 1, 1, 1]"]
  note b = single_pair_replicated_per_metric [where k = 2 and p = "([1, 1], [2, 2])"
      and pairs = ?two and E = "pairs_env ''pytorch'' ?two" and idx = 0
      and mc = "example_model_config ''pytorch''" and md = 703 and dc = "()"
      and cfg = testing_config and pds = "[x1, x2, x3, x4]" and all_ps = "[1, 1, 1, 1]"
      and last_ps = "Some [1, 1]" and tc = sent and ds = "[x1, x2, x3, x4]" and sc = ?sc2
      and ps = "[1, 1, 1, 1]"]
  note c = single_pair_replicated_per_metric [where k = 2 and p = "([1, 1], [2, 2])"
      and pairs = ?two and E = "pairs_env ''spacy'' ?one" and idx = 0
      and mc = "example_model_config ''spacy''" and md = 703 and dc = "()"
      and cfg = testing_config and pds = "[x1, x2, x3, x4]" and all_ps = "[1, 1, 1, 1]"
      and last_ps = "Some [1, 1]" and tc = sent and ds = "[x1, x2, x3, x4]" and sc = ?sc1
      and ps = "[1, 1, 1, 1]"]
  note d = single_pair_replicated_per_metric [where k = 2 and p = "([1, 1], [2, 2])"
      and pairs = ?two and E = "pairs_env ''spacy'' ?two" and idx = 0
      and mc = "example_model_config ''spacy''" and md = 703 and dc = "()"
      and cfg = testing_config and pds = "[x1, x2, x3, x4]" and all_ps = "[1, 1, 1, 1]"
      and last_ps = "Some [1, 1]" and tc = sent and ds = "[x1, x2, x3, x4]" and sc = ?sc2
      and ps = "[1, 1, 1, 1]"]
  have run: "load_model (pairs_env fw pairs) (Seeded (703 + 0)) mc = Inr 703
        \<and> predict_batches (model_predictions (pairs_env fw pairs) 703 ())
             (chunks (if testing testing_config then 2 else 32) [x1, x2, x3, x4]) [] None
           = Inr ([1, 1, 1, 1], Some [1, 1])
        \<and> fst (first_iteration_check (pairs_env fw pairs) sent mc 0 (Some [1, 1])) = None
        \<and> distinct (map metric_name (metrics sent))" for fw pairs mc
    using pairs_env_run(1) [of fw pairs 0 mc] pairs_env_run(2) [of fw pairs 703 x1 x2 x3 x4]
      pairs_env_run(4) [of fw pairs mc 0 "[1, 1]"] pairs_env_run(5) by simp
  have run': "load_model (pairs_env fw pairs) (Seeded (703 + 0)) mc = Inr 703
        \<and> get_spacy_predictions (pairs_env fw pairs) 703 [x1, x2, x3, x4]
             (if testing testing_config then 2 else 32) = Inr [1, 1, 1, 1]
        \<and> fst (first_iteration_check (pairs_env fw pairs) sent mc 0 (Some [1, 1, 1, 1])) = None
        \<and> distinct (map metric_name (metrics sent))" for fw pairs mc
    using pairs_env_run(1) [of fw pairs 0 mc] pairs_env_run(3) [of fw pairs 703 x1 x2 x3 x4]
      pairs_env_run(4) [of fw pairs mc 0 "[1, 1, 1, 1]"] pairs_env_run(5) by simp
  from a have "fst (evaluate_pytorch_jax_single_iteration (pairs_env ''pytorch'' ?one)
          testing_config sent 0 (example_model_config ''pytorch'')
          [x1, x2, x3, x4] [x1, x2, x3, x4] ())
      = map_sum id ScoreDict (fst (store_emissions (pairs_env ''pytorch'' ?one) testing_config 0
          (length [x1, x2, x3, x4]) (map (\<lambda>m. (metric_name m, ?sc1 m)) (metrics sent))))"
    using run [of "''pytorch''" ?one] pairs_env_run(6) [of "''pytorch''" ?one] m
      sc1 [of "''pytorch''"] by blast
  then have r1: "fst (evaluate_pytorch_jax_single_iteration (pairs_env ''pytorch'' ?one)
          testing_config sent 0 (example_model_config ''pytorch'')
          [x1, x2, x3, x4] [x1, x2, x3, x4] ())
      = Inr (ScoreDict [(''macro_f1'', 2), (''mcc'', 4)])"
    by (simp only: st1)
  from b have "fst (evaluate_pytorch_jax_single_iteration (pairs_env ''pytorch'' ?two)
          testing_config sent 0 (example_model_config ''pytorch'')
          [x1, x2, x3, x4] [x1, x2, x3, x4] ())
      = map_sum id ScoreDict (fst (store_emissions (pairs_env ''pytorch'' ?two) testing_config 0
          (length [x1, x2, x3, x4])
          (map (\<lambda>m. (metric_name m, ?sc2 m)) (take (length ?two) (metrics sent)))))"
    using run [of "''pytorch''" ?two] pairs_env_run(6) [of "''pytorch''" ?two] len2
      sc2 [of "''pytorch''"] by blast
  then have r2: "fst (evaluate_pytorch_jax_single_iteration (pairs_env ''pytorch'' ?two)
          testing_config sent 0 (example_model_config ''pytorch'')
          [x1, x2, x3, x4] [x1, x2, x3, x4] ())
      = Inr (ScoreDict [(''macro_f1'', 1), (''mcc'', 4)])"
    by (simp only: st2)
  from c have "fst (evaluate_spacy_single_iteration (pairs_env ''spacy'' ?one)
          testing_config sent 0 (example_model_config ''spacy'')
          [x1, x2, x3, x4] [x1, x2, x3, x4])
      = map_sum id ScoreDict (fst (store_emissions (pairs_env ''spacy'' ?one) testing_config 0
          (length [x1, x2, x3, x4]) (map (\<lambda>m. (metric_name m, ?sc1 m)) (metrics sent))))"
    using run' [of "''spacy''" ?one] pairs_env_run(6) [of "''spacy''" ?one] m
      sc1 [of "''spacy''"] by blast
  then have r3: "fst (evaluate_spacy_single_iteration (pairs_env ''spacy'' ?one)
          testing_config sent 0 (example_model_config ''spacy'')
          [x1, x2, x3, x4] [x1, x2, x3, x4])
      = Inr (ScoreDict [(''macro_f1'', 2), (''mcc'', 4)])"
    by (simp only: st1)
  from d have "fst (evaluate_spacy_single_iteration (pairs_env ''spacy'' ?two)
          testing_config sent 0 (example_model_config ''spacy'')
          [x1, x2, x3, x4] [x1, x2, x3, x4])
      = map_sum id ScoreDict (fst (store_emissions (pairs_env ''spacy'' ?two) testing_config 0
          (length [x1, x2, x3, x4])
          (map (\<lambda>m. (metric_name m, ?sc2 m)) (take (length ?two) (metrics sent)))))"
    using run' [of "''spacy''" ?two] pairs_env_run(6) [of "''spacy''" ?two] len2
      sc2 [of "''spacy''"] by blast
  then have r4: "fst (evaluate_spacy_single_iteration (pairs_env ''spacy'' ?two)
          testing_config sent 0 (example_model_config ''spacy'')
          [x1, x2, x3, x4] [x1, x2, x3, x4])
      = Inr (ScoreDict [(''macro_f1'', 1), (''mcc'', 4)])"
    by (simp only: st2)
  from a k have "replicate_pairs ?one 2 = replicate 2 ([1, 1], [2, 2])" by blast
  then have r5: "replicate_pairs ?one 2 = [([1, 1], [2, 2]), ([1, 1], [2, 2])]"
    by (simp add: eval_nat_numeral)
  from a len2 have r6: "replicate_pairs ?two 2 = ?two" by blast
  from r1 r2 r3 r4 r5 r6 show ?thesis unfolding rows by blast
qed

section \<open>Properties of \<open>evaluate\<close>\<close>

subsection \<open>The removal of empty examples\<close>

lemma filter_dataset_Inr:
  "filter_dataset f ds = Inr ds' \<Longrightarrow> ds' = filter (\<lambda>r. f r = Inr True) ds"
proof (induction ds arbitrary: ds')
  case Nil
  then show ?case by simp
next
  case (Cons r rs)
  then show ?case
    by (auto split: sum.splits if_splits)
qed

lemma remove_empty_examples_Inr:
  "remove_empty_examples cols ds = Inr ds'
   \<Longrightarrow> ds' = filter (\<lambda>r. \<forall>c\<in>set cols. nonempty_feature c r = Inr True) ds"
proof (induction cols arbitrary: ds)
  case Nil
  then show ?case by simp
next
  case (Cons c cols)
  from Cons.prems obtain ds1 where f: "filter_dataset (nonempty_feature c) ds = Inr ds1"
    and rest: "remove_empty_examples cols ds1 = Inr ds'"
    by (auto split: sum.splits exn.splits builtin.splits)
  from filter_dataset_Inr [OF f] Cons.IH [OF rest]
  show ?case by (auto intro: filter_cong)
qed

lemma filter_dataset_KeyError:
  "ds \<noteq> [] \<Longrightarrow> \<forall>r\<in>set ds. map_of r c = None
   \<Longrightarrow> filter_dataset (nonempty_feature c) ds = Inl (Builtin KeyError c)"
  by (cases ds) (simp_all add: nonempty_feature_def)

lemma remove_empty_examples_absent:
  assumes "\<forall>r\<in>set ds. map_of r c = None"
    and "remove_empty_examples pre ds = Inr ds1" and "ds1 \<noteq> []"
  shows "remove_empty_examples (pre @ c # post) ds = Inl (WrongFeatureColumnName c)"
  using assms
proof (induction pre arbitrary: ds)
  case Nil
  then show ?case by (simp add: filter_dataset_KeyError)
next
  case (Cons p pre)
  from Cons.prems(2) obtain dsp where f: "filter_dataset (nonempty_feature p) ds = Inr dsp"
    and rest: "remove_empty_examples pre dsp = Inr ds1"
    by (auto split: sum.splits exn.splits builtin.splits)
  from filter_dataset_Inr [OF f] Cons.prems(1) have "\<forall>r\<in>set dsp. map_of r c = None" by simp
  from Cons.IH [OF this rest Cons.prems(3)] f show ?case by simp
qed

text \<open>
  C6, as amended. When the removal of empty examples succeeds, the dataset left is the
  records whose value is non-empty in every configured feature column, in their
  order. When a configured column is absent from the records and a record is left
  when its turn comes, the removal fails with \<open>WrongFeatureColumnName\<close> for this column.
  A failure of the removal is what \<open>evaluate\<close> raises, with no iteration started; and any
  run of \<open>evaluate\<close> that starts an iteration has removed the empty examples before.
\<close>

theorem empty_examples_removed_before_iterations:
  "(remove_empty_examples cols dataset = Inr ds'
    \<longrightarrow> ds' = filter (\<lambda>r. \<forall>c\<in>set cols. nonempty_feature c r = Inr True) dataset)
   \<and> ((\<forall>r\<in>set dataset. map_of r c = None) \<and> remove_empty_examples pre dataset = Inr ds1
       \<and> ds1 \<noteq> []
    \<longrightarrow> remove_empty_examples (pre @ c # post) dataset = Inl (WrongFeatureColumnName c))
   \<and> (get_model_config E mid = Inr mc \<and> load_model E Reproducible mc = Inr md
       \<and> load_data E tc = Inr dataset0
       \<and> remove_empty_examples (feature_column_names tc) dataset0 = Inl e
    \<longrightarrow> evaluate E cfg tc mid = (Inl e, [LoadModel]))
   \<and> (evaluate E cfg tc mid = (r, tr) \<and> iterations_started tr \<noteq> []
    \<longrightarrow> (\<exists>mc md dataset0 ds0.
          get_model_config E mid = Inr mc \<and> load_model E Reproducible mc = Inr md
          \<and> load_data E tc = Inr dataset0
          \<and> remove_empty_examples (feature_column_names tc) dataset0 = Inr ds0
          \<and> evaluate_framework E cfg tc md ds0 (enforce_reproducibility E (framework mc)) mc
              = (r, tl tr)))"
proof (intro conjI impI)
  assume "remove_empty_examples cols dataset = Inr ds'"
  then show "ds' = filter (\<lambda>r. \<forall>c\<in>set cols. nonempty_feature c r = Inr True) dataset"
    by (rule remove_empty_examples_Inr)
next
  assume "(\<forall>r\<in>set dataset. map_of r c = None) \<and> remove_empty_examples pre dataset = Inr ds1
       \<and> ds1 \<noteq> []"
  then show "remove_empty_examples (pre @ c # post) dataset = Inl (WrongFeatureColumnName c)"
    using remove_empty_examples_absent [of dataset c pre ds1 post] by simp
next
  assume "get_model_config E mid = Inr mc \<and> load_model E Reproducible mc = Inr md
       \<and> load_data E tc = Inr dataset0
       \<and> remove_empty_examples (feature_column_names tc) dataset0 = Inl e"
  then show "evaluate E cfg tc mid = (Inl e, [LoadModel])"
    by (simp add: evaluate_def)
next
  assume "evaluate E cfg tc mid = (r, tr) \<and> iterations_started tr \<noteq> []"
  then show "\<exists>mc md dataset0 ds0.
          get_model_config E mid = Inr mc \<and> load_model E Reproducible mc = Inr md
          \<and> load_data E tc = Inr dataset0
          \<and> remove_empty_examples (feature_column_names tc) dataset0 = Inr ds0
          \<and> evaluate_framework E cfg tc md ds0 (enforce_reproducibility E (framework mc)) mc
              = (r, tl tr)"
    by (auto simp: evaluate_def split: sum.splits prod.splits)
qed

lemma example_remove_empty:
  "remove_empty_examples [''text''] example_dataset
   = Inr [example_dataset ! 0, example_dataset ! 2, example_dataset ! 3, example_dataset ! 4,
          example_dataset ! 5]"
  by (simp add: example_dataset_def nonempty_feature_def)

theorem empty_examples_removed_before_iterations_witness:
  "remove_empty_examples [''text''] example_dataset
     = Inr (filter (\<lambda>r. map_of r ''text'' \<noteq> Some (Text '''')) example_dataset)
   \<and> list_all (\<lambda>r. map_of r ''title'' = None) example_dataset
   \<and> evaluate (example_env ''spacy'' no_fault True) testing_config two_column_task ''pin/senda''
     = (Inl (WrongFeatureColumnName ''title''), [LoadModel])"
proof -
  let ?E = "example_env ''spacy'' no_fault True"
  let ?ds1 = "[example_dataset ! 0, example_dataset ! 2, example_dataset ! 3,
      example_dataset ! 4, example_dataset ! 5]"
  note inst = empty_examples_removed_before_iterations [of "[''text'']" example_dataset ?ds1
      "''title''" "[''text'']" ?ds1 "[]" ?E "''pin/senda''" "example_model_config ''spacy''" 0
      two_column_task example_dataset "WrongFeatureColumnName ''title''" testing_config]
  have absent: "\<forall>r\<in>set example_dataset. map_of r ''title'' = None"
    by (simp add: example_dataset_def)
  have ne: "?ds1 \<noteq> []" by simp
  from inst example_remove_empty
  have kept: "?ds1 = filter (\<lambda>r. \<forall>c\<in>set [''text'']. nonempty_feature c r = Inr True)
      example_dataset" by blast
  from inst absent example_remove_empty ne
  have wrong: "remove_empty_examples ([''text''] @ ''title'' # []) example_dataset
      = Inl (WrongFeatureColumnName ''title'')" by blast
  have cols: "feature_column_names two_column_task = [''text''] @ ''title'' # []"
    by (simp add: two_column_task_def sent_def)
  have "get_model_config ?E ''pin/senda'' = Inr (example_model_config ''spacy'')"
    and "load_model ?E Reproducible (example_model_config ''spacy'') = Inr 0"
    and "load_data ?E two_column_task = Inr example_dataset"
    by (simp_all add: example_env_def)
  with inst wrong cols
  have ev: "evaluate ?E testing_config two_column_task ''pin/senda''
      = (Inl (WrongFeatureColumnName ''title''), [LoadModel])" by simp
  have "remove_empty_examples [''text''] example_dataset
     = Inr (filter (\<lambda>r. map_of r ''text'' \<noteq> Some (Text '''')) example_dataset)"
    unfolding example_remove_empty by (simp add: example_dataset_def)
  with ev absent show ?thesis by (simp add: list_all_iff)
qed

lemma blank_iteration:
  "evaluate_spacy_single_iteration blank_env full_config two_column_task idx mc [] []
   = (Inr (ScoreDict [(''macro_f1'', 1 / 3), (''mcc'', - 1 / 3)]),
      \<lparr>model_dict = Some (703 + idx), model = Some (703 + idx)\<rparr>,
      LoadModel # (if idx = 0 then [TrainedForTaskCheck 0] else []))"
  by (simp add: evaluate_spacy_single_iteration_def try_except_def spacy_try_def
      spacy_scores_def first_iteration_check_def compute_metrics_def replicate_pairs_def
      store_emissions_def carbon_start_def blank_env_def full_config_def two_column_task_def
      no_fault_def example_defs)

lemma blank_bootstrap:
  "bootstrap_and_preprocess blank_env full_config ''spacy'' md [] rng 10
   = Inr (replicate 10 [], replicate 10 [])"
  by (simp add: bootstrap_and_preprocess_def truncate_if_testing_def take_rows_def
      preprocess_datasets_def bootstrapped_datasets_unfold blank_env_def full_config_def
      example_defs eval_nat_numeral)

lemma for_idx_in_all_scores:
  "\<forall>j\<in>set idxs. fst (single j) = Inr (ScoreDict d)
   \<Longrightarrow> for_idx_in single idxs scores
       = (Inr (scores @ replicate (length idxs) d), started single idxs)"
proof (induction idxs arbitrary: scores)
  case Nil
  show ?case by (simp add: started_def)
next
  case (Cons j idxs)
  from Cons.prems have d: "fst (single j) = Inr (ScoreDict d)" by simp
  from fst_while_true_scores [of single j d, OF d] snd_while_true [of single j]
  have w: "while_true single j = (Inr d, IterationStart j # snd (single j))"
    by (cases "while_true single j") simp
  from Cons.prems have "\<forall>j\<in>set idxs. fst (single j) = Inr (ScoreDict d)" by simp
  from Cons.IH [OF this, of "scores @ [d]"] w show ?case
    by (simp add: started_def replicate_append_same)
qed

text \<open>
  C6 as stated fails on a dataset that the earlier columns leave without a record:
  the column \<open>title\<close> is absent from the records, the only record has an empty text,
  and the evaluation runs its ten iterations and returns.
\<close>

theorem absent_column_unnoticed_counterexample:
  "list_all (\<lambda>r. map_of r ''title'' = None) blank_dataset
   \<and> ''title'' \<in> set (feature_column_names two_column_task)
   \<and> fst (evaluate blank_env full_config two_column_task ''pin/senda'')
     = Inr (replicate 10 [(''macro_f1'', 1 / 3), (''mcc'', - 1 / 3)])
   \<and> iterations_started (snd (evaluate blank_env full_config two_column_task ''pin/senda''))
     = [0..<10]"
proof -
  let ?mc = "example_model_config ''spacy''"
  let ?single = "\<lambda>idx. forget_frame (evaluate_spacy_single_iteration blank_env full_config
      two_column_task idx ?mc (replicate 10 [] ! idx) (replicate 10 [] ! idx))"
  let ?s = "[(''macro_f1'', 1 / 3 :: real), (''mcc'', - 1 / 3)]"
  have f: "remove_empty_examples (feature_column_names two_column_task) blank_dataset = Inr []"
    by (simp add: two_column_task_def sent_def blank_dataset_def nonempty_feature_def)
  have g: "get_model_config blank_env ''pin/senda'' = Inr ?mc"
    "load_model blank_env Reproducible ?mc = Inr 0"
    "load_data blank_env two_column_task = Inr blank_dataset"
    "log_scores blank_env = (\<lambda>name mcs scores mid only_log. scores)"
    by (simp_all add: blank_env_def example_env_def)
  have n: "num_iter_of full_config = 10"
    by (simp add: num_iter_of_def full_config_def testing_config_def)
  have fw: "framework ?mc = ''spacy''"
    by (simp add: example_model_config_def)
  have "\<forall>j\<in>set [0..<10]. fst (?single j) = Inr (ScoreDict ?s)"
    by (simp add: forget_frame_def blank_iteration)
  from for_idx_in_all_scores [of "[0..<10]" ?single ?s "[]", OF this]
  have loop: "for_idx_in ?single [0..<10] [] = (Inr (replicate 10 ?s), started ?single [0..<10])"
    by simp
  have st: "iterations_started (started ?single [0..<10]) = [0..<10]"
    by (rule iterations_started_started) (simp add: no_start_spacy_single_iteration)
  from loop have "evaluate_spacy blank_env full_config two_column_task 0 [] rng ?mc 10
      = (Inr (replicate 10 ?s), started ?single [0..<10])" for rng
    by (simp add: evaluate_spacy_def blank_bootstrap g)
  then have "evaluate blank_env full_config two_column_task ''pin/senda''
      = (Inr (replicate 10 ?s), LoadModel # started ?single [0..<10])"
    by (simp add: evaluate_def f g n fw evaluate_framework_def)
  with st show ?thesis
    by (simp add: blank_dataset_def two_column_task_def sent_def)
qed

subsection \<open>The number of iterations\<close>



lemma for_idx_in_started_prefix:
  "for_idx_in single idxs scores = (r, tr)
   \<Longrightarrow> \<exists>k\<le>length idxs. tr = started single (take k idxs)"
proof (induction idxs arbitrary: scores r tr)
  case Nil
  then show ?case by (simp add: started_def)
next
  case (Cons j idxs)
  obtain w trj where w: "while_true single j = (w, trj)" by (cases "while_true single j")
  from w snd_while_true [of single j] have trj: "trj = IterationStart j # snd (single j)"
    by simp
  show ?case
  proof (cases w)
    case (Inl e)
    with Cons.prems w trj have "tr = started single (take 1 (j # idxs))"
      by (simp add: started_def)
    then show ?thesis by (intro exI [of _ 1]) simp
  next
    case (Inr d)
    obtain r' tr' where rest: "for_idx_in single idxs (scores @ [d]) = (r', tr')"
      by (cases "for_idx_in single idxs (scores @ [d])")
    from Cons.IH [OF rest] obtain k where k: "k \<le> length idxs"
      and tr': "tr' = started single (take k idxs)" by blast
    from Cons.prems w Inr rest trj tr' have "tr = started single (take (Suc k) (j # idxs))"
      by (simp add: started_def)
    with k show ?thesis by (intro exI [of _ "Suc k"]) simp
  qed
qed

lemma iterations_started_for_idx_in:
  assumes "for_idx_in single [0..<n] [] = (r, tr)"
    and "\<And>j. iterations_started (snd (single j)) = []"
  shows "\<exists>k\<le>n. iterations_started tr = [0..<k]"
proof -
  from for_idx_in_started_prefix [OF assms(1)] obtain k where k: "k \<le> n"
    and tr: "tr = started single (take k [0..<n])" by auto
  from k have "take k [0..<n] = [0..<k]" by (simp add: take_upt)
  with tr have "iterations_started tr = [0..<k]"
    using iterations_started_started [of "[0..<k]" single] assms(2) by simp
  with k show ?thesis by blast
qed

lemma iterations_started_evaluate_pytorch_jax:
  "evaluate_pytorch_jax E cfg tc md ds rng mc n = (r, tr)
   \<Longrightarrow> \<exists>k\<le>n. iterations_started tr = [0..<k]"
proof -
  assume a: "evaluate_pytorch_jax E cfg tc md ds rng mc n = (r, tr)"
  show ?thesis
  proof (cases "bootstrap_and_preprocess E cfg ''pytorch'' md ds rng n")
    case (Inl e)
    with a have "tr = []" by (simp add: evaluate_pytorch_jax_def)
    then show ?thesis by (intro exI [of _ 0]) simp
  next
    case (Inr bp)
    obtain bds pds where bp: "bp = (bds, pds)" by (cases bp)
    show ?thesis
    proof (cases "load_data_collator E md")
      case (Inl e)
      with a Inr bp have "tr = []" by (simp add: evaluate_pytorch_jax_def)
      then show ?thesis by (intro exI [of _ 0]) simp
    next
      case c: (Inr dc)
      let ?single = "\<lambda>idx. forget_frame (evaluate_pytorch_jax_single_iteration E cfg tc
                 idx mc (bds ! idx) (pds ! idx) dc)"
      obtain r' tr' where loop: "for_idx_in ?single [0..<n] [] = (r', tr')"
        by (cases "for_idx_in ?single [0..<n] []")
      with a Inr bp c have "tr = tr'"
        by (auto simp: evaluate_pytorch_jax_def split: sum.splits)
      with iterations_started_for_idx_in [OF loop no_start_pytorch_jax_single_iteration]
      show ?thesis by simp
    qed
  qed
qed

lemma iterations_started_evaluate_spacy:
  "evaluate_spacy E cfg tc md ds rng mc n = (r, tr)
   \<Longrightarrow> \<exists>k\<le>n. iterations_started tr = [0..<k]"
proof -
  assume a: "evaluate_spacy E cfg tc md ds rng mc n = (r, tr)"
  show ?thesis
  proof (cases "bootstrap_and_preprocess E cfg ''spacy'' md ds rng n")
    case (Inl e)
    with a have "tr = []" by (simp add: evaluate_spacy_def)
    then show ?thesis by (intro exI [of _ 0]) simp
  next
    case (Inr bp)
    obtain bds pds where bp: "bp = (bds, pds)" by (cases bp)
    let ?single = "\<lambda>idx. forget_frame (evaluate_spacy_single_iteration E cfg tc
                 idx mc (bds ! idx) (pds ! idx))"
    obtain r' tr' where loop: "for_idx_in ?single [0..<n] [] = (r', tr')"
      by (cases "for_idx_in ?single [0..<n] []")
    with a Inr bp have "tr = tr'"
      by (auto simp: evaluate_spacy_def split: sum.splits)
    with iterations_started_for_idx_in [OF loop no_start_spacy_single_iteration]
    show ?thesis by simp
  qed
qed

lemma evaluate_framework_cases:
  "evaluate_framework E cfg tc md ds rng mc = (r, tr) \<Longrightarrow>
   evaluate_pytorch_jax E cfg tc md ds rng mc (num_iter_of cfg) = (r, tr)
   \<or> evaluate_spacy E cfg tc md ds rng mc (num_iter_of cfg) = (r, tr)
   \<or> (\<exists>fw. r = Inl (InvalidFramework fw) \<and> tr = [])"
  by (auto simp: evaluate_framework_def split: if_splits)

lemma evaluate_cases:
  "evaluate E cfg tc mid = (r, tr) \<Longrightarrow>
   (\<exists>e. r = Inl e \<and> (tr = [] \<or> tr = [LoadModel]))
   \<or> (\<exists>md ds rng mc tr'. tr = LoadModel # tr'
        \<and> evaluate_framework E cfg tc md ds rng mc = (r, tr'))"
  by (auto simp: evaluate_def split: sum.splits prod.splits)

lemma iterations_started_evaluate_pytorch_jax_Inr:
  assumes "evaluate_pytorch_jax E cfg tc md ds rng mc n = (Inr out, tr)"
  shows "iterations_started tr = [0..<n]"
proof -
  from assms obtain bds pds dc scores where
    loop: "for_idx_in (\<lambda>idx. forget_frame (evaluate_pytorch_jax_single_iteration E cfg tc
                 idx mc (bds ! idx) (pds ! idx) dc)) [0..<n] [] = (Inr scores, tr)"
    by (auto simp: evaluate_pytorch_jax_def split: sum.splits prod.splits)
  let ?single = "\<lambda>idx. forget_frame (evaluate_pytorch_jax_single_iteration E cfg tc
                 idx mc (bds ! idx) (pds ! idx) dc)"
  from for_idx_in_success [OF loop] have tr: "tr = started ?single [0..<n]" by auto
  have "iterations_started (started ?single [0..<n]) = [0..<n]"
    by (rule iterations_started_started) (simp add: no_start_pytorch_jax_single_iteration)
  with tr show ?thesis by simp
qed

lemma iterations_started_evaluate_spacy_Inr:
  assumes "evaluate_spacy E cfg tc md ds rng mc n = (Inr out, tr)"
  shows "iterations_started tr = [0..<n]"
proof -
  from assms obtain bds pds scores where
    loop: "for_idx_in (\<lambda>idx. forget_frame (evaluate_spacy_single_iteration E cfg tc
                 idx mc (bds ! idx) (pds ! idx))) [0..<n] [] = (Inr scores, tr)"
    by (auto simp: evaluate_spacy_def split: sum.splits prod.splits)
  let ?single = "\<lambda>idx. forget_frame (evaluate_spacy_single_iteration E cfg tc
                 idx mc (bds ! idx) (pds ! idx))"
  from for_idx_in_success [OF loop] have tr: "tr = started ?single [0..<n]" by auto
  have "iterations_started (started ?single [0..<n]) = [0..<n]"
    by (rule iterations_started_started) (simp add: no_start_spacy_single_iteration)
  with tr show ?thesis by simp
qed

lemma take_rows_first_four:
  assumes "take_rows ds [0..<4] = Inr ds'"
  shows "4 \<le> length ds \<and> ds' = take 4 ds"
proof -
  from assms have all: "list_all (\<lambda>i. i < length ds) [0..<4]"
    and ds': "ds' = map (\<lambda>i. ds ! i) [0..<4]"
    by (auto simp: take_rows_def split: if_splits)
  from all have "3 < length ds" by (simp add: list_all_iff)
  then have len: "4 \<le> length ds" by simp
  have "map (\<lambda>i. ds ! i) [0..<4] = take 4 ds"
    by (rule nth_equalityI) (use len in auto)
  with len ds' show ?thesis by simp
qed

lemma take_rows_subset: "take_rows ds ix = Inr b \<Longrightarrow> set b \<subseteq> set ds"
  by (auto simp: take_rows_def list_all_iff split: if_splits)

lemma bootstrapped_datasets_subset:
  "bootstrapped_datasets I rng ds n = Inr bds \<Longrightarrow> \<forall>b\<in>set bds. set b \<subseteq> set ds"
proof (induction n arbitrary: rng bds)
  case 0
  then show ?case by simp
next
  case (Suc n)
  obtain ix rng' where d: "I rng 0 (length ds) (length ds) = (ix, rng')"
    by (cases "I rng 0 (length ds) (length ds)")
  with Suc.prems obtain b bs where b: "take_rows ds ix = Inr b"
    and bs: "bootstrapped_datasets I rng' ds n = Inr bs" and bds: "bds = b # bs"
    by (auto split: sum.splits)
  from take_rows_subset [OF b] Suc.IH [OF bs] bds show ?case by simp
qed

text \<open>
  C10. The number of iterations that \<open>evaluate\<close> asks for depends on the testing flag
  alone, 2 when it is set and 10 otherwise: no run starts other iterations than
  \<open>0, 1, ...\<close> below this number, and a run that returns has started all of them. When
  testing, the bootstrapped datasets are drawn from the first four records of the
  dataset (which has at least four, or \<open>select\<close> raises).
\<close>

theorem iterations_fixed_by_testing_flag:
  "num_iter_of cfg = (if testing cfg then 2 else 10)
   \<and> (evaluate E cfg tc mid = (r, tr)
      \<longrightarrow> (\<exists>k\<le>(if testing cfg then 2 else 10). iterations_started tr = [0..<k]))
   \<and> (evaluate E cfg tc mid = (Inr out, tr')
      \<longrightarrow> iterations_started tr' = [0..<(if testing cfg then 2 else 10)])
   \<and> (testing cfg \<and> bootstrap_and_preprocess E cfg fw md dataset rng n = Inr (bds, pds)
      \<longrightarrow> 4 \<le> length dataset
        \<and> bootstrapped_datasets (integers E) rng (take 4 dataset) n = Inr bds
        \<and> (\<forall>b\<in>set bds. set b \<subseteq> set (take 4 dataset)))"
proof (intro conjI impI)
  show n: "num_iter_of cfg = (if testing cfg then 2 else 10)"
    by (simp add: num_iter_of_def)
  {
    assume a: "evaluate E cfg tc mid = (r, tr)"
    from evaluate_cases [OF a]
    show "\<exists>k\<le>(if testing cfg then 2 else 10). iterations_started tr = [0..<k]"
    proof (elim disjE exE conjE)
      fix e assume "tr = []"
      then show ?thesis by (intro exI [of _ 0]) simp
    next
      fix e assume "tr = [LoadModel]"
      then show ?thesis by (intro exI [of _ 0]) simp
    next
      fix md' ds rng' mc tr0
      assume tr: "tr = LoadModel # tr0"
        and f: "evaluate_framework E cfg tc md' ds rng' mc = (r, tr0)"
      from evaluate_framework_cases [OF f]
      have "\<exists>k\<le>num_iter_of cfg. iterations_started tr0 = [0..<k]"
      proof (elim disjE exE conjE)
        assume "evaluate_pytorch_jax E cfg tc md' ds rng' mc (num_iter_of cfg) = (r, tr0)"
        then show ?thesis by (rule iterations_started_evaluate_pytorch_jax)
      next
        assume "evaluate_spacy E cfg tc md' ds rng' mc (num_iter_of cfg) = (r, tr0)"
        then show ?thesis by (rule iterations_started_evaluate_spacy)
      next
        fix fw' assume "tr0 = []"
        then show ?thesis by (intro exI [of _ 0]) simp
      qed
      with tr n show ?thesis by simp
    qed
  }
  {
    assume a: "evaluate E cfg tc mid = (Inr out, tr')"
    from evaluate_cases [OF a]
    obtain md' ds rng' mc tr0 where tr: "tr' = LoadModel # tr0"
      and f: "evaluate_framework E cfg tc md' ds rng' mc = (Inr out, tr0)"
      by auto
    from evaluate_framework_cases [OF f]
    have "iterations_started tr0 = [0..<num_iter_of cfg]"
    proof (elim disjE exE conjE)
      assume "evaluate_pytorch_jax E cfg tc md' ds rng' mc (num_iter_of cfg) = (Inr out, tr0)"
      then show ?thesis by (rule iterations_started_evaluate_pytorch_jax_Inr)
    next
      assume "evaluate_spacy E cfg tc md' ds rng' mc (num_iter_of cfg) = (Inr out, tr0)"
      then show ?thesis by (rule iterations_started_evaluate_spacy_Inr)
    next
      fix fw' assume "Inr out = Inl (InvalidFramework fw')"
      then show ?thesis by simp
    qed
    with tr n show "iterations_started tr' = [0..<(if testing cfg then 2 else 10)]" by simp
  }
  {
    assume a: "testing cfg \<and> bootstrap_and_preprocess E cfg fw md dataset rng n = Inr (bds, pds)"
    then obtain ds where t: "take_rows dataset [0..<4] = Inr ds"
      and b: "bootstrapped_datasets (integers E) rng ds n = Inr bds"
      by (auto simp: bootstrap_and_preprocess_def truncate_if_testing_def split: sum.splits)
    from take_rows_first_four [OF t] have len: "4 \<le> length dataset" and ds: "ds = take 4 dataset"
      by simp_all
    from len show "4 \<le> length dataset" .
    from b ds show "bootstrapped_datasets (integers E) rng (take 4 dataset) n = Inr bds" by simp
    from bootstrapped_datasets_subset [OF b] ds
    show "\<forall>b\<in>set bds. set b \<subseteq> set (take 4 dataset)" by simp
  }
qed

lemma example_evaluate:
  "evaluate (example_env ''pytorch'' no_fault True) testing_config sent ''pin/senda''
   = (Inr [[(''macro_f1'', 1 / 3), (''mcc'', - 1 / 3)], [(''macro_f1'', 1 / 3), (''mcc'', - 1 / 3)]],
      [LoadModel, IterationStart 0, LoadModel, TrainedForTaskCheck 0, IterationStart 1,
       LoadModel])"
proof -
  let ?E = "example_env ''pytorch'' no_fault True"
  have g: "get_model_config ?E ''pin/senda'' = Inr (example_model_config ''pytorch'')"
    "load_model ?E Reproducible (example_model_config ''pytorch'') = Inr 0"
    "load_data ?E sent = Inr example_dataset"
    "\<And>fw. enforce_reproducibility ?E fw = 4242"
    by (simp_all add: example_env_def)
  have "feature_column_names sent = [''text'']" by (simp add: sent_def)
  with example_remove_empty
  have c: "remove_empty_examples (feature_column_names sent) example_dataset
      = Inr [example_dataset ! 0, example_dataset ! 2, example_dataset ! 3, example_dataset ! 4,
          example_dataset ! 5]" by simp
  have n: "num_iter_of testing_config = 2" by (simp add: num_iter_of_def testing_config_def)
  have fw: "framework (example_model_config ''pytorch'') = ''pytorch''"
    by (simp add: example_model_config_def)
  show ?thesis
    by (simp add: evaluate_def g c n fw evaluate_framework_def example_evaluate_pytorch_jax)
qed

theorem iterations_fixed_by_testing_flag_witness:
  "num_iter_of testing_config = 2 \<and> num_iter_of full_config = 10
   \<and> fst (evaluate (example_env ''pytorch'' no_fault True) testing_config sent ''pin/senda'')
     = Inr [[(''macro_f1'', 1 / 3), (''mcc'', - 1 / 3)], [(''macro_f1'', 1 / 3), (''mcc'', - 1 / 3)]]
   \<and> iterations_started
       (snd (evaluate (example_env ''pytorch'' no_fault True) testing_config sent ''pin/senda''))
     = [0, 1]
   \<and> bootstrapped_datasets example_integers 4242 (take 4 (drop 2 example_dataset)) 2
     = Inr [[example_dataset ! 4, example_dataset ! 3, example_dataset ! 2, example_dataset ! 5],
            [example_dataset ! 5, example_dataset ! 4, example_dataset ! 3, example_dataset ! 2]]"
proof -
  let ?E = "example_env ''pytorch'' no_fault True"
  let ?out = "[[(''macro_f1'', 1 / 3 :: real), (''mcc'', - 1 / 3)],
               [(''macro_f1'', 1 / 3), (''mcc'', - 1 / 3)]]"
  let ?tr = "[LoadModel, IterationStart 0, LoadModel, TrainedForTaskCheck 0, IterationStart 1,
       LoadModel]"
  let ?bds = "[[example_dataset ! 4, example_dataset ! 3, example_dataset ! 2, example_dataset ! 5],
            [example_dataset ! 5, example_dataset ! 4, example_dataset ! 3, example_dataset ! 2]]"
  note inst = iterations_fixed_by_testing_flag [of testing_config ?E sent "''pin/senda''"
      "Inr ?out" ?tr ?out ?tr "''pytorch''" 0 "drop 2 example_dataset" 4242 2 ?bds ?bds]
  have t: "testing testing_config" by (simp add: testing_config_def)
  have b: "bootstrap_and_preprocess ?E testing_config ''pytorch'' 0 (drop 2 example_dataset) 4242 2
      = Inr (?bds, ?bds)"
    by (simp add: example_dataset_def example_bootstrap)
  from inst t have n2: "num_iter_of testing_config = 2" by simp
  from inst example_evaluate t have st: "iterations_started ?tr = [0..<2]" by simp
  from inst t b have bs: "bootstrapped_datasets (integers ?E) 4242 (take 4 (drop 2 example_dataset)) 2
      = Inr ?bds" by blast
  have i: "integers ?E = example_integers" by (simp add: example_env_def)
  have n10: "num_iter_of full_config = 10"
    by (simp add: num_iter_of_def full_config_def testing_config_def)
  from n2 n10 st bs show ?thesis
    by (simp add: example_evaluate i upt_conv_Cons)
qed

section \<open>Properties of the resampling\<close>

lemma take_rows_in_range:
  "list_all (\<lambda>i. i < length ds) ix \<Longrightarrow> take_rows ds ix = Inr (map (\<lambda>i. ds ! i) ix)"
  by (simp add: take_rows_def)

lemma bootstrap_indices_in_range:
  assumes "integers_in_range I"
  shows "length (fst (bootstrap_indices I rng m n)) = n
     \<and> (\<forall>ix\<in>set (fst (bootstrap_indices I rng m n)). length ix = m \<and> (\<forall>i\<in>set ix. i < m))"
proof (induction n arbitrary: rng)
  case 0
  show ?case by simp
next
  case (Suc n)
  obtain ix rng' where d: "I rng 0 m m = (ix, rng')" by (cases "I rng 0 m m")
  from assms d have ix: "length ix = m \<and> (\<forall>i\<in>set ix. i < m)"
    unfolding integers_in_range_def list_all_iff by (metis fst_conv)
  obtain rest rng'' where r: "bootstrap_indices I rng' m n = (rest, rng'')"
    by (cases "bootstrap_indices I rng' m n")
  from Suc.IH [of rng'] r ix d show ?case by simp
qed

lemma bootstrapped_datasets_indices:
  assumes "integers_in_range I"
  shows "bootstrapped_datasets I rng ds n
         = Inr (map (\<lambda>ix. map (\<lambda>i. ds ! i) ix) (fst (bootstrap_indices I rng (length ds) n)))"
proof (induction n arbitrary: rng)
  case 0
  show ?case by simp
next
  case (Suc n)
  obtain ix rng' where d: "I rng 0 (length ds) (length ds) = (ix, rng')"
    by (cases "I rng 0 (length ds) (length ds)")
  from assms d have "list_all (\<lambda>i. i < length ds) ix"
    unfolding integers_in_range_def by (metis fst_conv)
  from take_rows_in_range [OF this] have t: "take_rows ds ix = Inr (map (\<lambda>i. ds ! i) ix)" .
  obtain rest rng'' where r: "bootstrap_indices I rng' (length ds) n = (rest, rng'')"
    by (cases "bootstrap_indices I rng' (length ds) n")
  from Suc.IH [of rng'] r d t show ?case by simp
qed

lemma bootstrap_indices_draws:
  "fst (bootstrap_indices I rng m n)
   = map (\<lambda>k. fst (I (((\<lambda>g. snd (I g 0 m m)) ^^ k) rng) 0 m m)) [0..<n]"
proof (induction n arbitrary: rng)
  case 0
  show ?case by simp
next
  case (Suc n)
  obtain ix rng' where d: "I rng 0 m m = (ix, rng')" by (cases "I rng 0 m m")
  obtain rest rng'' where r: "bootstrap_indices I rng' m n = (rest, rng'')"
    by (cases "bootstrap_indices I rng' m n")
  from Suc.IH [of rng'] r
  have rest: "rest = map (\<lambda>k. fst (I (((\<lambda>g. snd (I g 0 m m)) ^^ k) rng') 0 m m)) [0..<n]"
    by simp
  have "map (\<lambda>k. fst (I (((\<lambda>g. snd (I g 0 m m)) ^^ k) rng) 0 m m)) [0..<Suc n]
      = fst (I rng 0 m m)
        # map (\<lambda>k. fst (I (((\<lambda>g. snd (I g 0 m m)) ^^ Suc k) rng) 0 m m)) [0..<n]"
    by (simp only: map_upt_Suc funpow_0)
  also have "\<dots> = ix # rest"
    using d unfolding rest by (simp add: funpow_Suc_right del: funpow.simps)
  finally show ?case using d r by simp
qed

lemma length_bootstrap_indices: "length (fst (bootstrap_indices I rng m n)) = n"
  by (simp add: bootstrap_indices_draws)

lemma bootstrapped_datasets_Inr:
  assumes "bootstrapped_datasets I rng ds n = Inr bds"
  shows "bds = map (\<lambda>ix. map (\<lambda>i. ds ! i) ix) (fst (bootstrap_indices I rng (length ds) n))
     \<and> (\<forall>ix\<in>set (fst (bootstrap_indices I rng (length ds) n)). \<forall>i\<in>set ix. i < length ds)"
  using assms
proof (induction n arbitrary: rng bds)
  case 0
  then show ?case by simp
next
  case (Suc n)
  obtain ix rng' where d: "I rng 0 (length ds) (length ds) = (ix, rng')"
    by (cases "I rng 0 (length ds) (length ds)")
  from Suc.prems d obtain b bs where t: "take_rows ds ix = Inr b"
    and bs: "bootstrapped_datasets I rng' ds n = Inr bs" and bds: "bds = b # bs"
    by (auto split: sum.splits)
  from t have ix: "\<forall>i\<in>set ix. i < length ds" and b: "b = map (\<lambda>i. ds ! i) ix"
    by (auto simp: take_rows_def list_all_iff split: if_splits)
  obtain rest rng'' where r: "bootstrap_indices I rng' (length ds) n = (rest, rng'')"
    by (cases "bootstrap_indices I rng' (length ds) n")
  from Suc.IH [OF bs] r d ix b bds show ?case by simp
qed

lemma truncate_if_testing_Inr:
  assumes "truncate_if_testing cfg dataset = Inr ds"
  shows "ds = (if testing cfg then take 4 dataset else dataset)"
proof (cases "testing cfg")
  case True
  with assms have "take_rows dataset [0..<4] = Inr ds" by (simp add: truncate_if_testing_def)
  from take_rows_first_four [OF this] True show ?thesis by simp
next
  case False
  with assms show ?thesis by (simp add: truncate_if_testing_def)
qed

lemma bootstrap_and_preprocess_Inr:
  assumes "bootstrap_and_preprocess E cfg fw md dataset rng n = Inr (bds, pds)"
  shows "\<exists>ds. truncate_if_testing cfg dataset = Inr ds
      \<and> bootstrapped_datasets (integers E) rng ds n = Inr bds
      \<and> preprocess_datasets (preprocess_data E fw md) bds = Inr pds"
  using assms by (auto simp: bootstrap_and_preprocess_def split: sum.splits)

lemma example_integers_in_range: "integers_in_range example_integers"
  unfolding integers_in_range_def example_integers_def
  by (auto simp: list_all_iff)

lemma bootstrap_indices_unfold:
  "bootstrap_indices I rng m n =
     (if n = 0 then ([], rng)
      else (case I rng 0 m m of
        (indices, rng') \<Rightarrow>
          (case bootstrap_indices I rng' m (n - 1) of
             (rest, rng'') \<Rightarrow> (indices # rest, rng''))))"
  by (cases n) (auto split: prod.splits)

lemma example_bootstrap_indices:
  "bootstrap_indices example_integers 4242 4 2 = ([[2, 1, 0, 3], [3, 2, 1, 0]], 4252)"
  by (simp add: bootstrap_indices_unfold example_integers_def upt_conv_Cons)

lemma example_truncate:
  "truncate_if_testing testing_config (r0 # r1 # r2 # r3 # rest) = Inr [r0, r1, r2, r3]"
  by (simp add: truncate_if_testing_def testing_config_def take_rows_def upt_conv_Cons)

text \<open>
  C5. The resampling step of an evaluation draws its index arrays from the generator it
  is given and from nothing else: array \<open>k\<close> is the \<open>k\<close>-th successive draw
  \<open>rng.integers(0, len(dataset), len(dataset))\<close>, where \<open>dataset\<close> is the dataset after the
  truncation of a test run, and bootstrapped dataset \<open>k\<close> is the records at the indices of
  array \<open>k\<close>; there is one for each iteration and every index is in
  \<open>[0, len(dataset))\<close>. With a generator that keeps numpy's promise each array has
  \<open>len(dataset)\<close> indices and no draw raises. So two runs from the same state of the
  generator over datasets of the same length use the same index arrays, and over the same
  dataset they build the same bootstrapped datasets, whatever the model, the framework
  and the other collaborators are.
\<close>

theorem resampling_deterministic_in_generator:
  "fst (bootstrap_indices I rng m n)
     = map (\<lambda>k. fst (I (((\<lambda>g. snd (I g 0 m m)) ^^ k) rng) 0 m m)) [0..<n]
   \<and> (bootstrap_and_preprocess E cfg fw md dataset rng n = Inr (bds, pds)
      \<longrightarrow> truncate_if_testing cfg dataset
          = Inr (if testing cfg then take 4 dataset else dataset))
   \<and> (bootstrap_and_preprocess E cfg fw md dataset rng n = Inr (bds, pds)
       \<and> truncate_if_testing cfg dataset = Inr ds
      \<longrightarrow> length bds = n
        \<and> bds = map (\<lambda>ix. map (\<lambda>i. ds ! i) ix)
                  (fst (bootstrap_indices (integers E) rng (length ds) n))
        \<and> (\<forall>ix\<in>set (fst (bootstrap_indices (integers E) rng (length ds) n)).
              \<forall>i\<in>set ix. i < length ds)
        \<and> preprocess_datasets (preprocess_data E fw md) bds = Inr pds)
   \<and> (integers_in_range I
      \<longrightarrow> (\<forall>ix\<in>set (fst (bootstrap_indices I rng m n)).
              length ix = m \<and> (\<forall>i\<in>set ix. i < m))
        \<and> bootstrapped_datasets I rng dataset n
          = Inr (map (\<lambda>ix. map (\<lambda>i. dataset ! i) ix)
                   (fst (bootstrap_indices I rng (length dataset) n))))
   \<and> (integers E' = integers E \<and> testing cfg' = testing cfg
       \<and> length dataset' = length dataset
       \<and> bootstrap_and_preprocess E cfg fw md dataset rng n = Inr (bds, pds)
       \<and> bootstrap_and_preprocess E' cfg' fw' md' dataset' rng n = Inr (bds', pds')
       \<and> truncate_if_testing cfg dataset = Inr ds
       \<and> truncate_if_testing cfg' dataset' = Inr ds'
      \<longrightarrow> length ds' = length ds
        \<and> bds' = map (\<lambda>ix. map (\<lambda>i. ds' ! i) ix)
                   (fst (bootstrap_indices (integers E) rng (length ds) n))
        \<and> (dataset' = dataset \<longrightarrow> bds' = bds))"
proof (intro conjI)
  show "fst (bootstrap_indices I rng m n)
     = map (\<lambda>k. fst (I (((\<lambda>g. snd (I g 0 m m)) ^^ k) rng) 0 m m)) [0..<n]"
    by (rule bootstrap_indices_draws)
next
  show "bootstrap_and_preprocess E cfg fw md dataset rng n = Inr (bds, pds)
      \<longrightarrow> truncate_if_testing cfg dataset
          = Inr (if testing cfg then take 4 dataset else dataset)"
  proof
    assume "bootstrap_and_preprocess E cfg fw md dataset rng n = Inr (bds, pds)"
    from bootstrap_and_preprocess_Inr [OF this]
    obtain ds0 where t: "truncate_if_testing cfg dataset = Inr ds0" by blast
    from truncate_if_testing_Inr [OF t] t
    show "truncate_if_testing cfg dataset
          = Inr (if testing cfg then take 4 dataset else dataset)" by simp
  qed
next
  show "bootstrap_and_preprocess E cfg fw md dataset rng n = Inr (bds, pds)
       \<and> truncate_if_testing cfg dataset = Inr ds
      \<longrightarrow> length bds = n
        \<and> bds = map (\<lambda>ix. map (\<lambda>i. ds ! i) ix)
                  (fst (bootstrap_indices (integers E) rng (length ds) n))
        \<and> (\<forall>ix\<in>set (fst (bootstrap_indices (integers E) rng (length ds) n)).
              \<forall>i\<in>set ix. i < length ds)
        \<and> preprocess_datasets (preprocess_data E fw md) bds = Inr pds"
  proof
    assume a: "bootstrap_and_preprocess E cfg fw md dataset rng n = Inr (bds, pds)
       \<and> truncate_if_testing cfg dataset = Inr ds"
    from bootstrap_and_preprocess_Inr [of E cfg fw md dataset rng n bds pds] a
    have b: "bootstrapped_datasets (integers E) rng ds n = Inr bds"
      and p: "preprocess_datasets (preprocess_data E fw md) bds = Inr pds" by auto
    note r = bootstrapped_datasets_Inr [OF b]
    from r have "length bds = n" by (simp add: length_bootstrap_indices)
    with r p show "length bds = n
        \<and> bds = map (\<lambda>ix. map (\<lambda>i. ds ! i) ix)
                  (fst (bootstrap_indices (integers E) rng (length ds) n))
        \<and> (\<forall>ix\<in>set (fst (bootstrap_indices (integers E) rng (length ds) n)).
              \<forall>i\<in>set ix. i < length ds)
        \<and> preprocess_datasets (preprocess_data E fw md) bds = Inr pds" by blast
  qed
next
  show "integers_in_range I
      \<longrightarrow> (\<forall>ix\<in>set (fst (bootstrap_indices I rng m n)).
              length ix = m \<and> (\<forall>i\<in>set ix. i < m))
        \<and> bootstrapped_datasets I rng dataset n
          = Inr (map (\<lambda>ix. map (\<lambda>i. dataset ! i) ix)
                   (fst (bootstrap_indices I rng (length dataset) n)))"
  proof
    assume i: "integers_in_range I"
    from bootstrap_indices_in_range [OF i, of rng m n] bootstrapped_datasets_indices [OF i]
    show "(\<forall>ix\<in>set (fst (bootstrap_indices I rng m n)).
              length ix = m \<and> (\<forall>i\<in>set ix. i < m))
        \<and> bootstrapped_datasets I rng dataset n
          = Inr (map (\<lambda>ix. map (\<lambda>i. dataset ! i) ix)
                   (fst (bootstrap_indices I rng (length dataset) n)))" by simp
  qed
next
  show "integers E' = integers E \<and> testing cfg' = testing cfg
       \<and> length dataset' = length dataset
       \<and> bootstrap_and_preprocess E cfg fw md dataset rng n = Inr (bds, pds)
       \<and> bootstrap_and_preprocess E' cfg' fw' md' dataset' rng n = Inr (bds', pds')
       \<and> truncate_if_testing cfg dataset = Inr ds
       \<and> truncate_if_testing cfg' dataset' = Inr ds'
      \<longrightarrow> length ds' = length ds
        \<and> bds' = map (\<lambda>ix. map (\<lambda>i. ds' ! i) ix)
                   (fst (bootstrap_indices (integers E) rng (length ds) n))
        \<and> (dataset' = dataset \<longrightarrow> bds' = bds)"
  proof
    assume a: "integers E' = integers E \<and> testing cfg' = testing cfg
       \<and> length dataset' = length dataset
       \<and> bootstrap_and_preprocess E cfg fw md dataset rng n = Inr (bds, pds)
       \<and> bootstrap_and_preprocess E' cfg' fw' md' dataset' rng n = Inr (bds', pds')
       \<and> truncate_if_testing cfg dataset = Inr ds
       \<and> truncate_if_testing cfg' dataset' = Inr ds'"
    then have t: "truncate_if_testing cfg dataset = Inr ds"
      and t': "truncate_if_testing cfg' dataset' = Inr ds'" by simp_all
    from truncate_if_testing_Inr [OF t] truncate_if_testing_Inr [OF t'] a
    have len: "length ds' = length ds" by simp
    from bootstrap_and_preprocess_Inr [of E cfg fw md dataset rng n bds pds] a
    have b: "bootstrapped_datasets (integers E) rng ds n = Inr bds" by auto
    from bootstrap_and_preprocess_Inr [of E' cfg' fw' md' dataset' rng n bds' pds'] a
    have b': "bootstrapped_datasets (integers E) rng ds' n = Inr bds'" by auto
    from bootstrapped_datasets_Inr [OF b'] len
    have e': "bds' = map (\<lambda>ix. map (\<lambda>i. ds' ! i) ix)
                   (fst (bootstrap_indices (integers E) rng (length ds) n))" by simp
    have "dataset' = dataset \<longrightarrow> bds' = bds"
    proof
      assume "dataset' = dataset"
      with truncate_if_testing_Inr [OF t] truncate_if_testing_Inr [OF t'] a
      have "ds' = ds" by simp
      with b b' show "bds' = bds" by simp
    qed
    with len e' show "length ds' = length ds
        \<and> bds' = map (\<lambda>ix. map (\<lambda>i. ds' ! i) ix)
                   (fst (bootstrap_indices (integers E) rng (length ds) n))
        \<and> (dataset' = dataset \<longrightarrow> bds' = bds)" by blast
  qed
qed

theorem resampling_deterministic_in_generator_witness:
  "fst (bootstrap_indices example_integers 4242 4 2) = [[2, 1, 0, 3], [3, 2, 1, 0]]
   \<and> list_all (\<lambda>ix. length ix = 4 \<and> list_all (\<lambda>i. i < 4) ix)
        (fst (bootstrap_indices example_integers 4242 4 2))
   \<and> truncate_if_testing testing_config example_dataset = Inr (take 4 example_dataset)
   \<and> map_sum id fst (bootstrap_and_preprocess (example_env ''pytorch'' no_fault True)
         testing_config ''pytorch'' 0 example_dataset 4242 2)
     = Inr (map (\<lambda>ix. map (\<lambda>i. take 4 example_dataset ! i) ix)
              (fst (bootstrap_indices example_integers 4242 4 2)))
   \<and> map_sum id fst (bootstrap_and_preprocess (example_env ''spacy'' mps_fault False)
         testing_config ''spacy'' 1 example_dataset 4242 2)
     = map_sum id fst (bootstrap_and_preprocess (example_env ''pytorch'' no_fault True)
         testing_config ''pytorch'' 0 example_dataset 4242 2)
   \<and> map_sum id fst (bootstrap_and_preprocess (example_env ''spacy'' mps_fault False)
         testing_config ''spacy'' 1 (rev example_dataset) 4242 2)
     = Inr (map (\<lambda>ix. map (\<lambda>i. take 4 (rev example_dataset) ! i) ix)
              (fst (bootstrap_indices example_integers 4242 4 2)))"
proof -
  let ?E = "example_env ''pytorch'' no_fault True"
  let ?E' = "example_env ''spacy'' mps_fault False"
  obtain r0 r1 r2 r3 rest where ds: "example_dataset = r0 # r1 # r2 # r3 # rest"
    by (simp add: example_dataset_def)
  obtain q0 q1 q2 q3 qrest where rs: "rev example_dataset = q0 # q1 # q2 # q3 # qrest"
    by (simp add: example_dataset_def)
  have len: "length (rev example_dataset) = length example_dataset" by simp
  let ?bds = "[[r2, r1, r0, r3], [r3, r2, r1, r0]]"
  let ?qds = "[[q2, q1, q0, q3], [q3, q2, q1, q0]]"
  have b: "bootstrap_and_preprocess ?E testing_config ''pytorch'' 0 example_dataset 4242 2
            = Inr (?bds, ?bds)"
    and b': "bootstrap_and_preprocess ?E' testing_config ''spacy'' 1 example_dataset 4242 2
            = Inr (?bds, ?bds)"
    unfolding ds by (rule example_bootstrap)+
  have c': "bootstrap_and_preprocess ?E' testing_config ''spacy'' 1 (rev example_dataset) 4242 2
            = Inr (?qds, ?qds)"
    unfolding rs by (rule example_bootstrap)
  have t: "truncate_if_testing testing_config example_dataset = Inr [r0, r1, r2, r3]"
    unfolding ds by (rule example_truncate)
  have t': "truncate_if_testing testing_config (rev example_dataset) = Inr [q0, q1, q2, q3]"
    unfolding rs by (rule example_truncate)
  have i: "integers ?E' = integers ?E" and i': "integers ?E = example_integers"
    by (simp_all add: example_env_def)
  have l4: "length [r0, r1, r2, r3] = 4" by simp
  have tk: "take 4 example_dataset = [r0, r1, r2, r3]"
    unfolding ds by simp
  have tk': "take 4 (rev example_dataset) = [q0, q1, q2, q3]"
    unfolding rs by simp
  note same = resampling_deterministic_in_generator [where I = example_integers
      and rng = 4242 and m = 4 and n = 2 and E = ?E and cfg = testing_config
      and fw = "''pytorch''" and md = 0 and dataset = example_dataset and bds = ?bds
      and pds = ?bds and ds = "[r0, r1, r2, r3]" and E' = ?E' and cfg' = testing_config
      and fw' = "''spacy''" and md' = 1 and dataset' = example_dataset and bds' = ?bds
      and pds' = ?bds and ds' = "[r0, r1, r2, r3]"]
  note other = resampling_deterministic_in_generator [where I = example_integers
      and rng = 4242 and m = 4 and n = 2 and E = ?E and cfg = testing_config
      and fw = "''pytorch''" and md = 0 and dataset = example_dataset and bds = ?bds
      and pds = ?bds and ds = "[r0, r1, r2, r3]" and E' = ?E' and cfg' = testing_config
      and fw' = "''spacy''" and md' = 1 and dataset' = "rev example_dataset" and bds' = ?qds
      and pds' = ?qds and ds' = "[q0, q1, q2, q3]"]
  have drawn: "fst (bootstrap_indices example_integers 4242 4 2) = [[2, 1, 0, 3], [3, 2, 1, 0]]"
    by (simp add: example_bootstrap_indices)
  from same example_integers_in_range
  have "\<forall>ix\<in>set (fst (bootstrap_indices example_integers 4242 4 2)).
      length ix = 4 \<and> (\<forall>i\<in>set ix. i < 4)" by blast
  then have range: "list_all (\<lambda>ix. length ix = 4 \<and> list_all (\<lambda>i. i < 4) ix)
        (fst (bootstrap_indices example_integers 4242 4 2))"
    by (simp add: list_all_iff)
  from same b t have "?bds = map (\<lambda>ix. map (\<lambda>i. [r0, r1, r2, r3] ! i) ix)
      (fst (bootstrap_indices (integers ?E) 4242 (length [r0, r1, r2, r3]) 2))" by blast
  then have e: "?bds = map (\<lambda>ix. map (\<lambda>i. take 4 example_dataset ! i) ix)
      (fst (bootstrap_indices example_integers 4242 4 2))"
    by (simp only: tk i' l4)
  from other i b c' t t' len
  have "?qds = map (\<lambda>ix. map (\<lambda>i. [q0, q1, q2, q3] ! i) ix)
      (fst (bootstrap_indices (integers ?E) 4242 (length [r0, r1, r2, r3]) 2))"
    unfolding testing_config_def by blast
  then have e': "?qds = map (\<lambda>ix. map (\<lambda>i. take 4 (rev example_dataset) ! i) ix)
      (fst (bootstrap_indices example_integers 4242 4 2))"
    by (simp only: tk' i' l4)
  from same b have "truncate_if_testing testing_config example_dataset
      = Inr (if testing testing_config then take 4 example_dataset else example_dataset)"
    by blast
  then have tr: "truncate_if_testing testing_config example_dataset
      = Inr (take 4 example_dataset)"
    by (simp add: testing_config_def)
  from same i b b' t have same_bds: "?bds = ?bds" by blast
  have r1: "map_sum id fst (bootstrap_and_preprocess ?E testing_config ''pytorch'' 0
        example_dataset 4242 2)
     = Inr (map (\<lambda>ix. map (\<lambda>i. take 4 example_dataset ! i) ix)
              (fst (bootstrap_indices example_integers 4242 4 2)))"
    unfolding b using e by simp
  have r2: "map_sum id fst (bootstrap_and_preprocess ?E' testing_config ''spacy'' 1
        example_dataset 4242 2)
     = map_sum id fst (bootstrap_and_preprocess ?E testing_config ''pytorch'' 0
        example_dataset 4242 2)"
    unfolding b b' by simp
  have r3: "map_sum id fst (bootstrap_and_preprocess ?E' testing_config ''spacy'' 1
        (rev example_dataset) 4242 2)
     = Inr (map (\<lambda>ix. map (\<lambda>i. take 4 (rev example_dataset) ! i) ix)
              (fst (bootstrap_indices example_integers 4242 4 2)))"
    unfolding c' using e' by simp
  from drawn range tr r1 r2 r3 show ?thesis by blast
qed

section \<open>Properties of the score aggregator\<close>



lemma mean_replicate: "0 < n \<Longrightarrow> mean (replicate n v) = v"
  by (simp add: mean_def sum_list_replicate)

lemma standard_error_replicate: "standard_error (replicate n v) = 0"
proof (cases "n \<le> 1")
  case True
  then show ?thesis by (simp add: standard_error_def)
next
  case False
  then have n: "0 < n" by simp
  have mv: "mean (replicate n v) = v" by (rule mean_replicate [OF n])
  have "sample_std (replicate n v)
      = sqrt (sum_list (map (\<lambda>x. (x - v)\<^sup>2) (replicate n v)) / (real n - 1))"
    unfolding sample_std_def mv by simp
  also have "\<dots> = 0" by (simp add: sum_list_replicate)
  finally show ?thesis by (simp add: standard_error_def)
qed

lemma metric_scores_replicate:
  "metric_scores key (replicate n d)
   = (case map_of d key of None \<Rightarrow> [] | Some v \<Rightarrow> replicate n v)"
  by (induction n) (simp_all add: metric_scores_def List.map_filter_simps split: option.splits)

lemma standard_error_identical_records:
  "standard_error (metric_scores key (replicate n d)) = 0"
proof (cases "map_of d key")
  case None
  then show ?thesis by (simp add: metric_scores_replicate standard_error_def)
next
  case (Some v)
  then show ?thesis by (simp add: metric_scores_replicate standard_error_replicate)
qed

lemma aggregate_scores_foldl:
  "foldl (\<lambda>total metric_cfg.
              dict_set (metric_name metric_cfg @ ''_se'')
                (standard_error (metric_scores (metric_name metric_cfg) scores))
                (dict_set (metric_name metric_cfg)
                   (mean (metric_scores (metric_name metric_cfg) scores)) total))
       d0 mcs
   = foldl (\<lambda>d (k, v). dict_set k v d) d0 (total_items scores mcs)"
  by (induction mcs arbitrary: d0) (simp_all add: total_items_def)

lemma map_of_aggregate_scores:
  "map_of (aggregate_scores scores mcs) = map_of (rev (total_items scores mcs))"
  unfolding aggregate_scores_def aggregate_scores_foldl
  by (simp add: map_of_foldl_dict_set)

lemma map_fst_total_items:
  "map fst (total_items scores mcs)
   = concat (map (\<lambda>m. [metric_name m, metric_name m @ ''_se'']) mcs)"
  by (induction mcs) (simp_all add: total_items_def)

lemma map_of_total:
  assumes "distinct (concat (map (\<lambda>m. [metric_name m, metric_name m @ ''_se'']) mcs))"
    and "m \<in> set mcs"
  shows "map_of (aggregate_scores scores mcs) (metric_name m)
           = Some (mean (metric_scores (metric_name m) scores))"
    and "map_of (aggregate_scores scores mcs) (metric_name m @ ''_se'')
           = Some (standard_error (metric_scores (metric_name m) scores))"
proof -
  from assms(1) have d: "distinct (map fst (rev (total_items scores mcs)))"
    by (simp add: rev_map [symmetric] map_fst_total_items)
  from assms(2) have
    "(metric_name m, mean (metric_scores (metric_name m) scores))
       \<in> set (rev (total_items scores mcs))"
    "(metric_name m @ ''_se'', standard_error (metric_scores (metric_name m) scores))
       \<in> set (rev (total_items scores mcs))"
    by (auto simp: total_items_def)
  with d show "map_of (aggregate_scores scores mcs) (metric_name m)
           = Some (mean (metric_scores (metric_name m) scores))"
    and "map_of (aggregate_scores scores mcs) (metric_name m @ ''_se'')
           = Some (standard_error (metric_scores (metric_name m) scores))"
    by (simp_all add: map_of_aggregate_scores)
qed

text \<open>
  C4. The standard error of the scores of a metric is 0 for at most one score and
  otherwise the sample standard deviation (with \<open>n - 1\<close> in the denominator) divided
  by \<open>sqrt n\<close>. Where the keys of the total do not clash, the total holds for each
  metric its mean and, under the key with \<open>_se\<close> appended, its standard error, and
  the raw records are kept; with two identical score records every standard error in
  the total is 0.
\<close>

theorem standard_error_of_scores:
  "(length xs \<le> 1 \<longrightarrow> standard_error xs = 0)
   \<and> (1 < length xs \<longrightarrow>
        standard_error xs
        = sqrt (sum_list (map (\<lambda>x. (x - mean xs)\<^sup>2) xs) / (real (length xs) - 1))
          / sqrt (real (length xs)))
   \<and> (distinct (concat (map (\<lambda>m. [metric_name m, metric_name m @ ''_se'']) mcs))
       \<and> m \<in> set mcs
      \<longrightarrow> map_of (total (aggregate scores mcs)) (metric_name m @ ''_se'')
            = Some (standard_error (metric_scores (metric_name m) scores))
        \<and> map_of (total (aggregate scores mcs)) (metric_name m)
            = Some (mean (metric_scores (metric_name m) scores))
        \<and> raw (aggregate scores mcs) = scores)
   \<and> (distinct (concat (map (\<lambda>m. [metric_name m, metric_name m @ ''_se'']) mcs))
       \<and> m \<in> set mcs
      \<longrightarrow> map_of (total (aggregate [d, d] mcs)) (metric_name m @ ''_se'') = Some 0)"
proof (intro conjI impI)
  assume "length xs \<le> 1"
  then show "standard_error xs = 0" by (simp add: standard_error_def)
next
  assume "1 < length xs"
  then show "standard_error xs
        = sqrt (sum_list (map (\<lambda>x. (x - mean xs)\<^sup>2) xs) / (real (length xs) - 1))
          / sqrt (real (length xs))"
    by (simp add: standard_error_def sample_std_def)
next
  assume a: "distinct (concat (map (\<lambda>m. [metric_name m, metric_name m @ ''_se'']) mcs))
       \<and> m \<in> set mcs"
  then have d: "distinct (concat (map (\<lambda>m. [metric_name m, metric_name m @ ''_se'']) mcs))"
    and m: "m \<in> set mcs" by simp_all
  from map_of_total [OF d m, of scores]
  show "map_of (total (aggregate scores mcs)) (metric_name m @ ''_se'')
            = Some (standard_error (metric_scores (metric_name m) scores))"
    and "map_of (total (aggregate scores mcs)) (metric_name m)
            = Some (mean (metric_scores (metric_name m) scores))"
    by (simp_all add: aggregate_def)
  show "raw (aggregate scores mcs) = scores" by (simp add: aggregate_def)
next
  assume a: "distinct (concat (map (\<lambda>m. [metric_name m, metric_name m @ ''_se'']) mcs))
       \<and> m \<in> set mcs"
  then have d: "distinct (concat (map (\<lambda>m. [metric_name m, metric_name m @ ''_se'']) mcs))"
    and m: "m \<in> set mcs" by simp_all
  have "[d, d] = replicate 2 d" by (simp add: eval_nat_numeral)
  with standard_error_identical_records [of "metric_name m" 2 d]
  have "standard_error (metric_scores (metric_name m) [d, d]) = 0" by simp
  with map_of_total(2) [OF d m, of "[d, d]"]
  show "map_of (total (aggregate [d, d] mcs)) (metric_name m @ ''_se'') = Some 0"
    by (simp add: aggregate_def)
qed


lemma standard_error_pair: "standard_error [v, v] = 0"
  using standard_error_replicate [of 2 v] by (simp add: eval_nat_numeral)

lemma example_total:
  "total (aggregate [[(''macro_f1'', 1 / 3), (''mcc'', - 1 / 3)],
                     [(''macro_f1'', 1 / 3), (''mcc'', - 1 / 3)]] [macro_f1, mcc])
   = [(''macro_f1'', 1 / 3), (''macro_f1_se'', 0), (''mcc'', - 1 / 3), (''mcc_se'', 0)]"
  by (simp add: aggregate_def aggregate_scores_def metric_scores_def List.map_filter_simps
      mean_def standard_error_pair macro_f1_def mcc_def)

theorem standard_error_of_scores_witness:
  "standard_error [1 / 3] = 0
   \<and> standard_error [1, 3] = 1
   \<and> map_of (total (aggregate [[(''macro_f1'', 1 / 3), (''mcc'', - 1 / 3)],
                     [(''macro_f1'', 1 / 3), (''mcc'', - 1 / 3)]] [macro_f1, mcc])) ''mcc_se''
     = Some 0
   \<and> total (aggregate [[(''macro_f1'', 1 / 3), (''mcc'', - 1 / 3)],
                     [(''macro_f1'', 1 / 3), (''mcc'', - 1 / 3)]] [macro_f1, mcc])
     = [(''macro_f1'', 1 / 3), (''macro_f1_se'', 0), (''mcc'', - 1 / 3), (''mcc_se'', 0)]"
proof -
  let ?d = "[(''macro_f1'', 1 / 3 :: real), (''mcc'', - 1 / 3)]"
  note single = standard_error_of_scores [of "[1 / 3]" "[macro_f1, mcc]" mcc "[?d, ?d]" ?d]
  note pair = standard_error_of_scores [of "[1, 3]" "[macro_f1, mcc]" mcc "[?d, ?d]" ?d]
  have dist: "distinct (concat (map (\<lambda>m. [metric_name m, metric_name m @ ''_se''])
      [macro_f1, mcc]))"
    by (simp add: macro_f1_def mcc_def)
  have mem: "mcc \<in> set [macro_f1, mcc]" by simp
  have l1: "length [1 / 3 :: real] \<le> 1" and l2: "1 < length [1 :: real, 3]" by simp_all
  from single l1 have a: "standard_error [1 / 3] = 0" by blast
  from pair l2 have "standard_error [1, 3]
      = sqrt (sum_list (map (\<lambda>x. (x - mean [1, 3])\<^sup>2) [1, 3]) / (real (length [1 :: real, 3]) - 1))
        / sqrt (real (length [1 :: real, 3]))" by blast
  then have b: "standard_error [1, 3] = 1" by (simp add: mean_def)
  from single dist mem
  have "map_of (total (aggregate [?d, ?d] [macro_f1, mcc])) (metric_name mcc @ ''_se'') = Some 0"
    by blast
  then have c: "map_of (total (aggregate [?d, ?d] [macro_f1, mcc])) ''mcc_se'' = Some 0"
    by (simp add: mcc_def)
  from a b c example_total show ?thesis by blast
qed

end
